theory Spec2Isabelle
  imports Complex_Main
begin

section \<open>The ledger store of \<^verbatim>\<open>server.ts\<close>\<close>

text \<open>
  The server keeps one SQLite database and answers JSON requests. The embedding follows
  the schema of the \<^verbatim>\<open>db.exec\<close> call at the top of \<^verbatim>\<open>server.ts\<close>: one record type
  per table, one field per column. A table is the list of its rows in rowid order together
  with the counter that \<^verbatim>\<open>AUTOINCREMENT\<close> keeps for it. Amounts (SQL \<^verbatim>\<open>REAL\<close>, JavaScript
  numbers) are exact reals, quantities and identifiers are integers, and a column that the
  handlers can leave \<^verbatim>\<open>NULL\<close> on purpose is an option.

  The connection enforces the \<^verbatim>\<open>FOREIGN KEY\<close> clauses of the schema: the SQLite that
  \<^verbatim>\<open>better-sqlite3\<close> brings has them on, and no statement of the source turns them off. An
  \<^verbatim>\<open>INSERT\<close> whose reference is not \<^verbatim>\<open>NULL\<close> and names no row of the parent table is
  refused, and so is a \<^verbatim>\<open>DELETE\<close> of a row that a row of another table names.
\<close>

subsection \<open>Rows\<close>

record row =
  rowid :: int

record user = row +
  u_username :: string
  u_password :: string
  u_role :: "string option"

record product = row +
  p_name :: string
  p_category :: string
  p_brand :: string
  p_model :: string
  p_sku :: string
  p_price :: real
  p_cost :: real
  p_stock_quantity :: int
  p_opening_stock :: int
  p_min_stock_level :: int
  p_unit :: string
  p_notes :: string
  p_warehouse_id :: "int option"
  p_location :: string

record warehouse = row +
  w_name :: string
  w_location :: string
  w_notes :: string

record customer = row +
  c_name :: string
  c_phone :: string
  c_email :: string
  c_address :: string
  c_opening_balance :: real
  c_balance :: real
  c_notes :: string

record supplier = row +
  s_name :: string
  s_contact_person :: string
  s_phone :: string
  s_email :: string
  s_balance :: real
  s_notes :: string

record purchase = row +
  pu_supplier_id :: int
  pu_user_id :: "int option"
  pu_total_amount :: real
  pu_payment_status :: "string option"
  pu_created_at :: string

record purchase_item = row +
  pui_purchase_id :: int
  pui_product_id :: int
  pui_quantity :: int
  pui_unit_cost :: real
  pui_subtotal :: real

record supplier_transaction = row +
  stx_supplier_id :: int
  stx_type :: string
  stx_amount :: real
  stx_description :: string
  stx_created_at :: string

record sale = row +
  sa_customer_id :: "int option"
  sa_user_id :: "int option"
  sa_total_amount :: real
  sa_discount :: real
  sa_payment_status :: "string option"
  sa_payment_method :: string
  sa_created_at :: string

record sale_item = row +
  sai_sale_id :: int
  sai_product_id :: int
  sai_quantity :: int
  sai_unit_price :: real
  sai_subtotal :: real

record transaction_row = row +
  tx_customer_id :: int
  tx_type :: string
  tx_amount :: real
  tx_description :: string
  tx_created_at :: string

record maintenance_row = row +
  m_customer_name :: string
  m_customer_phone :: string
  m_device_model :: string
  m_imei :: string
  m_device_condition :: string
  m_fault_description :: string
  m_symptoms :: string
  m_maintenance_type :: string
  m_cost :: real
  m_status :: string
  m_notes :: string
  m_next_maintenance_date :: "string option"
  m_received_at :: string
  m_completed_at :: "string option"
  m_user_id :: "int option"

record ledger_entry = row +
  gl_type :: "string option"
  gl_category :: string
  gl_amount :: real
  gl_description :: string
  gl_created_at :: string

record stock_adjustment = row +
  adj_product_id :: int
  adj_type :: "string option"
  adj_quantity :: int
  adj_reason :: string
  adj_created_at :: string

subsection \<open>Tables and the database\<close>

record 'r table =
  rows :: "'r list"
  seq :: int

record database =
  users :: "user table"
  settings :: "(string \<times> string) list"
  products :: "product table"
  warehouses :: "warehouse table"
  suppliers :: "supplier table"
  supplier_transactions :: "supplier_transaction table"
  customers :: "customer table"
  sales :: "sale table"
  sale_items :: "sale_item table"
  transactions :: "transaction_row table"
  maintenance :: "maintenance_row table"
  purchases :: "purchase table"
  purchase_items :: "purchase_item table"
  general_ledger :: "ledger_entry table"
  stock_adjustments :: "stock_adjustment table"

text \<open>
  What a statement can throw: a constraint of the schema (\<^verbatim>\<open>CHECK\<close>, \<^verbatim>\<open>UNIQUE\<close>,
  \<^verbatim>\<open>PRIMARY KEY\<close>) refuses the row, a foreign key is left without its row, or the store
  itself fails (disk, lock).
\<close>

datatype error = SQLITE_CONSTRAINT | SQLITE_CONSTRAINT_FOREIGNKEY | SQLITE_IOERR

text \<open>
  The process around the database: \<open>db\<close> is the global handle of the source, \<open>io\<close> tells
  when the store fails (\<open>Some k\<close>: the statement after \<open>k\<close> more succeeds no longer;
  \<open>None\<close>: never), and \<open>now\<close> is what \<^verbatim>\<open>CURRENT_TIMESTAMP\<close> yields.
\<close>

record sys =
  db :: database
  io :: "nat option"
  now :: string

type_synonym 'a M = "sys \<Rightarrow> (error + 'a) \<times> sys"

definition ret :: "'a \<Rightarrow> 'a M" where
  "ret a s = (Inr a, s)"

definition andThen :: "'a M \<Rightarrow> ('a \<Rightarrow> 'b M) \<Rightarrow> 'b M" where
  "andThen m f s = (case m s of (Inl e, s') \<Rightarrow> (Inl e, s') | (Inr a, s') \<Rightarrow> f a s')"

text \<open>
  \<^verbatim>\<open>db.prepare(sql).run(...)\<close>, and \<^verbatim>\<open>.all()\<close> for the reads of the export: it throws when
  the store fails or the statement violates a constraint, and then changes nothing; otherwise
  the database is the statement's result. Outside a transaction every statement is committed
  on its own.
\<close>

definition run :: "(database \<Rightarrow> error + 'a \<times> database) \<Rightarrow> 'a M" where
  "run f s =
     (case io s of
        Some 0 \<Rightarrow> (Inl SQLITE_IOERR, s)
      | _ \<Rightarrow>
        (let s1 = s\<lparr>io := map_option (\<lambda>k. k - 1) (io s)\<rparr> in
         case f (db s) of
           Inl e \<Rightarrow> (Inl e, s1)
         | Inr (a, d') \<Rightarrow> (Inr a, s1\<lparr>db := d'\<rparr>)))"

text \<open>
  A statement whose columns default to \<^verbatim>\<open>CURRENT_TIMESTAMP\<close> is given the time. The
  \<^verbatim>\<open>SELECT\<close> of a balance helper reads the database; the \<^verbatim>\<open>UPDATE\<close> that follows it in
  the helper is where the helper fails when the store does, to the same effect.
\<close>

definition run_now :: "(string \<Rightarrow> database \<Rightarrow> error + 'a \<times> database) \<Rightarrow> 'a M" where
  "run_now f s = run (f (now s)) s"

definition query :: "(database \<Rightarrow> 'a) \<Rightarrow> 'a M" where
  "query f s = (Inr (f (db s)), s)"

text \<open>
  \<^verbatim>\<open>db.transaction(fn)()\<close>: the writes of \<open>fn\<close> are kept together when it returns and
  rolled back together when it throws; the exception is thrown on to the caller.
\<close>

definition transaction :: "'a M \<Rightarrow> 'a M" where
  "transaction m s =
     (case m s of
        (Inl e, s') \<Rightarrow> (Inl e, s'\<lparr>db := db s\<rparr>)
      | (Inr a, s') \<Rightarrow> (Inr a, s'))"

subsection \<open>Inserting rows\<close>

definition max_rowid :: "'a row_scheme list \<Rightarrow> int" where
  "max_rowid rs = foldr (\<lambda>r m. max (rowid r) m) rs 0"

text \<open>
  An insert that leaves \<^verbatim>\<open>id\<close> to \<^verbatim>\<open>AUTOINCREMENT\<close>: the new rowid is one more than the
  largest the table has ever held. \<open>ok\<close> is the table's constraint on the new row, given
  the rows already there. The result carries \<^verbatim>\<open>lastInsertRowid\<close>.
\<close>

definition next_rowid :: "'a row_scheme table \<Rightarrow> int" where
  "next_rowid t = max (seq t) (max_rowid (rows t)) + 1"

definition insert_auto ::
  "('a row_scheme \<Rightarrow> 'a row_scheme list \<Rightarrow> bool) \<Rightarrow> 'a row_scheme \<Rightarrow> 'a row_scheme table
     \<Rightarrow> error + int \<times> 'a row_scheme table" where
  "insert_auto ok r t =
     (let n = next_rowid t; r' = r\<lparr>rowid := n\<rparr>
      in if ok r' (rows t) then Inr (n, \<lparr>rows = rows t @ [r'], seq = n\<rparr>)
         else Inl SQLITE_CONSTRAINT)"

text \<open>The table after such an insert, when the constraint lets the row in.\<close>

definition append_auto :: "'a row_scheme \<Rightarrow> 'a row_scheme table \<Rightarrow> 'a row_scheme table" where
  "append_auto r t = \<lparr>rows = rows t @ [r\<lparr>rowid := next_rowid t\<rparr>], seq = next_rowid t\<rparr>"

text \<open>
  An insert that names the \<^verbatim>\<open>id\<close> (the restore does): the primary key must be new, the
  row takes its place in rowid order, and the counter never falls behind.
\<close>

definition insert_row ::
  "('a row_scheme \<Rightarrow> 'a row_scheme list \<Rightarrow> bool) \<Rightarrow> 'a row_scheme \<Rightarrow> 'a row_scheme table
     \<Rightarrow> error + 'a row_scheme table" where
  "insert_row ok r t =
     (if rowid r \<in> set (map rowid (rows t)) \<or> \<not> ok r (rows t) then Inl SQLITE_CONSTRAINT
      else Inr \<lparr>rows = insort_key rowid r (rows t), seq = max (seq t) (rowid r)\<rparr>)"

text \<open>The constraints of the schema, table by table.\<close>

definition enum_ok :: "string list \<Rightarrow> string option \<Rightarrow> bool" where
  "enum_ok vs v = (case v of None \<Rightarrow> True | Some x \<Rightarrow> x \<in> set vs)"

definition users_ok :: "user \<Rightarrow> user list \<Rightarrow> bool" where
  "users_ok r rs =
     (u_username r \<notin> set (map u_username rs) \<and>
      enum_ok [''admin'', ''accountant'', ''engineer''] (u_role r))"

definition products_ok :: "product \<Rightarrow> product list \<Rightarrow> bool" where
  "products_ok r rs = (p_sku r \<notin> set (map p_sku rs))"

definition no_constraint :: "'a \<Rightarrow> 'a list \<Rightarrow> bool" where
  "no_constraint r rs = True"

definition purchases_ok :: "purchase \<Rightarrow> purchase list \<Rightarrow> bool" where
  "purchases_ok r rs = enum_ok [''paid'', ''partial'', ''unpaid''] (pu_payment_status r)"

definition supplier_transactions_ok ::
  "supplier_transaction \<Rightarrow> supplier_transaction list \<Rightarrow> bool" where
  "supplier_transactions_ok r rs = (stx_type r \<in> set [''purchase'', ''payment''])"

definition sales_ok :: "sale \<Rightarrow> sale list \<Rightarrow> bool" where
  "sales_ok r rs = enum_ok [''paid'', ''partial'', ''unpaid''] (sa_payment_status r)"

definition transactions_ok :: "transaction_row \<Rightarrow> transaction_row list \<Rightarrow> bool" where
  "transactions_ok r rs = (tx_type r \<in> set [''sale'', ''payment''])"

definition general_ledger_ok :: "ledger_entry \<Rightarrow> ledger_entry list \<Rightarrow> bool" where
  "general_ledger_ok r rs = enum_ok [''revenue'', ''expense''] (gl_type r)"

definition stock_adjustments_ok :: "stock_adjustment \<Rightarrow> stock_adjustment list \<Rightarrow> bool" where
  "stock_adjustments_ok r rs = enum_ok [''damaged'', ''correction'', ''lost''] (adj_type r)"

text \<open>
  The foreign keys of the schema, table by table: \<open>refers k t\<close> when \<open>t\<close> has a row whose
  \<^verbatim>\<open>id\<close> is \<open>k\<close>; a \<^verbatim>\<open>NULL\<close> refers to nothing and passes.
\<close>

definition refers :: "int \<Rightarrow> 'a row_scheme table \<Rightarrow> bool" where
  "refers k t = (k \<in> set (map rowid (rows t)))"

definition refers_opt :: "int option \<Rightarrow> 'a row_scheme table \<Rightarrow> bool" where
  "refers_opt v t = (case v of None \<Rightarrow> True | Some k \<Rightarrow> refers k t)"

definition no_reference :: "'a \<Rightarrow> database \<Rightarrow> bool" where
  "no_reference r d = True"

definition purchases_fk :: "purchase \<Rightarrow> database \<Rightarrow> bool" where
  "purchases_fk r d = (refers (pu_supplier_id r) (suppliers d) \<and> refers_opt (pu_user_id r) (users d))"

definition purchase_items_fk :: "purchase_item \<Rightarrow> database \<Rightarrow> bool" where
  "purchase_items_fk r d =
     (refers (pui_purchase_id r) (purchases d) \<and> refers (pui_product_id r) (products d))"

definition supplier_transactions_fk :: "supplier_transaction \<Rightarrow> database \<Rightarrow> bool" where
  "supplier_transactions_fk r d = refers (stx_supplier_id r) (suppliers d)"

definition sales_fk :: "sale \<Rightarrow> database \<Rightarrow> bool" where
  "sales_fk r d = (refers_opt (sa_customer_id r) (customers d) \<and> refers_opt (sa_user_id r) (users d))"

definition sale_items_fk :: "sale_item \<Rightarrow> database \<Rightarrow> bool" where
  "sale_items_fk r d = (refers (sai_sale_id r) (sales d) \<and> refers (sai_product_id r) (products d))"

definition transactions_fk :: "transaction_row \<Rightarrow> database \<Rightarrow> bool" where
  "transactions_fk r d = refers (tx_customer_id r) (customers d)"

definition maintenance_fk :: "maintenance_row \<Rightarrow> database \<Rightarrow> bool" where
  "maintenance_fk r d = refers_opt (m_user_id r) (users d)"

definition stock_adjustments_fk :: "stock_adjustment \<Rightarrow> database \<Rightarrow> bool" where
  "stock_adjustments_fk r d = refers (adj_product_id r) (products d)"

text \<open>
  The other side of a foreign key: the keys that the rows of the child tables hold into a
  parent table.
\<close>

definition held_users :: "database \<Rightarrow> int list" where
  "held_users d =
     [k. Some k \<leftarrow> map pu_user_id (rows (purchases d))] @
     [k. Some k \<leftarrow> map sa_user_id (rows (sales d))] @
     [k. Some k \<leftarrow> map m_user_id (rows (maintenance d))]"

definition held_products :: "database \<Rightarrow> int list" where
  "held_products d =
     map pui_product_id (rows (purchase_items d)) @
     map sai_product_id (rows (sale_items d)) @
     map adj_product_id (rows (stock_adjustments d))"

definition held_suppliers :: "database \<Rightarrow> int list" where
  "held_suppliers d =
     map pu_supplier_id (rows (purchases d)) @
     map stx_supplier_id (rows (supplier_transactions d))"

definition held_customers :: "database \<Rightarrow> int list" where
  "held_customers d =
     [k. Some k \<leftarrow> map sa_customer_id (rows (sales d))] @
     map tx_customer_id (rows (transactions d))"

definition held_sales :: "database \<Rightarrow> int list" where
  "held_sales d = map sai_sale_id (rows (sale_items d))"

definition held_purchases :: "database \<Rightarrow> int list" where
  "held_purchases d = map pui_purchase_id (rows (purchase_items d))"

definition not_held :: "database \<Rightarrow> int list" where
  "not_held d = []"

text \<open>Template literals print identifiers in decimal.\<close>

fun string_of_nat :: "nat \<Rightarrow> string" where
  "string_of_nat n =
     (if n < 10 then [''0123456789'' ! n]
      else string_of_nat (n div 10) @ [''0123456789'' ! (n mod 10)])"

declare string_of_nat.simps [simp del]

definition string_of_int :: "int \<Rightarrow> string" where
  "string_of_int i = (if i < 0 then ''-'' @ string_of_nat (nat (- i)) else string_of_nat (nat i))"

subsection \<open>Statements\<close>

text \<open>
  A statement is a function on the database. \<open>get\<close> and \<open>put\<close> select the table an
  \<^verbatim>\<open>INSERT\<close> or \<^verbatim>\<open>DELETE\<close> names, \<open>ok\<close> is the constraint of the table and \<open>fk\<close> its
  foreign keys, which are looked at when the row has passed the constraint.
\<close>

definition insert_new ::
  "(database \<Rightarrow> 'a row_scheme table) \<Rightarrow> ('a row_scheme table \<Rightarrow> database \<Rightarrow> database)
     \<Rightarrow> ('a row_scheme \<Rightarrow> 'a row_scheme list \<Rightarrow> bool) \<Rightarrow> ('a row_scheme \<Rightarrow> database \<Rightarrow> bool)
     \<Rightarrow> 'a row_scheme \<Rightarrow> database \<Rightarrow> error + int \<times> database" where
  "insert_new get put ok fk r d =
     (case insert_auto ok r (get d) of
        Inl e \<Rightarrow> Inl e
      | Inr (n, t) \<Rightarrow> if fk r d then Inr (n, put t d) else Inl SQLITE_CONSTRAINT_FOREIGNKEY)"

definition insert_into ::
  "(database \<Rightarrow> 'a row_scheme table) \<Rightarrow> ('a row_scheme table \<Rightarrow> database \<Rightarrow> database)
     \<Rightarrow> ('a row_scheme \<Rightarrow> 'a row_scheme list \<Rightarrow> bool) \<Rightarrow> ('a row_scheme \<Rightarrow> database \<Rightarrow> bool)
     \<Rightarrow> 'a row_scheme \<Rightarrow> database \<Rightarrow> error + unit \<times> database" where
  "insert_into get put ok fk r d =
     (case insert_row ok r (get d) of
        Inl e \<Rightarrow> Inl e
      | Inr t \<Rightarrow> if fk r d then Inr ((), put t d) else Inl SQLITE_CONSTRAINT_FOREIGNKEY)"

text \<open>
  \<^verbatim>\<open>DELETE FROM\<close> a table, all rows: refused while a key that another table holds (\<open>held\<close>)
  names one of the rows.
\<close>

definition blocked :: "(database \<Rightarrow> 'a row_scheme table) \<Rightarrow> (database \<Rightarrow> int list) \<Rightarrow> database \<Rightarrow> bool" where
  "blocked get held d = list_ex (\<lambda>k. refers k (get d)) (held d)"

definition delete_from ::
  "(database \<Rightarrow> 'a row_scheme table) \<Rightarrow> ('a row_scheme table \<Rightarrow> database \<Rightarrow> database)
     \<Rightarrow> (database \<Rightarrow> int list) \<Rightarrow> database \<Rightarrow> error + unit \<times> database" where
  "delete_from get put held d =
     (if blocked get held d then Inl SQLITE_CONSTRAINT_FOREIGNKEY
      else Inr ((), put ((get d)\<lparr>rows := []\<rparr>) d))"

definition update_where :: "('r \<Rightarrow> bool) \<Rightarrow> ('r \<Rightarrow> 'r) \<Rightarrow> 'r table \<Rightarrow> 'r table" where
  "update_where p f t = t\<lparr>rows := map (\<lambda>r. if p r then f r else r) (rows t)\<rparr>"

text \<open>
  The \<^verbatim>\<open>INSERT\<close> statements of the handlers. Each \<open>_values\<close> function is the
  \<^verbatim>\<open>VALUES\<close> list of the statement next to it: the columns it names, in a row whose
  \<^verbatim>\<open>id\<close> is still to be assigned.
\<close>

definition insert_customer ::
  "string \<Rightarrow> string \<Rightarrow> string \<Rightarrow> string \<Rightarrow> real \<Rightarrow> real \<Rightarrow> string
     \<Rightarrow> database \<Rightarrow> error + int \<times> database" where
  "insert_customer name phone email address opening_balance balance notes =
     insert_new customers (\<lambda>t d. d\<lparr>customers := t\<rparr>) no_constraint no_reference
       \<lparr>rowid = 0, c_name = name, c_phone = phone, c_email = email, c_address = address,
        c_opening_balance = opening_balance, c_balance = balance, c_notes = notes\<rparr>"

definition insert_supplier ::
  "string \<Rightarrow> string \<Rightarrow> string \<Rightarrow> string \<Rightarrow> string
     \<Rightarrow> database \<Rightarrow> error + int \<times> database" where
  "insert_supplier name contact_person phone email notes =
     insert_new suppliers (\<lambda>t d. d\<lparr>suppliers := t\<rparr>) no_constraint no_reference
       \<lparr>rowid = 0, s_name = name, s_contact_person = contact_person, s_phone = phone,
        s_email = email, s_balance = 0, s_notes = notes\<rparr>"

definition transaction_values :: "int \<Rightarrow> string \<Rightarrow> real \<Rightarrow> string \<Rightarrow> string \<Rightarrow> transaction_row" where
  "transaction_values customer_id type amount description ts =
     \<lparr>rowid = 0, tx_customer_id = customer_id, tx_type = type, tx_amount = amount,
      tx_description = description, tx_created_at = ts\<rparr>"

definition insert_transaction ::
  "int \<Rightarrow> string \<Rightarrow> real \<Rightarrow> string \<Rightarrow> string \<Rightarrow> database \<Rightarrow> error + int \<times> database" where
  "insert_transaction customer_id type amount description ts =
     insert_new transactions (\<lambda>t d. d\<lparr>transactions := t\<rparr>) transactions_ok transactions_fk
       (transaction_values customer_id type amount description ts)"

definition supplier_transaction_values ::
  "int \<Rightarrow> string \<Rightarrow> real \<Rightarrow> string \<Rightarrow> string \<Rightarrow> supplier_transaction" where
  "supplier_transaction_values supplier_id type amount description ts =
     \<lparr>rowid = 0, stx_supplier_id = supplier_id, stx_type = type, stx_amount = amount,
      stx_description = description, stx_created_at = ts\<rparr>"

definition insert_supplier_transaction ::
  "int \<Rightarrow> string \<Rightarrow> real \<Rightarrow> string \<Rightarrow> string \<Rightarrow> database \<Rightarrow> error + int \<times> database" where
  "insert_supplier_transaction supplier_id type amount description ts =
     insert_new supplier_transactions (\<lambda>t d. d\<lparr>supplier_transactions := t\<rparr>)
       supplier_transactions_ok supplier_transactions_fk
       (supplier_transaction_values supplier_id type amount description ts)"

definition sale_values ::
  "int option \<Rightarrow> int option \<Rightarrow> real \<Rightarrow> real \<Rightarrow> string option \<Rightarrow> string \<Rightarrow> string \<Rightarrow> sale" where
  "sale_values customer_id user_id total_amount discount payment_status payment_method ts =
     \<lparr>rowid = 0, sa_customer_id = customer_id, sa_user_id = user_id,
      sa_total_amount = total_amount, sa_discount = discount,
      sa_payment_status = payment_status, sa_payment_method = payment_method,
      sa_created_at = ts\<rparr>"

definition insert_sale ::
  "int option \<Rightarrow> int option \<Rightarrow> real \<Rightarrow> real \<Rightarrow> string option \<Rightarrow> string \<Rightarrow> string
     \<Rightarrow> database \<Rightarrow> error + int \<times> database" where
  "insert_sale customer_id user_id total_amount discount payment_status payment_method ts =
     insert_new sales (\<lambda>t d. d\<lparr>sales := t\<rparr>) sales_ok sales_fk
       (sale_values customer_id user_id total_amount discount payment_status payment_method ts)"

definition purchase_values :: "int \<Rightarrow> int option \<Rightarrow> real \<Rightarrow> string option \<Rightarrow> string \<Rightarrow> purchase" where
  "purchase_values supplier_id user_id total_amount payment_status ts =
     \<lparr>rowid = 0, pu_supplier_id = supplier_id, pu_user_id = user_id,
      pu_total_amount = total_amount, pu_payment_status = payment_status,
      pu_created_at = ts\<rparr>"

definition insert_purchase ::
  "int \<Rightarrow> int option \<Rightarrow> real \<Rightarrow> string option \<Rightarrow> string
     \<Rightarrow> database \<Rightarrow> error + int \<times> database" where
  "insert_purchase supplier_id user_id total_amount payment_status ts =
     insert_new purchases (\<lambda>t d. d\<lparr>purchases := t\<rparr>) purchases_ok purchases_fk
       (purchase_values supplier_id user_id total_amount payment_status ts)"

definition stock_adjustment_values ::
  "int \<Rightarrow> string option \<Rightarrow> int \<Rightarrow> string \<Rightarrow> string \<Rightarrow> stock_adjustment" where
  "stock_adjustment_values product_id type quantity reason ts =
     \<lparr>rowid = 0, adj_product_id = product_id, adj_type = type, adj_quantity = quantity,
      adj_reason = reason, adj_created_at = ts\<rparr>"

definition insert_stock_adjustment ::
  "int \<Rightarrow> string option \<Rightarrow> int \<Rightarrow> string \<Rightarrow> string
     \<Rightarrow> database \<Rightarrow> error + int \<times> database" where
  "insert_stock_adjustment product_id type quantity reason ts =
     insert_new stock_adjustments (\<lambda>t d. d\<lparr>stock_adjustments := t\<rparr>) stock_adjustments_ok stock_adjustments_fk
       (stock_adjustment_values product_id type quantity reason ts)"

text \<open>A line of a sale or a purchase as the request body carries it.\<close>

record item =
  i_product_id :: int
  i_quantity :: int
  i_unit_price :: real
  i_unit_cost :: real
  i_subtotal :: real

definition sale_item_values :: "int \<Rightarrow> item \<Rightarrow> sale_item" where
  "sale_item_values saleId item =
     \<lparr>rowid = 0, sai_sale_id = saleId, sai_product_id = i_product_id item,
      sai_quantity = i_quantity item, sai_unit_price = i_unit_price item,
      sai_subtotal = i_subtotal item\<rparr>"

definition insert_sale_item :: "int \<Rightarrow> item \<Rightarrow> database \<Rightarrow> error + int \<times> database" where
  "insert_sale_item saleId item =
     insert_new sale_items (\<lambda>t d. d\<lparr>sale_items := t\<rparr>) no_constraint sale_items_fk
       (sale_item_values saleId item)"

definition purchase_item_values :: "int \<Rightarrow> item \<Rightarrow> purchase_item" where
  "purchase_item_values purchaseId item =
     \<lparr>rowid = 0, pui_purchase_id = purchaseId, pui_product_id = i_product_id item,
      pui_quantity = i_quantity item, pui_unit_cost = i_unit_cost item,
      pui_subtotal = i_subtotal item\<rparr>"

definition insert_purchase_item :: "int \<Rightarrow> item \<Rightarrow> database \<Rightarrow> error + int \<times> database" where
  "insert_purchase_item purchaseId item =
     insert_new purchase_items (\<lambda>t d. d\<lparr>purchase_items := t\<rparr>) no_constraint purchase_items_fk
       (purchase_item_values purchaseId item)"

text \<open>The \<^verbatim>\<open>UPDATE\<close> statements.\<close>

definition update_stock_sub :: "int \<Rightarrow> int \<Rightarrow> database \<Rightarrow> error + unit \<times> database" where
  \<comment> \<open>\<^verbatim>\<open>UPDATE products SET stock_quantity = stock_quantity - ? WHERE id = ?\<close>\<close>
  "update_stock_sub q pid d =
     Inr ((), d\<lparr>products :=
       update_where (\<lambda>p. rowid p = pid)
         (\<lambda>p. p\<lparr>p_stock_quantity := p_stock_quantity p - q\<rparr>) (products d)\<rparr>)"

definition update_stock_cost :: "int \<Rightarrow> real \<Rightarrow> int \<Rightarrow> database \<Rightarrow> error + unit \<times> database" where
  \<comment> \<open>\<^verbatim>\<open>UPDATE products SET stock_quantity = stock_quantity + ?, cost = ? WHERE id = ?\<close>\<close>
  "update_stock_cost q c pid d =
     Inr ((), d\<lparr>products :=
       update_where (\<lambda>p. rowid p = pid)
         (\<lambda>p. p\<lparr>p_stock_quantity := p_stock_quantity p + q, p_cost := c\<rparr>) (products d)\<rparr>)"

definition update_customer_balance :: "real \<Rightarrow> int \<Rightarrow> database \<Rightarrow> error + unit \<times> database" where
  \<comment> \<open>\<^verbatim>\<open>UPDATE customers SET balance = ? WHERE id = ?\<close>\<close>
  "update_customer_balance balance customerId d =
     Inr ((), d\<lparr>customers :=
       update_where (\<lambda>c. rowid c = customerId) (\<lambda>c. c\<lparr>c_balance := balance\<rparr>) (customers d)\<rparr>)"

definition update_supplier_balance :: "real \<Rightarrow> int \<Rightarrow> database \<Rightarrow> error + unit \<times> database" where
  \<comment> \<open>\<^verbatim>\<open>UPDATE suppliers SET balance = ? WHERE id = ?\<close>\<close>
  "update_supplier_balance balance supplierId d =
     Inr ((), d\<lparr>suppliers :=
       update_where (\<lambda>c. rowid c = supplierId) (\<lambda>c. c\<lparr>s_balance := balance\<rparr>) (suppliers d)\<rparr>)"

subsection \<open>The balance helpers\<close>

text \<open>
  \<^verbatim>\<open>SELECT SUM(CASE WHEN type = k THEN amount ELSE 0 END)\<close> over the rows \<open>rs\<close> the
  \<^verbatim>\<open>WHERE\<close> clause selects: \<^verbatim>\<open>NULL\<close> when there is none. \<^verbatim>\<open>x || 0\<close> reads \<^verbatim>\<open>NULL\<close> as 0.
\<close>

definition sum_case :: "('r \<Rightarrow> string) \<Rightarrow> ('r \<Rightarrow> real) \<Rightarrow> string \<Rightarrow> 'r list \<Rightarrow> real option" where
  "sum_case type amount k rs =
     (if rs = [] then None
      else Some (sum_list (map (\<lambda>r. if type r = k then amount r else 0) rs)))"

definition or_zero :: "real option \<Rightarrow> real" where
  "or_zero v = (case v of None \<Rightarrow> 0 | Some x \<Rightarrow> x)"

definition customer_balance :: "int \<Rightarrow> transaction_row list \<Rightarrow> real" where
  \<comment> \<open>\<open>ts\<close>: the rows of \<^verbatim>\<open>transactions\<close>\<close>
  "customer_balance customerId ts =
     (let mine = filter (\<lambda>t. tx_customer_id t = customerId) ts;
          total_sales = sum_case tx_type tx_amount ''sale'' mine;
          total_payments = sum_case tx_type tx_amount ''payment'' mine
      in or_zero total_sales - or_zero total_payments)"

definition updateCustomerBalance :: "int \<Rightarrow> unit M" where
  "updateCustomerBalance customerId =
     andThen (query (\<lambda>d. customer_balance customerId (rows (transactions d))))
       (\<lambda>balance. run (update_customer_balance balance customerId))"

definition supplier_balance :: "int \<Rightarrow> supplier_transaction list \<Rightarrow> real" where
  \<comment> \<open>\<open>ts\<close>: the rows of \<^verbatim>\<open>supplier_transactions\<close>\<close>
  "supplier_balance supplierId ts =
     (let mine = filter (\<lambda>t. stx_supplier_id t = supplierId) ts;
          total_purchases = sum_case stx_type stx_amount ''purchase'' mine;
          total_payments = sum_case stx_type stx_amount ''payment'' mine
      in or_zero total_purchases - or_zero total_payments)"

definition updateSupplierBalance :: "int \<Rightarrow> unit M" where
  "updateSupplierBalance supplierId =
     andThen (query (\<lambda>d. supplier_balance supplierId (rows (supplier_transactions d))))
       (\<lambda>balance. run (update_supplier_balance balance supplierId))"

subsection \<open>Backups\<close>

text \<open>
  The body of a backup: one array of rows per table name. A field is \<open>None\<close> when the
  object has no such key (the restore tests \<^verbatim>\<open>if (backup[table])\<close>). The rows have the
  shape \<^verbatim>\<open>SELECT *\<close> gives them, every column of the table with the \<^verbatim>\<open>id\<close>.
\<close>

record backup =
  b_users :: "user list option"
  b_settings :: "(string \<times> string) list option"
  b_products :: "product list option"
  b_warehouses :: "warehouse list option"
  b_suppliers :: "supplier list option"
  b_supplier_transactions :: "supplier_transaction list option"
  b_customers :: "customer list option"
  b_sales :: "sale list option"
  b_sale_items :: "sale_item list option"
  b_transactions :: "transaction_row list option"
  b_maintenance :: "maintenance_row list option"
  b_purchases :: "purchase list option"
  b_purchase_items :: "purchase_item list option"
  b_general_ledger :: "ledger_entry list option"
  b_stock_adjustments :: "stock_adjustment list option"

subsection \<open>Responses\<close>

datatype body = Id int | Success | Error error | Backup backup

record response =
  status :: nat
  body :: body

subsection \<open>Customers and payments\<close>

definition post_customers ::
  "string \<Rightarrow> string \<Rightarrow> string \<Rightarrow> string \<Rightarrow> real \<Rightarrow> string \<Rightarrow> sys \<Rightarrow> response \<times> sys" where
  "post_customers name phone email address opening_balance notes s =
     (case run (insert_customer name phone email address opening_balance opening_balance notes) s of
        (Inr lastInsertRowid, s') \<Rightarrow> (\<lparr>status = 200, body = Id lastInsertRowid\<rparr>, s')
      | (Inl e, s') \<Rightarrow> (\<lparr>status = 500, body = Error e\<rparr>, s'))"

definition post_suppliers ::
  "string \<Rightarrow> string \<Rightarrow> string \<Rightarrow> string \<Rightarrow> string \<Rightarrow> sys \<Rightarrow> response \<times> sys" where
  "post_suppliers name contact_person phone email notes s =
     (case run (insert_supplier name contact_person phone email notes) s of
        (Inr lastInsertRowid, s') \<Rightarrow> (\<lparr>status = 200, body = Id lastInsertRowid\<rparr>, s')
      | (Inl e, s') \<Rightarrow> (\<lparr>status = 500, body = Error e\<rparr>, s'))"

text \<open>
  \<^verbatim>\<open>POST /api/payments\<close> has neither \<^verbatim>\<open>db.transaction\<close> nor \<^verbatim>\<open>try\<close>: an exception leaves
  the handler and the framework answers 500.
\<close>

definition post_payments :: "int \<Rightarrow> real \<Rightarrow> string \<Rightarrow> sys \<Rightarrow> response \<times> sys" where
  "post_payments customer_id amount description s =
     (case andThen (run_now (insert_transaction customer_id ''payment'' amount description))
             (\<lambda>lastInsertRowid.
           andThen (updateCustomerBalance customer_id)
             (\<lambda>_. ret lastInsertRowid)) s of
        (Inr lastInsertRowid, s') \<Rightarrow> (\<lparr>status = 200, body = Id lastInsertRowid\<rparr>, s')
      | (Inl e, s') \<Rightarrow> (\<lparr>status = 500, body = Error e\<rparr>, s'))"

text \<open>
  \<^verbatim>\<open>POST /api/supplier-payments\<close> catches the exception and answers 400; it has no
  \<^verbatim>\<open>db.transaction\<close> either. \<^verbatim>\<open>description || 'Payment to supplier'\<close> replaces an empty
  description.
\<close>

definition post_supplier_payments :: "int \<Rightarrow> real \<Rightarrow> string \<Rightarrow> sys \<Rightarrow> response \<times> sys" where
  "post_supplier_payments supplier_id amount description s =
     (case andThen (run_now (insert_supplier_transaction supplier_id ''payment'' amount
                      (if description = [] then ''Payment to supplier'' else description)))
             (\<lambda>_. updateSupplierBalance supplier_id) s of
        (Inr _, s') \<Rightarrow> (\<lparr>status = 200, body = Success\<rparr>, s')
      | (Inl e, s') \<Rightarrow> (\<lparr>status = 400, body = Error e\<rparr>, s'))"

subsection \<open>Sales\<close>

fun sale_items_loop :: "int \<Rightarrow> item list \<Rightarrow> unit M" where
  "sale_items_loop saleId [] = ret ()"
| "sale_items_loop saleId (item # items) =
     andThen (run (insert_sale_item saleId item))
       (\<lambda>_. andThen (run (update_stock_sub (i_quantity item) (i_product_id item)))
       (\<lambda>_. sale_items_loop saleId items))"

definition truthy :: "int option \<Rightarrow> bool" where
  \<comment> \<open>\<^verbatim>\<open>if (customer_id)\<close>: neither missing nor 0\<close>
  "truthy v = (case v of None \<Rightarrow> False | Some n \<Rightarrow> n \<noteq> 0)"

definition sale_body ::
  "int option \<Rightarrow> int option \<Rightarrow> real \<Rightarrow> real \<Rightarrow> string option \<Rightarrow> string \<Rightarrow> item list
     \<Rightarrow> int M" where
  "sale_body customer_id user_id total_amount discount payment_status payment_method items =
     andThen (run_now (insert_sale customer_id user_id total_amount discount payment_status
                         payment_method))
       (\<lambda>saleId.
     andThen
       (if truthy customer_id then
          andThen (run_now (insert_transaction (the customer_id) ''sale'' total_amount
                              (''Sale #'' @ string_of_int saleId)))
            (\<lambda>_.
          andThen
            (if payment_status = Some ''paid'' then
               andThen (run_now (insert_transaction (the customer_id) ''payment'' total_amount
                                   (''Payment for Sale #'' @ string_of_int saleId)))
                 (\<lambda>_. ret ())
             else ret ())
            (\<lambda>_. updateCustomerBalance (the customer_id)))
        else ret ())
       (\<lambda>_.
     andThen (sale_items_loop saleId items)
       (\<lambda>_. ret saleId)))"

definition post_sales ::
  "int option \<Rightarrow> int option \<Rightarrow> real \<Rightarrow> real \<Rightarrow> string option \<Rightarrow> string \<Rightarrow> item list
     \<Rightarrow> sys \<Rightarrow> response \<times> sys" where
  "post_sales customer_id user_id total_amount discount payment_status payment_method items s =
     (case transaction (sale_body customer_id user_id total_amount discount payment_status
                          payment_method items) s of
        (Inr newId, s') \<Rightarrow> (\<lparr>status = 200, body = Id newId\<rparr>, s')
      | (Inl e, s') \<Rightarrow> (\<lparr>status = 400, body = Error e\<rparr>, s'))"

subsection \<open>Purchases\<close>

fun purchase_items_loop :: "int \<Rightarrow> item list \<Rightarrow> unit M" where
  "purchase_items_loop purchaseId [] = ret ()"
| "purchase_items_loop purchaseId (item # items) =
     andThen (run (insert_purchase_item purchaseId item))
       (\<lambda>_. andThen (run (update_stock_cost (i_quantity item) (i_unit_cost item) (i_product_id item)))
       (\<lambda>_. purchase_items_loop purchaseId items))"

definition purchase_body ::
  "int \<Rightarrow> int option \<Rightarrow> real \<Rightarrow> string option \<Rightarrow> item list \<Rightarrow> int M" where
  "purchase_body supplier_id user_id total_amount payment_status items =
     andThen (run_now (insert_purchase supplier_id user_id total_amount payment_status))
       (\<lambda>purchaseId.
     andThen (run_now (insert_supplier_transaction supplier_id ''purchase'' total_amount
                         (''Purchase #'' @ string_of_int purchaseId)))
       (\<lambda>_.
     andThen
       (if payment_status = Some ''paid'' then
          andThen (run_now (insert_supplier_transaction supplier_id ''payment'' total_amount
                              (''Payment for Purchase #'' @ string_of_int purchaseId)))
            (\<lambda>_. ret ())
        else ret ())
       (\<lambda>_.
     andThen (updateSupplierBalance supplier_id)
       (\<lambda>_.
     andThen (purchase_items_loop purchaseId items)
       (\<lambda>_. ret purchaseId)))))"

definition post_purchases ::
  "int \<Rightarrow> int option \<Rightarrow> real \<Rightarrow> string option \<Rightarrow> item list \<Rightarrow> sys \<Rightarrow> response \<times> sys" where
  "post_purchases supplier_id user_id total_amount payment_status items s =
     (case transaction (purchase_body supplier_id user_id total_amount payment_status items) s of
        (Inr newId, s') \<Rightarrow> (\<lparr>status = 200, body = Id newId\<rparr>, s')
      | (Inl e, s') \<Rightarrow> (\<lparr>status = 400, body = Error e\<rparr>, s'))"

subsection \<open>Stock adjustments\<close>

definition stock_adjustment_body :: "int \<Rightarrow> string option \<Rightarrow> int \<Rightarrow> string \<Rightarrow> unit M" where
  "stock_adjustment_body product_id type quantity reason =
     andThen (run_now (insert_stock_adjustment product_id type quantity reason))
       (\<lambda>_. run (update_stock_sub quantity product_id))"

definition post_stock_adjustments ::
  "int \<Rightarrow> string option \<Rightarrow> int \<Rightarrow> string \<Rightarrow> sys \<Rightarrow> response \<times> sys" where
  "post_stock_adjustments product_id type quantity reason s =
     (case transaction (stock_adjustment_body product_id type quantity reason) s of
        (Inr _, s') \<Rightarrow> (\<lparr>status = 200, body = Success\<rparr>, s')
      | (Inl e, s') \<Rightarrow> (\<lparr>status = 400, body = Error e\<rparr>, s'))"

subsection \<open>Backup and restore\<close>

text \<open>
  \<^verbatim>\<open>GET /api/backup/export\<close>: \<^verbatim>\<open>SELECT *\<close> of every table of \<^verbatim>\<open>TABLES\<close>, in that
  order, inside a \<^verbatim>\<open>try\<close> that answers 500. \<open>backup_of\<close> is the snapshot of a database.
\<close>

definition backup_of :: "database \<Rightarrow> backup" where
  "backup_of d =
     \<lparr>b_users = Some (rows (users d)),
          b_settings = Some (settings d),
          b_products = Some (rows (products d)),
          b_warehouses = Some (rows (warehouses d)),
          b_suppliers = Some (rows (suppliers d)),
          b_supplier_transactions = Some (rows (supplier_transactions d)),
          b_customers = Some (rows (customers d)),
          b_sales = Some (rows (sales d)),
          b_sale_items = Some (rows (sale_items d)),
          b_transactions = Some (rows (transactions d)),
          b_maintenance = Some (rows (maintenance d)),
          b_purchases = Some (rows (purchases d)),
          b_purchase_items = Some (rows (purchase_items d)),
          b_general_ledger = Some (rows (general_ledger d)),
          b_stock_adjustments = Some (rows (stock_adjustments d))\<rparr>"

definition select_all :: "(database \<Rightarrow> 'a) \<Rightarrow> database \<Rightarrow> error + 'a \<times> database" where
  "select_all get d = Inr (get d, d)"

definition export_body :: "backup M" where
  "export_body =
     andThen (run (select_all (\<lambda>d. rows (users d)))) (\<lambda>users.
     andThen (run (select_all (\<lambda>d. settings d))) (\<lambda>settings.
     andThen (run (select_all (\<lambda>d. rows (products d)))) (\<lambda>products.
     andThen (run (select_all (\<lambda>d. rows (warehouses d)))) (\<lambda>warehouses.
     andThen (run (select_all (\<lambda>d. rows (suppliers d)))) (\<lambda>suppliers.
     andThen (run (select_all (\<lambda>d. rows (supplier_transactions d)))) (\<lambda>supplier_transactions.
     andThen (run (select_all (\<lambda>d. rows (customers d)))) (\<lambda>customers.
     andThen (run (select_all (\<lambda>d. rows (sales d)))) (\<lambda>sales.
     andThen (run (select_all (\<lambda>d. rows (sale_items d)))) (\<lambda>sale_items.
     andThen (run (select_all (\<lambda>d. rows (transactions d)))) (\<lambda>transactions.
     andThen (run (select_all (\<lambda>d. rows (maintenance d)))) (\<lambda>maintenance.
     andThen (run (select_all (\<lambda>d. rows (purchases d)))) (\<lambda>purchases.
     andThen (run (select_all (\<lambda>d. rows (purchase_items d)))) (\<lambda>purchase_items.
     andThen (run (select_all (\<lambda>d. rows (general_ledger d)))) (\<lambda>general_ledger.
     andThen (run (select_all (\<lambda>d. rows (stock_adjustments d)))) (\<lambda>stock_adjustments.
     ret \<lparr>b_users = Some users,
          b_settings = Some settings,
          b_products = Some products,
          b_warehouses = Some warehouses,
          b_suppliers = Some suppliers,
          b_supplier_transactions = Some supplier_transactions,
          b_customers = Some customers,
          b_sales = Some sales,
          b_sale_items = Some sale_items,
          b_transactions = Some transactions,
          b_maintenance = Some maintenance,
          b_purchases = Some purchases,
          b_purchase_items = Some purchase_items,
          b_general_ledger = Some general_ledger,
          b_stock_adjustments = Some stock_adjustments\<rparr>)))))))))))))))"

definition get_backup_export :: "sys \<Rightarrow> response \<times> sys" where
  "get_backup_export s =
     (case export_body s of
        (Inr backup, s') \<Rightarrow> (\<lparr>status = 200, body = Backup backup\<rparr>, s')
      | (Inl e, s') \<Rightarrow> (\<lparr>status = 500, body = Error e\<rparr>, s'))"

text \<open>
  \<^verbatim>\<open>POST /api/backup/import\<close>. For a table of \<^verbatim>\<open>TABLES\<close> that the body has: one
  \<^verbatim>\<open>DELETE\<close>, then one \<^verbatim>\<open>INSERT\<close> per row of the array when it is not empty. The
  \<^verbatim>\<open>settings\<close> table has its \<^verbatim>\<open>key\<close> for primary key, no counter and no foreign key.
\<close>

fun insert_each ::
  "(database \<Rightarrow> 'a row_scheme table) \<Rightarrow> ('a row_scheme table \<Rightarrow> database \<Rightarrow> database)
     \<Rightarrow> ('a row_scheme \<Rightarrow> 'a row_scheme list \<Rightarrow> bool) \<Rightarrow> ('a row_scheme \<Rightarrow> database \<Rightarrow> bool)
     \<Rightarrow> 'a row_scheme list \<Rightarrow> unit M" where
  "insert_each get put ok fk [] = ret ()"
| "insert_each get put ok fk (r # rs) =
     andThen (run (insert_into get put ok fk r)) (\<lambda>_. insert_each get put ok fk rs)"

definition restore_table ::
  "(database \<Rightarrow> 'a row_scheme table) \<Rightarrow> ('a row_scheme table \<Rightarrow> database \<Rightarrow> database)
     \<Rightarrow> ('a row_scheme \<Rightarrow> 'a row_scheme list \<Rightarrow> bool) \<Rightarrow> ('a row_scheme \<Rightarrow> database \<Rightarrow> bool)
     \<Rightarrow> (database \<Rightarrow> int list) \<Rightarrow> 'a row_scheme list option \<Rightarrow> unit M" where
  "restore_table get put ok fk held b =
     (case b of
        None \<Rightarrow> ret ()
      | Some rs \<Rightarrow>
          andThen (run (delete_from get put held))
            (\<lambda>_. if length rs > 0 then insert_each get put ok fk rs else ret ()))"

definition delete_settings :: "database \<Rightarrow> error + unit \<times> database" where
  "delete_settings d = Inr ((), d\<lparr>settings := []\<rparr>)"

definition insert_setting :: "string \<times> string \<Rightarrow> database \<Rightarrow> error + unit \<times> database" where
  "insert_setting kv d =
     (if fst kv \<in> set (map fst (settings d)) then Inl SQLITE_CONSTRAINT
      else Inr ((), d\<lparr>settings := settings d @ [kv]\<rparr>))"

fun insert_each_setting :: "(string \<times> string) list \<Rightarrow> unit M" where
  "insert_each_setting [] = ret ()"
| "insert_each_setting (kv # kvs) =
     andThen (run (insert_setting kv)) (\<lambda>_. insert_each_setting kvs)"

definition restore_settings :: "(string \<times> string) list option \<Rightarrow> unit M" where
  "restore_settings b =
     (case b of
        None \<Rightarrow> ret ()
      | Some kvs \<Rightarrow>
          andThen (run delete_settings)
            (\<lambda>_. if length kvs > 0 then insert_each_setting kvs else ret ()))"

definition import_body :: "backup \<Rightarrow> unit M" where
  "import_body backup =
     andThen (restore_table users (\<lambda>t d. d\<lparr>users := t\<rparr>) users_ok no_reference held_users
                (b_users backup)) (\<lambda>_.
     andThen (restore_settings (b_settings backup)) (\<lambda>_.
     andThen (restore_table products (\<lambda>t d. d\<lparr>products := t\<rparr>) products_ok no_reference held_products
                (b_products backup)) (\<lambda>_.
     andThen (restore_table warehouses (\<lambda>t d. d\<lparr>warehouses := t\<rparr>) no_constraint no_reference not_held
                (b_warehouses backup)) (\<lambda>_.
     andThen (restore_table suppliers (\<lambda>t d. d\<lparr>suppliers := t\<rparr>) no_constraint no_reference held_suppliers
                (b_suppliers backup)) (\<lambda>_.
     andThen (restore_table supplier_transactions (\<lambda>t d. d\<lparr>supplier_transactions := t\<rparr>) supplier_transactions_ok supplier_transactions_fk not_held
                (b_supplier_transactions backup)) (\<lambda>_.
     andThen (restore_table customers (\<lambda>t d. d\<lparr>customers := t\<rparr>) no_constraint no_reference held_customers
                (b_customers backup)) (\<lambda>_.
     andThen (restore_table sales (\<lambda>t d. d\<lparr>sales := t\<rparr>) sales_ok sales_fk held_sales
                (b_sales backup)) (\<lambda>_.
     andThen (restore_table sale_items (\<lambda>t d. d\<lparr>sale_items := t\<rparr>) no_constraint sale_items_fk not_held
                (b_sale_items backup)) (\<lambda>_.
     andThen (restore_table transactions (\<lambda>t d. d\<lparr>transactions := t\<rparr>) transactions_ok transactions_fk not_held
                (b_transactions backup)) (\<lambda>_.
     andThen (restore_table maintenance (\<lambda>t d. d\<lparr>maintenance := t\<rparr>) no_constraint maintenance_fk not_held
                (b_maintenance backup)) (\<lambda>_.
     andThen (restore_table purchases (\<lambda>t d. d\<lparr>purchases := t\<rparr>) purchases_ok purchases_fk held_purchases
                (b_purchases backup)) (\<lambda>_.
     andThen (restore_table purchase_items (\<lambda>t d. d\<lparr>purchase_items := t\<rparr>) no_constraint purchase_items_fk not_held
                (b_purchase_items backup)) (\<lambda>_.
     andThen (restore_table general_ledger (\<lambda>t d. d\<lparr>general_ledger := t\<rparr>) general_ledger_ok no_reference not_held
                (b_general_ledger backup)) (\<lambda>_.
     restore_table stock_adjustments (\<lambda>t d. d\<lparr>stock_adjustments := t\<rparr>) stock_adjustments_ok stock_adjustments_fk not_held
                (b_stock_adjustments backup)))))))))))))))"

definition post_backup_import :: "backup \<Rightarrow> sys \<Rightarrow> response \<times> sys" where
  "post_backup_import backup s =
     (case transaction (import_body backup) s of
        (Inr _, s') \<Rightarrow> (\<lparr>status = 200, body = Success\<rparr>, s')
      | (Inl e, s') \<Rightarrow> (\<lparr>status = 500, body = Error e\<rparr>, s'))"

subsection \<open>The database at start-up\<close>

text \<open>
  What the server leaves behind before it listens: the schema with its three default
  settings, and the seeded administrator.
\<close>

definition empty_table :: "'r table" where
  "empty_table = \<lparr>rows = [], seq = 0\<rparr>"

definition initial_db :: database where
  "initial_db =
     \<lparr>users = \<lparr>rows = [\<lparr>rowid = 1, u_username = ''admin'', u_password = ''admin123'',
                        u_role = Some ''admin''\<rparr>], seq = 1\<rparr>,
      settings = [(''currency'', ''USD''), (''rate_yer'', ''530''), (''rate_sar'', ''3.75'')],
      products = empty_table,
      warehouses = empty_table,
      suppliers = empty_table,
      supplier_transactions = empty_table,
      customers = empty_table,
      sales = empty_table,
      sale_items = empty_table,
      transactions = empty_table,
      maintenance = empty_table,
      purchases = empty_table,
      purchase_items = empty_table,
      general_ledger = empty_table,
      stock_adjustments = empty_table\<rparr>"

subsection \<open>Requests\<close>

text \<open>
  The routes of the server that write to the ledger, and the backup routes: a request is a
  route with its body, \<open>handle\<close> is the router, and \<open>serve\<close> answers requests one after
  the other.
\<close>

datatype request =
    POST_customers string string string string real string
  | POST_suppliers string string string string string
  | POST_payments int real string
  | POST_supplier_payments int real string
  | POST_sales "int option" "int option" real real "string option" string "item list"
  | POST_purchases int "int option" real "string option" "item list"
  | POST_stock_adjustments int "string option" int string
  | GET_backup_export
  | POST_backup_import backup

fun handle :: "request \<Rightarrow> sys \<Rightarrow> response \<times> sys" where
  "handle (POST_customers name phone email address opening_balance notes) =
     post_customers name phone email address opening_balance notes"
| "handle (POST_suppliers name contact_person phone email notes) =
     post_suppliers name contact_person phone email notes"
| "handle (POST_payments customer_id amount description) =
     post_payments customer_id amount description"
| "handle (POST_supplier_payments supplier_id amount description) =
     post_supplier_payments supplier_id amount description"
| "handle (POST_sales customer_id user_id total_amount discount payment_status payment_method items) =
     post_sales customer_id user_id total_amount discount payment_status payment_method items"
| "handle (POST_purchases supplier_id user_id total_amount payment_status items) =
     post_purchases supplier_id user_id total_amount payment_status items"
| "handle (POST_stock_adjustments product_id type quantity reason) =
     post_stock_adjustments product_id type quantity reason"
| "handle GET_backup_export = get_backup_export"
| "handle (POST_backup_import backup) = post_backup_import backup"

fun serve :: "request list \<Rightarrow> sys \<Rightarrow> sys" where
  "serve [] s = s"
| "serve (q # qs) s = serve qs (snd (handle q s))"

text \<open>
  The balance as the specification derives it from the movement log: the amounts of the
  party's rows of the debit kind, less the amounts of its payments.
\<close>

definition customer_ledger :: "int \<Rightarrow> transaction_row list \<Rightarrow> real" where
  "customer_ledger c ts =
     sum_list (map tx_amount (filter (\<lambda>t. tx_customer_id t = c \<and> tx_type t = ''sale'') ts)) -
     sum_list (map tx_amount (filter (\<lambda>t. tx_customer_id t = c \<and> tx_type t = ''payment'') ts))"

definition supplier_ledger :: "int \<Rightarrow> supplier_transaction list \<Rightarrow> real" where
  "supplier_ledger c ts =
     sum_list (map stx_amount (filter (\<lambda>t. stx_supplier_id t = c \<and> stx_type t = ''purchase'') ts)) -
     sum_list (map stx_amount (filter (\<lambda>t. stx_supplier_id t = c \<and> stx_type t = ''payment'') ts))"

subsection \<open>A small shop\<close>

text \<open>
  A database to run the handlers on: one product, one customer who was registered with an
  opening balance of 100, one supplier, and nothing sold or bought yet.
\<close>

definition handset :: product where
  "handset = \<lparr>rowid = 1, p_name = ''Phone'', p_category = ''phone'', p_brand = ''Acme'',
            p_model = ''A1'', p_sku = ''A'', p_price = 10, p_cost = 5, p_stock_quantity = 10,
            p_opening_stock = 10, p_min_stock_level = 5, p_unit = ''pcs'', p_notes = '''',
            p_warehouse_id = None, p_location = ''''\<rparr>"

definition ali :: customer where
  "ali = \<lparr>rowid = 1, c_name = ''Ali'', c_phone = ''777'', c_email = '''', c_address = '''',
          c_opening_balance = 100, c_balance = 100, c_notes = ''''\<rparr>"

definition acme :: supplier where
  "acme = \<lparr>rowid = 1, s_name = ''Acme'', s_contact_person = '''', s_phone = '''', s_email = '''',
           s_balance = 0, s_notes = ''''\<rparr>"

definition shop_db :: database where
  "shop_db = initial_db
     \<lparr>products := \<lparr>rows = [handset], seq = 1\<rparr>,
      suppliers := \<lparr>rows = [acme], seq = 1\<rparr>,
      customers := \<lparr>rows = [ali], seq = 1\<rparr>\<rparr>"

definition shop :: sys where
  "shop = \<lparr>db = shop_db, io = None, now = ''2024-01-01 10:00:00''\<rparr>"

definition two_phones :: item where
  "two_phones = \<lparr>i_product_id = 1, i_quantity = 2, i_unit_price = 10, i_unit_cost = 3, i_subtotal = 20\<rparr>"

definition five_phones :: item where
  "five_phones = \<lparr>i_product_id = 1, i_quantity = 5, i_unit_price = 10, i_unit_cost = 3, i_subtotal = 15\<rparr>"

definition misposted :: item where
  "misposted = \<lparr>i_product_id = 1, i_quantity = 2, i_unit_price = 10, i_unit_cost = 3, i_subtotal = 999\<rparr>"


text \<open>The shop after it has sold two phones to its customer, paid in cash.\<close>

definition sold :: sys where
  "sold = snd (post_sales (Some 1) (Some 1) 20 0 (Some ''paid'') ''Cash'' [two_phones] shop)"

text \<open>
  Another state of the shop, to take a snapshot of: a second product, and no customer. And a
  snapshot that lists the same product twice.
\<close>

definition stocked_db :: database where
  "stocked_db = shop_db
     \<lparr>products := \<lparr>rows = [handset, handset\<lparr>rowid := 2, p_sku := ''B''\<rparr>], seq = 2\<rparr>,
      customers := \<lparr>rows = [], seq = 1\<rparr>\<rparr>"

definition broken_snapshot :: backup where
  "broken_snapshot = (backup_of shop_db)
     \<lparr>b_users := Some [], b_products := Some [handset, handset]\<rparr>"

subsection \<open>Notions for the proofs\<close>

text \<open>A computation that succeeds does so without the store failing, to the same effect.\<close>

definition sim :: "'a M \<Rightarrow> bool" where
  "sim m = (\<forall>s a s'. m s = (Inr a, s') \<longrightarrow> m (s\<lparr>io := None\<rparr>) = (Inr a, s'\<lparr>io := None\<rparr>))"

text \<open>A computation that leaves a part of the database as it was, whatever its outcome.\<close>

definition keeps :: "(database \<Rightarrow> 'x) \<Rightarrow> 'a M \<Rightarrow> bool" where
  "keeps f m = (\<forall>s x s'. m s = (x, s') \<longrightarrow> f (db s') = f (db s))"

text \<open>What a computation that succeeds has done to the database.\<close>

definition commits :: "'a M \<Rightarrow> (database \<Rightarrow> database \<Rightarrow> bool) \<Rightarrow> bool" where
  "commits m R = (\<forall>s a s'. m s = (Inr a, s') \<longrightarrow> R (db s) (db s'))"

subsection \<open>Notions for the backup\<close>

text \<open>A table of the database, as a way to read it and a way to write it back.\<close>

definition table_lens ::
  "(database \<Rightarrow> 'r table) \<Rightarrow> ('r table \<Rightarrow> database \<Rightarrow> database) \<Rightarrow> bool" where
  "table_lens get put =
     ((\<forall>t d. get (put t d) = t) \<and> (\<forall>t t' d. put t (put t' d) = put t d) \<and> (\<forall>d. put (get d) d = d))"

text \<open>
  The rows of a table pass its \<^verbatim>\<open>CHECK\<close> and \<^verbatim>\<open>UNIQUE\<close> constraints, each against the rows
  before it.
\<close>

fun constraints_hold :: "('r \<Rightarrow> 'r list \<Rightarrow> bool) \<Rightarrow> 'r list \<Rightarrow> 'r list \<Rightarrow> bool" where
  "constraints_hold ok before [] = True"
| "constraints_hold ok before (r # rs) = (ok r before \<and> constraints_hold ok (before @ [r]) rs)"

text \<open>
  What SQLite keeps true of a table: the rows come in the order of their distinct rowids, the
  counter of \<^verbatim>\<open>AUTOINCREMENT\<close> is not below any of them, and the constraints hold.
\<close>

definition table_wf :: "('a row_scheme \<Rightarrow> 'a row_scheme list \<Rightarrow> bool) \<Rightarrow> 'a row_scheme table \<Rightarrow> bool" where
  "table_wf ok t =
     (sorted_wrt (<) (map rowid (rows t)) \<and> list_all (\<lambda>r. rowid r \<le> seq t) (rows t) \<and>
      constraints_hold ok [] (rows t))"

text \<open>
  The same of every table; the keys of \<^verbatim>\<open>settings\<close> are distinct, and every foreign key
  that is not \<^verbatim>\<open>NULL\<close> has its row.
\<close>

definition db_wf :: "database \<Rightarrow> bool" where
  "db_wf d =
     (table_wf users_ok (users d) \<and>
      distinct (map fst (settings d)) \<and>
      table_wf products_ok (products d) \<and>
      table_wf no_constraint (warehouses d) \<and>
      table_wf no_constraint (suppliers d) \<and>
      table_wf supplier_transactions_ok (supplier_transactions d) \<and>
      table_wf no_constraint (customers d) \<and>
      table_wf sales_ok (sales d) \<and>
      table_wf no_constraint (sale_items d) \<and>
      table_wf transactions_ok (transactions d) \<and>
      table_wf no_constraint (maintenance d) \<and>
      table_wf purchases_ok (purchases d) \<and>
      table_wf no_constraint (purchase_items d) \<and>
      table_wf general_ledger_ok (general_ledger d) \<and>
      table_wf stock_adjustments_ok (stock_adjustments d) \<and>
      list_all (\<lambda>r. supplier_transactions_fk r d) (rows (supplier_transactions d)) \<and>
      list_all (\<lambda>r. sales_fk r d) (rows (sales d)) \<and>
      list_all (\<lambda>r. sale_items_fk r d) (rows (sale_items d)) \<and>
      list_all (\<lambda>r. transactions_fk r d) (rows (transactions d)) \<and>
      list_all (\<lambda>r. maintenance_fk r d) (rows (maintenance d)) \<and>
      list_all (\<lambda>r. purchases_fk r d) (rows (purchases d)) \<and>
      list_all (\<lambda>r. purchase_items_fk r d) (rows (purchase_items d)) \<and>
      list_all (\<lambda>r. stock_adjustments_fk r d) (rows (stock_adjustments d)))"

text \<open>
  No row of the database is named by a row of another table: the state in which every
  \<^verbatim>\<open>DELETE FROM\<close> of the restore is let through.
\<close>

definition unreferenced :: "database \<Rightarrow> bool" where
  "unreferenced d =
     (\<not> blocked users held_users d \<and>
      \<not> blocked products held_products d \<and>
      \<not> blocked suppliers held_suppliers d \<and>
      \<not> blocked customers held_customers d \<and>
      \<not> blocked sales held_sales d \<and>
      \<not> blocked purchases held_purchases d)"

text \<open>
  A table after a restore, given its part of the snapshot: untouched when the snapshot has no
  such key; otherwise its rows are the rows of the snapshot, every one once, in the order of
  their rowids. For an empty array this says that the table is empty.
\<close>

definition restored :: "'a row_scheme list option \<Rightarrow> 'a row_scheme table \<Rightarrow> 'a row_scheme table \<Rightarrow> bool" where
  "restored b t t' =
     (case b of
        None \<Rightarrow> t' = t
      | Some rs \<Rightarrow>
          set (rows t') = set rs \<and> length (rows t') = length rs \<and>
          sorted (map rowid (rows t')) \<and> distinct (map rowid (rows t')))"

text \<open>The same of \<^verbatim>\<open>settings\<close>, which are kept in the order of insertion.\<close>

definition restored_settings ::
  "(string \<times> string) list option \<Rightarrow> (string \<times> string) list \<Rightarrow> (string \<times> string) list \<Rightarrow> bool" where
  "restored_settings b kvs kvs' = (case b of None \<Rightarrow> kvs' = kvs | Some new \<Rightarrow> kvs' = new)"

text \<open>
  The database after a restore of the snapshot of \<open>d0\<close> that has gone through: every table
  holds the rows of \<open>d0\<close>, and its counter has not fallen behind.
\<close>

definition restored_table :: "'a row_scheme list \<Rightarrow> 'a row_scheme table \<Rightarrow> 'a row_scheme table" where
  "restored_table rs t = \<lparr>rows = rs, seq = fold (\<lambda>r q. max q (rowid r)) rs (seq t)\<rparr>"

definition restore_of :: "database \<Rightarrow> database \<Rightarrow> database" where
  "restore_of d0 d =
     d\<lparr>users := restored_table (rows (users d0)) (users d),
         settings := settings d0,
         products := restored_table (rows (products d0)) (products d),
         warehouses := restored_table (rows (warehouses d0)) (warehouses d),
         suppliers := restored_table (rows (suppliers d0)) (suppliers d),
         supplier_transactions := restored_table (rows (supplier_transactions d0)) (supplier_transactions d),
         customers := restored_table (rows (customers d0)) (customers d),
         sales := restored_table (rows (sales d0)) (sales d),
         sale_items := restored_table (rows (sale_items d0)) (sale_items d),
         transactions := restored_table (rows (transactions d0)) (transactions d),
         maintenance := restored_table (rows (maintenance d0)) (maintenance d),
         purchases := restored_table (rows (purchases d0)) (purchases d),
         purchase_items := restored_table (rows (purchase_items d0)) (purchase_items d),
         general_ledger := restored_table (rows (general_ledger d0)) (general_ledger d),
         stock_adjustments := restored_table (rows (stock_adjustments d0)) (stock_adjustments d)\<rparr>"

section \<open>Lemmas\<close>

subsection \<open>Statements in the monad\<close>

lemma run_no_fault:
  "io s = None \<Longrightarrow>
   run f s = (case f (db s) of Inl e \<Rightarrow> (Inl e, s) | Inr (a, d') \<Rightarrow> (Inr a, s\<lparr>db := d'\<rparr>))"
  by (simp add: run_def split: sum.splits prod.splits)

lemma run_now_no_fault:
  "io s = None \<Longrightarrow>
   run_now f s = (case f (now s) (db s) of Inl e \<Rightarrow> (Inl e, s) | Inr (a, d') \<Rightarrow> (Inr a, s\<lparr>db := d'\<rparr>))"
  by (simp add: run_now_def run_no_fault)

lemma run_Inr:
  "run f s = (Inr a, s') \<Longrightarrow>
   \<exists>d'. f (db s) = Inr (a, d') \<and> s' = s\<lparr>io := map_option (\<lambda>k. k - 1) (io s), db := d'\<rparr>"
  by (auto simp: run_def Let_def split: option.splits nat.splits sum.splits prod.splits)

lemma run_Inl: "run f s = (Inl e, s') \<Longrightarrow> db s' = db s"
  by (auto simp: run_def Let_def split: option.splits nat.splits sum.splits prod.splits)

lemma simD: "sim m \<Longrightarrow> m s = (Inr a, s') \<Longrightarrow> m (s\<lparr>io := None\<rparr>) = (Inr a, s'\<lparr>io := None\<rparr>)"
  by (simp add: sim_def)

lemma sim_ret: "sim (ret a)"
  by (simp add: sim_def ret_def)

lemma sim_query: "sim (query f)"
  by (auto simp add: sim_def query_def)

lemma sim_run: "sim (run f)"
  unfolding sim_def
proof (intro allI impI)
  fix s a s' assume "run f s = (Inr a, s')"
  from run_Inr[OF this] obtain d' where "f (db s) = Inr (a, d')"
    "s' = s\<lparr>io := map_option (\<lambda>k. k - 1) (io s), db := d'\<rparr>" by blast
  then show "run f (s\<lparr>io := None\<rparr>) = (Inr a, s'\<lparr>io := None\<rparr>)"
    by (simp add: run_no_fault)
qed

lemma sim_run_now: "sim (run_now f)"
  unfolding sim_def run_now_def
proof (intro allI impI)
  fix s a s' assume "run (f (now s)) s = (Inr a, s')"
  from simD[OF sim_run this] show "run (f (now (s\<lparr>io := None\<rparr>))) (s\<lparr>io := None\<rparr>) = (Inr a, s'\<lparr>io := None\<rparr>)"
    by simp
qed

lemma sim_andThen: "sim m \<Longrightarrow> (\<And>a. sim (k a)) \<Longrightarrow> sim (andThen m k)"
  unfolding sim_def andThen_def
  by (auto split: prod.splits sum.splits)

lemma sim_if: "sim m \<Longrightarrow> sim n \<Longrightarrow> sim (if b then m else n)"
  by simp

lemma sim_sale_items_loop: "sim (sale_items_loop saleId items)"
  by (induction items) (auto intro!: sim_ret sim_andThen sim_run)

lemma sim_purchase_items_loop: "sim (purchase_items_loop purchaseId items)"
  by (induction items) (auto intro!: sim_ret sim_andThen sim_run)

lemma sim_updateCustomerBalance: "sim (updateCustomerBalance c)"
  unfolding updateCustomerBalance_def by (intro sim_andThen sim_query sim_run)

lemma sim_updateSupplierBalance: "sim (updateSupplierBalance c)"
  unfolding updateSupplierBalance_def by (intro sim_andThen sim_query sim_run)

lemmas sim_intros = sim_ret sim_query sim_andThen sim_run sim_run_now sim_if sim_sale_items_loop
  sim_purchase_items_loop sim_updateCustomerBalance sim_updateSupplierBalance

lemma sim_sale_body:
  "sim (sale_body customer_id user_id total_amount discount payment_status payment_method items)"
  unfolding sale_body_def by (intro sim_intros)

lemma sim_stock_adjustment_body:
  "sim (stock_adjustment_body product_id type quantity reason)"
  unfolding stock_adjustment_body_def by (intro sim_intros)

lemma run_now_Inr:
  "run_now f s = (Inr a, s') \<Longrightarrow>
   \<exists>d'. f (now s) (db s) = Inr (a, d') \<and> s' = s\<lparr>io := map_option (\<lambda>k. k - 1) (io s), db := d'\<rparr>"
  unfolding run_now_def by (rule run_Inr)

lemma andThen_Inr:
  "andThen m k s = (Inr b, s') \<Longrightarrow> \<exists>a s1. m s = (Inr a, s1) \<and> k a s1 = (Inr b, s')"
  by (auto simp: andThen_def split: prod.splits sum.splits)

lemma transaction_cases:
  assumes "transaction m s = (r, s')"
  obtains (rollback) e s1 where "m s = (Inl e, s1)" "r = Inl e" "db s' = db s"
        | (commit) a where "m s = (Inr a, s')" "r = Inr a"
  using assms by (auto simp: transaction_def split: prod.splits sum.splits)

subsection \<open>What a computation keeps, and what it has done when it succeeds\<close>

lemma keepsD: "keeps f m \<Longrightarrow> m s = (x, s') \<Longrightarrow> f (db s') = f (db s)"
  by (simp add: keeps_def)

lemma keeps_ret: "keeps f (ret a)"
  by (simp add: keeps_def ret_def)

lemma keeps_query: "keeps f (query g)"
  by (auto simp: keeps_def query_def)

lemma keeps_run:
  assumes "\<And>d a d'. g d = Inr (a, d') \<Longrightarrow> f d' = f d"
  shows "keeps f (run g)"
  unfolding keeps_def
proof (intro allI impI)
  fix s x s' assume r: "run g s = (x, s')"
  show "f (db s') = f (db s)"
  proof (cases x)
    case (Inl e)
    with r show ?thesis by (simp add: run_Inl)
  next
    case (Inr a)
    with r obtain d' where "g (db s) = Inr (a, d')" "db s' = d'"
      by (auto dest!: run_Inr)
    with assms show ?thesis by simp
  qed
qed

lemma keeps_run_now:
  assumes "\<And>ts d a d'. g ts d = Inr (a, d') \<Longrightarrow> f d' = f d"
  shows "keeps f (run_now g)"
  unfolding keeps_def run_now_def
  using keeps_run[of "g ts" f for ts, OF assms] by (auto simp: keeps_def)

lemma keeps_andThen: "keeps f m \<Longrightarrow> (\<And>a. keeps f (k a)) \<Longrightarrow> keeps f (andThen m k)"
  unfolding keeps_def andThen_def
  by (auto split: prod.splits sum.splits)

lemma keeps_if: "keeps f m \<Longrightarrow> keeps f n \<Longrightarrow> keeps f (if b then m else n)"
  by simp

lemmas keeps_intros = keeps_ret keeps_query keeps_andThen keeps_run keeps_run_now keeps_if

lemma commitsD: "commits m R \<Longrightarrow> m s = (Inr a, s') \<Longrightarrow> R (db s) (db s')"
  by (simp add: commits_def)

lemma commits_andThen:
  assumes "commits m R" "\<And>a. commits (k a) Q"
  shows "commits (andThen m k) (R OO Q)"
  unfolding commits_def
proof (intro allI impI)
  fix s b s' assume "andThen m k s = (Inr b, s')"
  from andThen_Inr[OF this] obtain a s1 where "m s = (Inr a, s1)" "k a s1 = (Inr b, s')"
    by blast
  with assms have "R (db s) (db s1)" "Q (db s1) (db s')"
    by (auto simp: commits_def)
  then show "(R OO Q) (db s) (db s')"
    by (rule relcomppI)
qed

lemma commits_run_now:
  assumes "\<And>ts d a d'. g ts d = Inr (a, d') \<Longrightarrow> R d d'"
  shows "commits (run_now g) R"
  unfolding commits_def using assms by (auto dest!: run_now_Inr)

lemma commits_keeps: "keeps f m \<Longrightarrow> commits m (\<lambda>d d'. f d' = f d)"
  by (auto simp: commits_def keeps_def)

lemma commits_any: "commits m (\<lambda>d d'. True)"
  by (simp add: commits_def)

subsection \<open>Tables\<close>

lemma insert_auto_eq:
  "insert_auto ok r t =
     (if ok (r\<lparr>rowid := next_rowid t\<rparr>) (rows t) then Inr (next_rowid t, append_auto r t)
      else Inl SQLITE_CONSTRAINT)"
  by (simp add: insert_auto_def append_auto_def Let_def)

lemma max_rowid_append [simp]: "max_rowid (rs @ [r]) = max (max_rowid rs) (rowid r)"
  by (induction rs) (auto simp: max_rowid_def)

lemma max_rowid_nonneg: "0 \<le> max_rowid rs"
  by (induction rs) (auto simp: max_rowid_def)

lemma rowid_le_max_rowid: "r \<in> set rs \<Longrightarrow> rowid r \<le> max_rowid rs"
  by (induction rs) (auto simp: max_rowid_def)

lemma next_rowid_fresh: "next_rowid t \<notin> rowid ` set (rows t)"
  using rowid_le_max_rowid[of _ "rows t"] by (fastforce simp: next_rowid_def)

lemma next_rowid_append_auto [simp]: "next_rowid (append_auto r t) = next_rowid t + 1"
  using max_rowid_nonneg[of "rows t"] by (simp add: next_rowid_def append_auto_def)

lemma rows_append_auto [simp]: "rows (append_auto r t) = rows t @ [r\<lparr>rowid := next_rowid t\<rparr>]"
  by (simp add: append_auto_def)

lemma seq_append_auto [simp]: "seq (append_auto r t) = next_rowid t"
  by (simp add: append_auto_def)

lemma rows_update_where [simp]:
  "rows (update_where P g t) = map (\<lambda>r. if P r then g r else r) (rows t)"
  by (simp add: update_where_def)

lemma seq_update_where [simp]: "seq (update_where P g t) = seq t"
  by (simp add: update_where_def)

lemma rows_fold_append_auto:
  "rows (fold (\<lambda>it. append_auto (f it)) items t) =
     rows t @ map (\<lambda>(i, it). (f it)\<lparr>rowid := next_rowid t + int i\<rparr>) (enumerate 0 items)"
proof (induction items arbitrary: t)
  case Nil
  then show ?case by simp
next
  case (Cons it items)
  have "map (\<lambda>(i, it). (f it)\<lparr>rowid := next_rowid t + 1 + int i\<rparr>) (enumerate 0 items)
      = map (\<lambda>(i, it). (f it)\<lparr>rowid := next_rowid t + int i\<rparr>) (enumerate (Suc 0) items)"
    by (simp add: enumerate_Suc_eq[of 0] comp_def case_prod_unfold add.assoc)
  with Cons show ?case by simp
qed


lemma rows_fold_stock_cost:
  "rows (fold (\<lambda>it. update_where (\<lambda>p. rowid p = i_product_id it)
            (\<lambda>p. p\<lparr>p_stock_quantity := p_stock_quantity p + i_quantity it, p_cost := i_unit_cost it\<rparr>)) items t) =
   map (\<lambda>p. p\<lparr>p_stock_quantity := p_stock_quantity p +
               sum_list (map i_quantity (filter (\<lambda>it. i_product_id it = rowid p) items)),
             p_cost := (case filter (\<lambda>it. i_product_id it = rowid p) items of
                          [] \<Rightarrow> p_cost p | its \<Rightarrow> i_unit_cost (last its))\<rparr>) (rows t)"
proof (induction items arbitrary: t)
  case Nil
  then show ?case by simp
next
  case (Cons it items)
  show ?case by (simp add: Cons.IH comp_def split: list.splits)
qed

lemma insert_new_eq:
  "insert_new get put ok fk r d =
     (if \<not> ok (r\<lparr>rowid := next_rowid (get d)\<rparr>) (rows (get d)) then Inl SQLITE_CONSTRAINT
      else if \<not> fk r d then Inl SQLITE_CONSTRAINT_FOREIGNKEY
      else Inr (next_rowid (get d), put (append_auto r (get d)) d))"
  by (simp add: insert_new_def insert_auto_eq)

lemma refers_opt_simps [simp]:
  "refers_opt None t" "refers_opt (Some k) t = refers k t"
  by (simp_all add: refers_opt_def)

lemma refers_table [simp]: "refers k \<lparr>rows = rs, seq = q\<rparr> = (k \<in> rowid ` set rs)"
  by (simp add: refers_def)

lemma refers_append_auto [simp]: "refers k (append_auto r t) = (k = next_rowid t \<or> refers k t)"
  by (auto simp: refers_def)

lemma refers_update_where [simp]:
  "(\<And>r. rowid (g r) = rowid r) \<Longrightarrow> refers k (update_where P g t) = refers k t"
  by (auto simp: refers_def image_iff)

lemma refers_the: "truthy v \<Longrightarrow> refers_opt v t \<Longrightarrow> refers (the v) t"
  by (cases v) (simp_all add: truthy_def)

lemma enum_ok_simps [simp]:
  "enum_ok vs None" "enum_ok vs (Some v) = (v \<in> set vs)"
  by (simp_all add: enum_ok_def)

subsection \<open>The handlers when the store does not fail\<close>

lemma sale_items_loop_no_fault:
  assumes "io s = None" "refers saleId (sales (db s))"
    and "list_all (\<lambda>it. refers (i_product_id it) (products (db s))) items"
  shows "sale_items_loop saleId items s =
     (Inr (), s\<lparr>db := (db s)\<lparr>
        sale_items := fold (\<lambda>it. append_auto (sale_item_values saleId it)) items (sale_items (db s)),
        products := fold (\<lambda>it. update_where (\<lambda>p. rowid p = i_product_id it)
            (\<lambda>p. p\<lparr>p_stock_quantity := p_stock_quantity p - i_quantity it\<rparr>)) items (products (db s))\<rparr>\<rparr>)"
  using assms
proof (induction items arbitrary: s)
  case Nil
  then show ?case by (simp add: ret_def)
next
  case (Cons it items)
  then show ?case
    by (simp add: andThen_def run_no_fault insert_sale_item_def insert_new_eq
        no_constraint_def update_stock_sub_def sale_items_fk_def sale_item_values_def)
qed

lemma purchase_items_loop_no_fault:
  assumes "io s = None" "refers purchaseId (purchases (db s))"
    and "list_all (\<lambda>it. refers (i_product_id it) (products (db s))) items"
  shows "purchase_items_loop purchaseId items s =
     (Inr (), s\<lparr>db := (db s)\<lparr>
        purchase_items := fold (\<lambda>it. append_auto (purchase_item_values purchaseId it)) items (purchase_items (db s)),
        products := fold (\<lambda>it. update_where (\<lambda>p. rowid p = i_product_id it)
            (\<lambda>p. p\<lparr>p_stock_quantity := p_stock_quantity p + i_quantity it, p_cost := i_unit_cost it\<rparr>)) items (products (db s))\<rparr>\<rparr>)"
  using assms
proof (induction items arbitrary: s)
  case Nil
  then show ?case by (simp add: ret_def)
next
  case (Cons it items)
  then show ?case
    by (simp add: andThen_def run_no_fault insert_purchase_item_def insert_new_eq
        no_constraint_def update_stock_cost_def purchase_items_fk_def purchase_item_values_def)
qed

lemma updateCustomerBalance_no_fault:
  "io s = None \<Longrightarrow>
   updateCustomerBalance c s =
     (Inr (), s\<lparr>db := (db s)\<lparr>customers := update_where (\<lambda>r. rowid r = c)
        (\<lambda>r. r\<lparr>c_balance := customer_balance c (rows (transactions (db s)))\<rparr>) (customers (db s))\<rparr>\<rparr>)"
  by (simp add: updateCustomerBalance_def andThen_def query_def run_no_fault update_customer_balance_def)

lemma updateSupplierBalance_no_fault:
  "io s = None \<Longrightarrow>
   updateSupplierBalance c s =
     (Inr (), s\<lparr>db := (db s)\<lparr>suppliers := update_where (\<lambda>r. rowid r = c)
        (\<lambda>r. r\<lparr>s_balance := supplier_balance c (rows (supplier_transactions (db s)))\<rparr>) (suppliers (db s))\<rparr>\<rparr>)"
  by (simp add: updateSupplierBalance_def andThen_def query_def run_no_fault update_supplier_balance_def)

lemma sale_body_no_fault:
  assumes "io s = None" "enum_ok [''paid'', ''partial'', ''unpaid''] payment_status"
    and "refers_opt customer_id (customers (db s))" "refers_opt user_id (users (db s))"
    and "list_all (\<lambda>it. refers (i_product_id it) (products (db s))) items"
  shows "sale_body customer_id user_id total_amount discount payment_status payment_method items s =
     (Inr (next_rowid (sales (db s))),
      s\<lparr>db := (db s)\<lparr>
        sales := append_auto (sale_values customer_id user_id total_amount discount payment_status payment_method (now s)) (sales (db s)),
        transactions :=
          (if truthy customer_id then
             (if payment_status = Some ''paid'' then
                append_auto (transaction_values (the customer_id) ''payment'' total_amount (''Payment for Sale #'' @ string_of_int (next_rowid (sales (db s)))) (now s))
              else (\<lambda>t. t))
               (append_auto (transaction_values (the customer_id) ''sale'' total_amount (''Sale #'' @ string_of_int (next_rowid (sales (db s)))) (now s)) (transactions (db s)))
           else transactions (db s)),
        customers :=
          (if truthy customer_id then
             update_where (\<lambda>c. rowid c = the customer_id)
               (\<lambda>c. c\<lparr>c_balance := customer_balance (the customer_id)
                  (rows ( 
             (if payment_status = Some ''paid'' then
                append_auto (transaction_values (the customer_id) ''payment'' total_amount (''Payment for Sale #'' @ string_of_int (next_rowid (sales (db s)))) (now s))
              else (\<lambda>t. t))
               (append_auto (transaction_values (the customer_id) ''sale'' total_amount (''Sale #'' @ string_of_int (next_rowid (sales (db s)))) (now s)) (transactions (db s)))))\<rparr>)
               (customers (db s))
           else customers (db s)),
        sale_items := fold (\<lambda>it. append_auto (sale_item_values (next_rowid (sales (db s))) it)) items (sale_items (db s)),
        products := fold (\<lambda>it. update_where (\<lambda>p. rowid p = i_product_id it)
            (\<lambda>p. p\<lparr>p_stock_quantity := p_stock_quantity p - i_quantity it\<rparr>)) items (products (db s))\<rparr>\<rparr>)"
proof (cases "truthy customer_id")
  case True
  with assms(3) have "refers (the customer_id) (customers (db s))" by (simp add: refers_the)
  with True assms show ?thesis
    by (simp add: sale_body_def andThen_def run_now_no_fault insert_sale_def insert_transaction_def
        insert_new_eq sales_ok_def transactions_ok_def sales_fk_def transactions_fk_def
        sale_items_loop_no_fault ret_def updateCustomerBalance_no_fault
        sale_values_def transaction_values_def)
next
  case False
  with assms show ?thesis
    by (simp add: sale_body_def andThen_def run_now_no_fault insert_sale_def
        insert_new_eq sales_ok_def sales_fk_def sale_items_loop_no_fault ret_def sale_values_def)
qed

lemma purchase_body_no_fault:
  assumes "io s = None" "enum_ok [''paid'', ''partial'', ''unpaid''] payment_status"
    and "refers supplier_id (suppliers (db s))" "refers_opt user_id (users (db s))"
    and "list_all (\<lambda>it. refers (i_product_id it) (products (db s))) items"
  shows "purchase_body supplier_id user_id total_amount payment_status items s =
     (Inr (next_rowid (purchases (db s))),
      s\<lparr>db := (db s)\<lparr>
        purchases := append_auto (purchase_values supplier_id user_id total_amount payment_status (now s)) (purchases (db s)),
        supplier_transactions :=
             (if payment_status = Some ''paid'' then
                append_auto (supplier_transaction_values supplier_id ''payment'' total_amount (''Payment for Purchase #'' @ string_of_int (next_rowid (purchases (db s)))) (now s))
              else (\<lambda>t. t))
               (append_auto (supplier_transaction_values supplier_id ''purchase'' total_amount (''Purchase #'' @ string_of_int (next_rowid (purchases (db s)))) (now s)) (supplier_transactions (db s))),
        suppliers :=
             update_where (\<lambda>c. rowid c = supplier_id)
               (\<lambda>c. c\<lparr>s_balance := supplier_balance supplier_id
                  (rows ( 
             (if payment_status = Some ''paid'' then
                append_auto (supplier_transaction_values supplier_id ''payment'' total_amount (''Payment for Purchase #'' @ string_of_int (next_rowid (purchases (db s)))) (now s))
              else (\<lambda>t. t))
               (append_auto (supplier_transaction_values supplier_id ''purchase'' total_amount (''Purchase #'' @ string_of_int (next_rowid (purchases (db s)))) (now s)) (supplier_transactions (db s)))))\<rparr>)
               (suppliers (db s)),
        purchase_items := fold (\<lambda>it. append_auto (purchase_item_values (next_rowid (purchases (db s))) it)) items (purchase_items (db s)),
        products := fold (\<lambda>it. update_where (\<lambda>p. rowid p = i_product_id it)
            (\<lambda>p. p\<lparr>p_stock_quantity := p_stock_quantity p + i_quantity it, p_cost := i_unit_cost it\<rparr>)) items (products (db s))\<rparr>\<rparr>)"
  using assms
  by (simp add: purchase_body_def andThen_def run_now_no_fault insert_purchase_def
      insert_supplier_transaction_def insert_new_eq purchases_ok_def supplier_transactions_ok_def
      purchases_fk_def supplier_transactions_fk_def purchase_items_loop_no_fault ret_def
      updateSupplierBalance_no_fault purchase_values_def supplier_transaction_values_def)

lemma stock_adjustment_body_no_fault:
  assumes "io s = None" "enum_ok [''damaged'', ''correction'', ''lost''] type"
    and "refers product_id (products (db s))"
  shows "stock_adjustment_body product_id type quantity reason s =
     (Inr (), s\<lparr>db := (db s)\<lparr>
        stock_adjustments := append_auto (stock_adjustment_values product_id type quantity reason (now s)) (stock_adjustments (db s)),
        products := update_where (\<lambda>p. rowid p = product_id)
            (\<lambda>p. p\<lparr>p_stock_quantity := p_stock_quantity p - quantity\<rparr>) (products (db s))\<rparr>\<rparr>)"
  using assms
  by (simp add: stock_adjustment_body_def andThen_def run_now_no_fault run_no_fault
      insert_stock_adjustment_def insert_new_eq stock_adjustments_ok_def stock_adjustments_fk_def
      update_stock_sub_def stock_adjustment_values_def)

subsection \<open>What a request that succeeds tells about its input\<close>

lemma sale_items_loop_ok:
  "sale_items_loop saleId items s = (Inr u, s') \<Longrightarrow>
   list_all (\<lambda>it. refers (i_product_id it) (products (db s))) items"
proof (induction items arbitrary: s)
  case Nil
  then show ?case by simp
next
  case (Cons it items)
  from Cons.prems obtain a s1 b s2 where
    1: "run (insert_sale_item saleId it) s = (Inr a, s1)"
    and 2: "run (update_stock_sub (i_quantity it) (i_product_id it)) s1 = (Inr b, s2)"
    and 3: "sale_items_loop saleId items s2 = (Inr u, s')"
    by (auto dest!: andThen_Inr)
  from run_Inr[OF 1] have a: "refers (i_product_id it) (products (db s))"
    and b: "products (db s1) = products (db s)"
    by (auto simp: insert_sale_item_def insert_new_eq sale_items_fk_def sale_item_values_def
        split: if_splits)
  from run_Inr[OF 2] have "products (db s2) = update_where (\<lambda>p. rowid p = i_product_id it)
      (\<lambda>p. p\<lparr>p_stock_quantity := p_stock_quantity p - i_quantity it\<rparr>) (products (db s1))"
    by (auto simp: update_stock_sub_def)
  with Cons.IH[OF 3] a b show ?case by simp
qed

lemma commits_sale_body:
  "commits (sale_body customer_id user_id total_amount discount payment_status payment_method items)
     ((\<lambda>(d::database) (d'::database). (enum_ok [''paid'', ''partial'', ''unpaid''] payment_status
                \<and> refers_opt customer_id (customers d) \<and> refers_opt user_id (users d))
               \<and> products d' = products d) OO
      (\<lambda>(d::database) (d'::database). products d' = products d) OO
      (\<lambda>(d::database) (d'::database). list_all (\<lambda>it. refers (i_product_id it) (products d)) items) OO
      (\<lambda>(d::database) (d'::database). True))"
  unfolding sale_body_def
proof (intro commits_andThen commits_any)
  show "commits (run_now (insert_sale customer_id user_id total_amount discount payment_status payment_method))
     (\<lambda>(d::database) (d'::database). (enum_ok [''paid'', ''partial'', ''unpaid''] payment_status
               \<and> refers_opt customer_id (customers d) \<and> refers_opt user_id (users d))
              \<and> products d' = products d)"
    by (rule commits_run_now)
      (auto simp: insert_sale_def insert_new_eq sales_ok_def sales_fk_def sale_values_def
        split: if_splits)
  show "commits
     (if truthy customer_id then
        andThen (run_now (insert_transaction (the customer_id) ''sale'' total_amount
                            (''Sale #'' @ string_of_int saleId)))
          (\<lambda>_. andThen
             (if payment_status = Some ''paid'' then
                andThen (run_now (insert_transaction (the customer_id) ''payment'' total_amount
                                    (''Payment for Sale #'' @ string_of_int saleId)))
                  (\<lambda>_. ret ())
              else ret ())
             (\<lambda>_. updateCustomerBalance (the customer_id)))
      else ret ())
     (\<lambda>(d::database) (d'::database). products d' = products d)" for saleId
    unfolding updateCustomerBalance_def
    by (intro commits_keeps keeps_intros)
      (auto simp: insert_transaction_def insert_new_eq update_customer_balance_def split: if_splits)
  show "commits (sale_items_loop saleId items)
     (\<lambda>(d::database) (d'::database). list_all (\<lambda>it. refers (i_product_id it) (products d)) items)" for saleId
    by (auto simp: commits_def dest: sale_items_loop_ok)
qed

lemma sale_body_ok:
  assumes "sale_body customer_id user_id total_amount discount payment_status payment_method items s = (Inr a, s')"
  shows "enum_ok [''paid'', ''partial'', ''unpaid''] payment_status"
    and "refers_opt customer_id (customers (db s))" and "refers_opt user_id (users (db s))"
    and "list_all (\<lambda>it. refers (i_product_id it) (products (db s))) items"
  using commitsD[OF commits_sale_body assms]
  by (auto simp: relcompp_apply)

lemma stock_adjustment_body_ok:
  assumes "stock_adjustment_body product_id type quantity reason s = (Inr a, s')"
  shows "enum_ok [''damaged'', ''correction'', ''lost''] type"
    and "refers product_id (products (db s))"
proof -
  from assms obtain b s1 where
    "run_now (insert_stock_adjustment product_id type quantity reason) s = (Inr b, s1)"
    unfolding stock_adjustment_body_def by (blast dest: andThen_Inr)
  then show "enum_ok [''damaged'', ''correction'', ''lost''] type"
    and "refers product_id (products (db s))"
    by (auto dest!: run_now_Inr simp: insert_stock_adjustment_def insert_new_eq
        stock_adjustments_ok_def stock_adjustments_fk_def stock_adjustment_values_def
        split: if_splits)
qed

subsection \<open>The two outcomes of a request\<close>

lemma post_sales_cases:
  assumes "post_sales customer_id user_id total_amount discount payment_status payment_method items s = (r, s')"
  obtains (rollback) e where "r = \<lparr>status = 400, body = Error e\<rparr>" "db s' = db s"
  | (commit) "r = \<lparr>status = 200, body = Id (next_rowid (sales (db s)))\<rparr>"
      "enum_ok [''paid'', ''partial'', ''unpaid''] payment_status"
      "refers_opt customer_id (customers (db s))" "refers_opt user_id (users (db s))"
      "list_all (\<lambda>it. refers (i_product_id it) (products (db s))) items"
      "db s' = db (snd (sale_body customer_id user_id total_amount discount payment_status payment_method items (s\<lparr>io := None\<rparr>)))"
proof -
  obtain r0 s0 where t: "transaction (sale_body customer_id user_id total_amount discount payment_status payment_method items) s = (r0, s0)"
    by fastforce
  from t show thesis
  proof (cases rule: transaction_cases)
    case (rollback e s1)
    with assms t that(1) show ?thesis by (auto simp: post_sales_def)
  next
    case (commit a)
    with assms t have *: "s0 = s'" "r = \<lparr>status = 200, body = Id a\<rparr>" by (auto simp: post_sales_def)
    note ok = sale_body_ok[OF commit(1)]
    from simD[OF sim_sale_body commit(1)]
    have e: "sale_body customer_id user_id total_amount discount payment_status payment_method items (s\<lparr>io := None\<rparr>)
        = (Inr a, s0\<lparr>io := None\<rparr>)" .
    then have "db s0 = db (snd (sale_body customer_id user_id total_amount discount payment_status payment_method items (s\<lparr>io := None\<rparr>)))"
      by simp
    moreover from e have "a = next_rowid (sales (db s))"
      by (simp add: sale_body_no_fault ok)
    ultimately show ?thesis using * ok that(2) by simp
  qed
qed

lemma post_stock_adjustments_cases:
  assumes "post_stock_adjustments product_id type quantity reason s = (r, s')"
  obtains (rollback) e where "r = \<lparr>status = 400, body = Error e\<rparr>" "db s' = db s"
  | (commit) "r = \<lparr>status = 200, body = Success\<rparr>"
      "enum_ok [''damaged'', ''correction'', ''lost''] type"
      "refers product_id (products (db s))"
      "db s' = db (snd (stock_adjustment_body product_id type quantity reason (s\<lparr>io := None\<rparr>)))"
proof -
  obtain r0 s0 where t: "transaction (stock_adjustment_body product_id type quantity reason) s = (r0, s0)"
    by fastforce
  from t show thesis
  proof (cases rule: transaction_cases)
    case (rollback e s1)
    with assms t that(1) show ?thesis by (auto simp: post_stock_adjustments_def)
  next
    case (commit a)
    with assms t have "s0 = s'" "r = \<lparr>status = 200, body = Success\<rparr>"
      by (auto simp: post_stock_adjustments_def)
    moreover from simD[OF sim_stock_adjustment_body commit(1)]
    have "db s0 = db (snd (stock_adjustment_body product_id type quantity reason (s\<lparr>io := None\<rparr>)))"
      by simp
    ultimately show ?thesis
      using stock_adjustment_body_ok[OF commit(1)] that(2) by simp
  qed
qed

lemma subtotal_check_cong:
  assumes "map f xs = map f' ys" "map g xs = map g' ys" "map h xs = map h' ys"
  shows "list_all (\<lambda>x. h x = real_of_int (f x) * g x) xs
     \<longleftrightarrow> list_all (\<lambda>y. h' y = real_of_int (f' y) * g' y) ys"
proof -
  have len: "length xs = length ys"
    using assms(1) by (rule map_eq_imp_length_eq)
  have "f (xs ! n) = f' (ys ! n) \<and> g (xs ! n) = g' (ys ! n) \<and> h (xs ! n) = h' (ys ! n)"
    if "n < length xs" for n
    using that len assms by (metis nth_map)
  then show ?thesis by (simp add: list_all_length len)
qed

subsection \<open>Balances and the ledger\<close>

lemma sum_case_or_zero:
  "or_zero (sum_case type amount k rs) = sum_list (map amount (filter (\<lambda>r. type r = k) rs))"
  by (simp add: sum_case_def or_zero_def sum_list_map_filter')


lemma supplier_balance_ledger: "supplier_balance c ts = supplier_ledger c ts"
  by (simp add: supplier_balance_def supplier_ledger_def sum_case_or_zero Let_def conj_commute)

subsection \<open>Backup and restore\<close>

lemma table_lensD:
  assumes "table_lens get put"
  shows "get (put t d) = t" "put t (put t' d) = put t d" "put (get d) d = d"
  using assms by (simp_all add: table_lens_def)

lemma table_lenses:
  "table_lens users (\<lambda>t d. d\<lparr>users := t\<rparr>)"
  "table_lens products (\<lambda>t d. d\<lparr>products := t\<rparr>)"
  "table_lens warehouses (\<lambda>t d. d\<lparr>warehouses := t\<rparr>)"
  "table_lens suppliers (\<lambda>t d. d\<lparr>suppliers := t\<rparr>)"
  "table_lens supplier_transactions (\<lambda>t d. d\<lparr>supplier_transactions := t\<rparr>)"
  "table_lens customers (\<lambda>t d. d\<lparr>customers := t\<rparr>)"
  "table_lens sales (\<lambda>t d. d\<lparr>sales := t\<rparr>)"
  "table_lens sale_items (\<lambda>t d. d\<lparr>sale_items := t\<rparr>)"
  "table_lens transactions (\<lambda>t d. d\<lparr>transactions := t\<rparr>)"
  "table_lens maintenance (\<lambda>t d. d\<lparr>maintenance := t\<rparr>)"
  "table_lens purchases (\<lambda>t d. d\<lparr>purchases := t\<rparr>)"
  "table_lens purchase_items (\<lambda>t d. d\<lparr>purchase_items := t\<rparr>)"
  "table_lens general_ledger (\<lambda>t d. d\<lparr>general_ledger := t\<rparr>)"
  "table_lens stock_adjustments (\<lambda>t d. d\<lparr>stock_adjustments := t\<rparr>)"
  by (simp_all add: table_lens_def)

lemma insort_key_last:
  "\<forall>x \<in> set xs. f x < f a \<Longrightarrow> insort_key f a xs = xs @ [a]"
  by (induction xs) auto

lemma insert_each_sorted:
  assumes "io s = None" "table_lens get put"
    and frame: "\<And>r t d. fk r (put t d) = fk r d"
    and "get (db s) = \<lparr>rows = pre, seq = q\<rparr>"
    and "sorted_wrt (<) (map rowid (pre @ rs))"
    and "constraints_hold ok pre rs"
    and "list_all (\<lambda>r. fk r (db s)) rs"
  shows "insert_each get put ok fk rs s =
     (Inr (), s\<lparr>db := put \<lparr>rows = pre @ rs, seq = fold (\<lambda>r q. max q (rowid r)) rs q\<rparr> (db s)\<rparr>)"
  using assms(1,4-7)
proof (induction rs arbitrary: s pre q)
  case Nil
  then show ?case
    using table_lensD(3)[OF assms(2), of "db s"] by (simp add: ret_def)
next
  case (Cons r rs)
  let ?t = "\<lparr>rows = pre @ [r], seq = max q (rowid r)\<rparr>"
  let ?s1 = "s\<lparr>db := put ?t (db s)\<rparr>"
  from Cons.prems(3) have lt: "\<forall>x \<in> set pre. rowid x < rowid r"
    by (auto simp: sorted_wrt_append)
  then have fresh: "rowid r \<notin> rowid ` set pre" by auto
  have step: "run (insert_into get put ok fk r) s = (Inr (), ?s1)"
    using Cons.prems(1,2,4,5) fresh lt
    by (simp add: run_no_fault insert_into_def insert_row_def insort_key_last)
  have "insert_each get put ok fk rs ?s1 =
      (Inr (), ?s1\<lparr>db := put \<lparr>rows = (pre @ [r]) @ rs,
                                 seq = fold (\<lambda>r q. max q (rowid r)) rs (max q (rowid r))\<rparr> (db ?s1)\<rparr>)"
  proof (rule Cons.IH)
    show "io ?s1 = None" using Cons.prems(1) by simp
    show "get (db ?s1) = ?t" by (simp add: table_lensD(1)[OF assms(2)])
    show "sorted_wrt (<) (map rowid ((pre @ [r]) @ rs))" using Cons.prems(3) by simp
    show "constraints_hold ok (pre @ [r]) rs" using Cons.prems(4) by simp
    show "list_all (\<lambda>r. fk r (db ?s1)) rs" using Cons.prems(5) by (simp add: frame)
  qed
  then show ?case
    by (simp add: andThen_def step table_lensD(2)[OF assms(2)])
qed

lemma restore_table_sorted:
  assumes "io s = None" "table_lens get put"
    and frame: "\<And>r t d. fk r (put t d) = fk r d"
    and "\<not> blocked get held (db s)"
    and "sorted_wrt (<) (map rowid rs)" "constraints_hold ok [] rs"
    and "list_all (\<lambda>r. fk r (db s)) rs"
  shows "restore_table get put ok fk held (Some rs) s =
     (Inr (), s\<lparr>db := put (restored_table rs (get (db s))) (db s)\<rparr>)"
proof -
  let ?t = "get (db s)"
  let ?s1 = "s\<lparr>db := put (?t\<lparr>rows := []\<rparr>) (db s)\<rparr>"
  have del: "run (delete_from get put held) s = (Inr (), ?s1)"
    using assms(1,4) by (simp add: run_no_fault delete_from_def)
  show ?thesis
  proof (cases "rs = []")
    case True
    have "?t\<lparr>rows := []\<rparr> = \<lparr>rows = [], seq = seq ?t\<rparr>"
      by (metis table.surjective table.update_convs(1) old.unit.exhaust)
    with True del show ?thesis
      by (simp add: restore_table_def andThen_def ret_def restored_table_def)
  next
    case False
    have "insert_each get put ok fk rs ?s1 =
        (Inr (), ?s1\<lparr>db := put \<lparr>rows = [] @ rs,
                                   seq = fold (\<lambda>r q. max q (rowid r)) rs (seq ?t)\<rparr> (db ?s1)\<rparr>)"
    proof (rule insert_each_sorted)
      show "io ?s1 = None" using assms(1) by simp
      show "table_lens get put" by fact
      show "fk r (put t d) = fk r d" for r t d by (rule frame)
      have "?t\<lparr>rows := []\<rparr> = \<lparr>rows = [], seq = seq ?t\<rparr>"
        by (metis table.surjective table.update_convs(1) old.unit.exhaust)
      then show "get (db ?s1) = \<lparr>rows = [], seq = seq ?t\<rparr>"
        by (simp add: table_lensD(1)[OF assms(2)])
      show "sorted_wrt (<) (map rowid ([] @ rs))" using assms(5) by simp
      show "constraints_hold ok [] rs" by fact
      show "list_all (\<lambda>r. fk r (db ?s1)) rs" using assms(7) by (simp add: frame)
    qed
    with False del show ?thesis
      by (simp add: restore_table_def andThen_def restored_table_def table_lensD(2)[OF assms(2)])
  qed
qed

lemma restore_users:
  assumes "io s = None" "\<not> blocked users held_users (db s)"
    and "sorted_wrt (<) (map rowid rs)" "constraints_hold users_ok [] rs"
    and "list_all (\<lambda>r. no_reference r (db s)) rs"
  shows "restore_table users (\<lambda>t d. d\<lparr>users := t\<rparr>) users_ok no_reference held_users (Some rs) s =
     (Inr (), s\<lparr>db := (db s)\<lparr>users := restored_table rs (users (db s))\<rparr>\<rparr>)"
  using restore_table_sorted[where get = users and put = "\<lambda>t d. d\<lparr>users := t\<rparr>"
      and ok = users_ok and fk = no_reference and held = held_users and rs = rs and s = s] assms
  by (simp add: table_lenses no_reference_def)

lemma restore_products:
  assumes "io s = None" "\<not> blocked products held_products (db s)"
    and "sorted_wrt (<) (map rowid rs)" "constraints_hold products_ok [] rs"
    and "list_all (\<lambda>r. no_reference r (db s)) rs"
  shows "restore_table products (\<lambda>t d. d\<lparr>products := t\<rparr>) products_ok no_reference held_products (Some rs) s =
     (Inr (), s\<lparr>db := (db s)\<lparr>products := restored_table rs (products (db s))\<rparr>\<rparr>)"
  using restore_table_sorted[where get = products and put = "\<lambda>t d. d\<lparr>products := t\<rparr>"
      and ok = products_ok and fk = no_reference and held = held_products and rs = rs and s = s] assms
  by (simp add: table_lenses no_reference_def)

lemma restore_warehouses:
  assumes "io s = None" "\<not> blocked warehouses not_held (db s)"
    and "sorted_wrt (<) (map rowid rs)" "constraints_hold no_constraint [] rs"
    and "list_all (\<lambda>r. no_reference r (db s)) rs"
  shows "restore_table warehouses (\<lambda>t d. d\<lparr>warehouses := t\<rparr>) no_constraint no_reference not_held (Some rs) s =
     (Inr (), s\<lparr>db := (db s)\<lparr>warehouses := restored_table rs (warehouses (db s))\<rparr>\<rparr>)"
  using restore_table_sorted[where get = warehouses and put = "\<lambda>t d. d\<lparr>warehouses := t\<rparr>"
      and ok = no_constraint and fk = no_reference and held = not_held and rs = rs and s = s] assms
  by (simp add: table_lenses no_reference_def)

lemma restore_suppliers:
  assumes "io s = None" "\<not> blocked suppliers held_suppliers (db s)"
    and "sorted_wrt (<) (map rowid rs)" "constraints_hold no_constraint [] rs"
    and "list_all (\<lambda>r. no_reference r (db s)) rs"
  shows "restore_table suppliers (\<lambda>t d. d\<lparr>suppliers := t\<rparr>) no_constraint no_reference held_suppliers (Some rs) s =
     (Inr (), s\<lparr>db := (db s)\<lparr>suppliers := restored_table rs (suppliers (db s))\<rparr>\<rparr>)"
  using restore_table_sorted[where get = suppliers and put = "\<lambda>t d. d\<lparr>suppliers := t\<rparr>"
      and ok = no_constraint and fk = no_reference and held = held_suppliers and rs = rs and s = s] assms
  by (simp add: table_lenses no_reference_def)

lemma restore_supplier_transactions:
  assumes "io s = None" "\<not> blocked supplier_transactions not_held (db s)"
    and "sorted_wrt (<) (map rowid rs)" "constraints_hold supplier_transactions_ok [] rs"
    and "list_all (\<lambda>r. supplier_transactions_fk r (db s)) rs"
  shows "restore_table supplier_transactions (\<lambda>t d. d\<lparr>supplier_transactions := t\<rparr>) supplier_transactions_ok supplier_transactions_fk not_held (Some rs) s =
     (Inr (), s\<lparr>db := (db s)\<lparr>supplier_transactions := restored_table rs (supplier_transactions (db s))\<rparr>\<rparr>)"
  using restore_table_sorted[where get = supplier_transactions and put = "\<lambda>t d. d\<lparr>supplier_transactions := t\<rparr>"
      and ok = supplier_transactions_ok and fk = supplier_transactions_fk and held = not_held and rs = rs and s = s] assms
  by (simp add: table_lenses supplier_transactions_fk_def)

lemma restore_customers:
  assumes "io s = None" "\<not> blocked customers held_customers (db s)"
    and "sorted_wrt (<) (map rowid rs)" "constraints_hold no_constraint [] rs"
    and "list_all (\<lambda>r. no_reference r (db s)) rs"
  shows "restore_table customers (\<lambda>t d. d\<lparr>customers := t\<rparr>) no_constraint no_reference held_customers (Some rs) s =
     (Inr (), s\<lparr>db := (db s)\<lparr>customers := restored_table rs (customers (db s))\<rparr>\<rparr>)"
  using restore_table_sorted[where get = customers and put = "\<lambda>t d. d\<lparr>customers := t\<rparr>"
      and ok = no_constraint and fk = no_reference and held = held_customers and rs = rs and s = s] assms
  by (simp add: table_lenses no_reference_def)

lemma restore_sales:
  assumes "io s = None" "\<not> blocked sales held_sales (db s)"
    and "sorted_wrt (<) (map rowid rs)" "constraints_hold sales_ok [] rs"
    and "list_all (\<lambda>r. sales_fk r (db s)) rs"
  shows "restore_table sales (\<lambda>t d. d\<lparr>sales := t\<rparr>) sales_ok sales_fk held_sales (Some rs) s =
     (Inr (), s\<lparr>db := (db s)\<lparr>sales := restored_table rs (sales (db s))\<rparr>\<rparr>)"
  using restore_table_sorted[where get = sales and put = "\<lambda>t d. d\<lparr>sales := t\<rparr>"
      and ok = sales_ok and fk = sales_fk and held = held_sales and rs = rs and s = s] assms
  by (simp add: table_lenses sales_fk_def)

lemma restore_sale_items:
  assumes "io s = None" "\<not> blocked sale_items not_held (db s)"
    and "sorted_wrt (<) (map rowid rs)" "constraints_hold no_constraint [] rs"
    and "list_all (\<lambda>r. sale_items_fk r (db s)) rs"
  shows "restore_table sale_items (\<lambda>t d. d\<lparr>sale_items := t\<rparr>) no_constraint sale_items_fk not_held (Some rs) s =
     (Inr (), s\<lparr>db := (db s)\<lparr>sale_items := restored_table rs (sale_items (db s))\<rparr>\<rparr>)"
  using restore_table_sorted[where get = sale_items and put = "\<lambda>t d. d\<lparr>sale_items := t\<rparr>"
      and ok = no_constraint and fk = sale_items_fk and held = not_held and rs = rs and s = s] assms
  by (simp add: table_lenses sale_items_fk_def)

lemma restore_transactions:
  assumes "io s = None" "\<not> blocked transactions not_held (db s)"
    and "sorted_wrt (<) (map rowid rs)" "constraints_hold transactions_ok [] rs"
    and "list_all (\<lambda>r. transactions_fk r (db s)) rs"
  shows "restore_table transactions (\<lambda>t d. d\<lparr>transactions := t\<rparr>) transactions_ok transactions_fk not_held (Some rs) s =
     (Inr (), s\<lparr>db := (db s)\<lparr>transactions := restored_table rs (transactions (db s))\<rparr>\<rparr>)"
  using restore_table_sorted[where get = transactions and put = "\<lambda>t d. d\<lparr>transactions := t\<rparr>"
      and ok = transactions_ok and fk = transactions_fk and held = not_held and rs = rs and s = s] assms
  by (simp add: table_lenses transactions_fk_def)

lemma restore_maintenance:
  assumes "io s = None" "\<not> blocked maintenance not_held (db s)"
    and "sorted_wrt (<) (map rowid rs)" "constraints_hold no_constraint [] rs"
    and "list_all (\<lambda>r. maintenance_fk r (db s)) rs"
  shows "restore_table maintenance (\<lambda>t d. d\<lparr>maintenance := t\<rparr>) no_constraint maintenance_fk not_held (Some rs) s =
     (Inr (), s\<lparr>db := (db s)\<lparr>maintenance := restored_table rs (maintenance (db s))\<rparr>\<rparr>)"
  using restore_table_sorted[where get = maintenance and put = "\<lambda>t d. d\<lparr>maintenance := t\<rparr>"
      and ok = no_constraint and fk = maintenance_fk and held = not_held and rs = rs and s = s] assms
  by (simp add: table_lenses maintenance_fk_def)

lemma restore_purchases:
  assumes "io s = None" "\<not> blocked purchases held_purchases (db s)"
    and "sorted_wrt (<) (map rowid rs)" "constraints_hold purchases_ok [] rs"
    and "list_all (\<lambda>r. purchases_fk r (db s)) rs"
  shows "restore_table purchases (\<lambda>t d. d\<lparr>purchases := t\<rparr>) purchases_ok purchases_fk held_purchases (Some rs) s =
     (Inr (), s\<lparr>db := (db s)\<lparr>purchases := restored_table rs (purchases (db s))\<rparr>\<rparr>)"
  using restore_table_sorted[where get = purchases and put = "\<lambda>t d. d\<lparr>purchases := t\<rparr>"
      and ok = purchases_ok and fk = purchases_fk and held = held_purchases and rs = rs and s = s] assms
  by (simp add: table_lenses purchases_fk_def)

lemma restore_purchase_items:
  assumes "io s = None" "\<not> blocked purchase_items not_held (db s)"
    and "sorted_wrt (<) (map rowid rs)" "constraints_hold no_constraint [] rs"
    and "list_all (\<lambda>r. purchase_items_fk r (db s)) rs"
  shows "restore_table purchase_items (\<lambda>t d. d\<lparr>purchase_items := t\<rparr>) no_constraint purchase_items_fk not_held (Some rs) s =
     (Inr (), s\<lparr>db := (db s)\<lparr>purchase_items := restored_table rs (purchase_items (db s))\<rparr>\<rparr>)"
  using restore_table_sorted[where get = purchase_items and put = "\<lambda>t d. d\<lparr>purchase_items := t\<rparr>"
      and ok = no_constraint and fk = purchase_items_fk and held = not_held and rs = rs and s = s] assms
  by (simp add: table_lenses purchase_items_fk_def)

lemma restore_general_ledger:
  assumes "io s = None" "\<not> blocked general_ledger not_held (db s)"
    and "sorted_wrt (<) (map rowid rs)" "constraints_hold general_ledger_ok [] rs"
    and "list_all (\<lambda>r. no_reference r (db s)) rs"
  shows "restore_table general_ledger (\<lambda>t d. d\<lparr>general_ledger := t\<rparr>) general_ledger_ok no_reference not_held (Some rs) s =
     (Inr (), s\<lparr>db := (db s)\<lparr>general_ledger := restored_table rs (general_ledger (db s))\<rparr>\<rparr>)"
  using restore_table_sorted[where get = general_ledger and put = "\<lambda>t d. d\<lparr>general_ledger := t\<rparr>"
      and ok = general_ledger_ok and fk = no_reference and held = not_held and rs = rs and s = s] assms
  by (simp add: table_lenses no_reference_def)

lemma restore_stock_adjustments:
  assumes "io s = None" "\<not> blocked stock_adjustments not_held (db s)"
    and "sorted_wrt (<) (map rowid rs)" "constraints_hold stock_adjustments_ok [] rs"
    and "list_all (\<lambda>r. stock_adjustments_fk r (db s)) rs"
  shows "restore_table stock_adjustments (\<lambda>t d. d\<lparr>stock_adjustments := t\<rparr>) stock_adjustments_ok stock_adjustments_fk not_held (Some rs) s =
     (Inr (), s\<lparr>db := (db s)\<lparr>stock_adjustments := restored_table rs (stock_adjustments (db s))\<rparr>\<rparr>)"
  using restore_table_sorted[where get = stock_adjustments and put = "\<lambda>t d. d\<lparr>stock_adjustments := t\<rparr>"
      and ok = stock_adjustments_ok and fk = stock_adjustments_fk and held = not_held and rs = rs and s = s] assms
  by (simp add: table_lenses stock_adjustments_fk_def)

lemma insert_each_setting_distinct:
  assumes "io s = None" "distinct (map fst (settings (db s) @ kvs))"
  shows "insert_each_setting kvs s = (Inr (), s\<lparr>db := (db s)\<lparr>settings := settings (db s) @ kvs\<rparr>\<rparr>)"
  using assms
proof (induction kvs arbitrary: s)
  case Nil
  then show ?case by (simp add: ret_def)
next
  case (Cons kv kvs)
  then show ?case
    by (simp add: andThen_def run_no_fault insert_setting_def)
qed

lemma restore_settings_distinct:
  assumes "io s = None" "distinct (map fst kvs)"
  shows "restore_settings (Some kvs) s = (Inr (), s\<lparr>db := (db s)\<lparr>settings := kvs\<rparr>\<rparr>)"
proof (cases "kvs = []")
  case True
  with assms show ?thesis
    by (simp add: restore_settings_def andThen_def run_no_fault delete_settings_def ret_def)
next
  case False
  have "insert_each_setting kvs (s\<lparr>db := (db s)\<lparr>settings := []\<rparr>\<rparr>) =
      (Inr (), s\<lparr>db := (db s)\<lparr>settings := kvs\<rparr>\<rparr>)"
    using assms by (simp add: insert_each_setting_distinct)
  with False assms show ?thesis
    by (simp add: restore_settings_def andThen_def run_no_fault delete_settings_def)
qed

lemma refers_restored [simp]: "refers k (restored_table (rows t0) t) = refers k t0"
  by (simp add: refers_def restored_table_def)

lemma refers_opt_restored [simp]: "refers_opt v (restored_table (rows t0) t) = refers_opt v t0"
  by (cases v) simp_all

lemma rows_restored_table [simp]: "rows (restored_table rs t) = rs"
  by (simp add: restored_table_def)

lemma import_export_no_fault:
  assumes "io s = None" "db_wf d0" "unreferenced (db s)"
  shows "import_body (backup_of d0) s = (Inr (), s\<lparr>db := restore_of d0 (db s)\<rparr>)"
proof -
  have step1: "restore_table users (\<lambda>t d. d\<lparr>users := t\<rparr>) users_ok no_reference held_users
               (Some (rows (users d0))) s = (Inr (), (s\<lparr>db := (db s)\<lparr>users := restored_table (rows (users d0)) (users (db s))\<rparr>\<rparr>))"
  proof -
    have "restore_table users (\<lambda>t d. d\<lparr>users := t\<rparr>) users_ok no_reference held_users
               (Some (rows (users d0))) s =
        (Inr (), s\<lparr>db := (db s)\<lparr>users := restored_table (rows (users d0)) (users (db s))\<rparr>\<rparr>)"
    proof (rule restore_users)
      show "io s = None" using assms(1) by simp
      show "\<not> blocked users held_users (db s)"
        using assms(3) by (simp add: unreferenced_def blocked_def held_users_def)
      show "sorted_wrt (<) (map rowid (rows (users d0)))"
        using assms(2) by (simp add: db_wf_def table_wf_def)
      show "constraints_hold users_ok [] (rows (users d0))"
        using assms(2) by (simp add: db_wf_def table_wf_def)
      show "list_all (\<lambda>r. no_reference r (db s)) (rows (users d0))"
        using assms(2) by (simp add: db_wf_def no_reference_def list_all_iff)
    qed
    then show ?thesis by simp
  qed
  have step2: "restore_settings (Some (settings d0)) (s\<lparr>db := (db s)\<lparr>users := restored_table (rows (users d0)) (users (db s))\<rparr>\<rparr>) = (Inr (), (s\<lparr>db := (db s)\<lparr>users := restored_table (rows (users d0)) (users (db s)), settings := settings d0\<rparr>\<rparr>))"
    using assms(1,2) by (simp add: restore_settings_distinct db_wf_def)
  have step3: "restore_table products (\<lambda>t d. d\<lparr>products := t\<rparr>) products_ok no_reference held_products
               (Some (rows (products d0))) (s\<lparr>db := (db s)\<lparr>users := restored_table (rows (users d0)) (users (db s)), settings := settings d0\<rparr>\<rparr>) = (Inr (), (s\<lparr>db := (db s)\<lparr>users := restored_table (rows (users d0)) (users (db s)), settings := settings d0, products := restored_table (rows (products d0)) (products (db s))\<rparr>\<rparr>))"
  proof -
    have "restore_table products (\<lambda>t d. d\<lparr>products := t\<rparr>) products_ok no_reference held_products
               (Some (rows (products d0))) (s\<lparr>db := (db s)\<lparr>users := restored_table (rows (users d0)) (users (db s)), settings := settings d0\<rparr>\<rparr>) =
        (Inr (), (s\<lparr>db := (db s)\<lparr>users := restored_table (rows (users d0)) (users (db s)), settings := settings d0\<rparr>\<rparr>)\<lparr>db := (db (s\<lparr>db := (db s)\<lparr>users := restored_table (rows (users d0)) (users (db s)), settings := settings d0\<rparr>\<rparr>))\<lparr>products := restored_table (rows (products d0)) (products (db (s\<lparr>db := (db s)\<lparr>users := restored_table (rows (users d0)) (users (db s)), settings := settings d0\<rparr>\<rparr>)))\<rparr>\<rparr>)"
    proof (rule restore_products)
      show "io (s\<lparr>db := (db s)\<lparr>users := restored_table (rows (users d0)) (users (db s)), settings := settings d0\<rparr>\<rparr>) = None" using assms(1) by simp
      show "\<not> blocked products held_products (db (s\<lparr>db := (db s)\<lparr>users := restored_table (rows (users d0)) (users (db s)), settings := settings d0\<rparr>\<rparr>))"
        using assms(3) by (simp add: unreferenced_def blocked_def held_products_def)
      show "sorted_wrt (<) (map rowid (rows (products d0)))"
        using assms(2) by (simp add: db_wf_def table_wf_def)
      show "constraints_hold products_ok [] (rows (products d0))"
        using assms(2) by (simp add: db_wf_def table_wf_def)
      show "list_all (\<lambda>r. no_reference r (db (s\<lparr>db := (db s)\<lparr>users := restored_table (rows (users d0)) (users (db s)), settings := settings d0\<rparr>\<rparr>))) (rows (products d0))"
        using assms(2) by (simp add: db_wf_def no_reference_def list_all_iff)
    qed
    then show ?thesis by simp
  qed
  have step4: "restore_table warehouses (\<lambda>t d. d\<lparr>warehouses := t\<rparr>) no_constraint no_reference not_held
               (Some (rows (warehouses d0))) (s\<lparr>db := (db s)\<lparr>users := restored_table (rows (users d0)) (users (db s)), settings := settings d0, products := restored_table (rows (products d0)) (products (db s))\<rparr>\<rparr>) = (Inr (), (s\<lparr>db := (db s)\<lparr>users := restored_table (rows (users d0)) (users (db s)), settings := settings d0, products := restored_table (rows (products d0)) (products (db s)), warehouses := restored_table (rows (warehouses d0)) (warehouses (db s))\<rparr>\<rparr>))"
  proof -
    have "restore_table warehouses (\<lambda>t d. d\<lparr>warehouses := t\<rparr>) no_constraint no_reference not_held
               (Some (rows (warehouses d0))) (s\<lparr>db := (db s)\<lparr>users := restored_table (rows (users d0)) (users (db s)), settings := settings d0, products := restored_table (rows (products d0)) (products (db s))\<rparr>\<rparr>) =
        (Inr (), (s\<lparr>db := (db s)\<lparr>users := restored_table (rows (users d0)) (users (db s)), settings := settings d0, products := restored_table (rows (products d0)) (products (db s))\<rparr>\<rparr>)\<lparr>db := (db (s\<lparr>db := (db s)\<lparr>users := restored_table (rows (users d0)) (users (db s)), settings := settings d0, products := restored_table (rows (products d0)) (products (db s))\<rparr>\<rparr>))\<lparr>warehouses := restored_table (rows (warehouses d0)) (warehouses (db (s\<lparr>db := (db s)\<lparr>users := restored_table (rows (users d0)) (users (db s)), settings := settings d0, products := restored_table (rows (products d0)) (products (db s))\<rparr>\<rparr>)))\<rparr>\<rparr>)"
    proof (rule restore_warehouses)
      show "io (s\<lparr>db := (db s)\<lparr>users := restored_table (rows (users d0)) (users (db s)), settings := settings d0, products := restored_table (rows (products d0)) (products (db s))\<rparr>\<rparr>) = None" using assms(1) by simp
      show "\<not> blocked warehouses not_held (db (s\<lparr>db := (db s)\<lparr>users := restored_table (rows (users d0)) (users (db s)), settings := settings d0, products := restored_table (rows (products d0)) (products (db s))\<rparr>\<rparr>))"
        using assms(3) by (simp add: unreferenced_def blocked_def not_held_def)
      show "sorted_wrt (<) (map rowid (rows (warehouses d0)))"
        using assms(2) by (simp add: db_wf_def table_wf_def)
      show "constraints_hold no_constraint [] (rows (warehouses d0))"
        using assms(2) by (simp add: db_wf_def table_wf_def)
      show "list_all (\<lambda>r. no_reference r (db (s\<lparr>db := (db s)\<lparr>users := restored_table (rows (users d0)) (users (db s)), settings := settings d0, products := restored_table (rows (products d0)) (products (db s))\<rparr>\<rparr>))) (rows (warehouses d0))"
        using assms(2) by (simp add: db_wf_def no_reference_def list_all_iff)
    qed
    then show ?thesis by simp
  qed
  have step5: "restore_table suppliers (\<lambda>t d. d\<lparr>suppliers := t\<rparr>) no_constraint no_reference held_suppliers
               (Some (rows (suppliers d0))) (s\<lparr>db := (db s)\<lparr>users := restored_table (rows (users d0)) (users (db s)), settings := settings d0, products := restored_table (rows (products d0)) (products (db s)), warehouses := restored_table (rows (warehouses d0)) (warehouses (db s))\<rparr>\<rparr>) = (Inr (), (s\<lparr>db := (db s)\<lparr>users := restored_table (rows (users d0)) (users (db s)), settings := settings d0, products := restored_table (rows (products d0)) (products (db s)), warehouses := restored_table (rows (warehouses d0)) (warehouses (db s)), suppliers := restored_table (rows (suppliers d0)) (suppliers (db s))\<rparr>\<rparr>))"
  proof -
    have "restore_table suppliers (\<lambda>t d. d\<lparr>suppliers := t\<rparr>) no_constraint no_reference held_suppliers
               (Some (rows (suppliers d0))) (s\<lparr>db := (db s)\<lparr>users := restored_table (rows (users d0)) (users (db s)), settings := settings d0, products := restored_table (rows (products d0)) (products (db s)), warehouses := restored_table (rows (warehouses d0)) (warehouses (db s))\<rparr>\<rparr>) =
        (Inr (), (s\<lparr>db := (db s)\<lparr>users := restored_table (rows (users d0)) (users (db s)), settings := settings d0, products := restored_table (rows (products d0)) (products (db s)), warehouses := restored_table (rows (warehouses d0)) (warehouses (db s))\<rparr>\<rparr>)\<lparr>db := (db (s\<lparr>db := (db s)\<lparr>users := restored_table (rows (users d0)) (users (db s)), settings := settings d0, products := restored_table (rows (products d0)) (products (db s)), warehouses := restored_table (rows (warehouses d0)) (warehouses (db s))\<rparr>\<rparr>))\<lparr>suppliers := restored_table (rows (suppliers d0)) (suppliers (db (s\<lparr>db := (db s)\<lparr>users := restored_table (rows (users d0)) (users (db s)), settings := settings d0, products := restored_table (rows (products d0)) (products (db s)), warehouses := restored_table (rows (warehouses d0)) (warehouses (db s))\<rparr>\<rparr>)))\<rparr>\<rparr>)"
    proof (rule restore_suppliers)
      show "io (s\<lparr>db := (db s)\<lparr>users := restored_table (rows (users d0)) (users (db s)), settings := settings d0, products := restored_table (rows (products d0)) (products (db s)), warehouses := restored_table (rows (warehouses d0)) (warehouses (db s))\<rparr>\<rparr>) = None" using assms(1) by simp
      show "\<not> blocked suppliers held_suppliers (db (s\<lparr>db := (db s)\<lparr>users := restored_table (rows (users d0)) (users (db s)), settings := settings d0, products := restored_table (rows (products d0)) (products (db s)), warehouses := restored_table (rows (warehouses d0)) (warehouses (db s))\<rparr>\<rparr>))"
        using assms(3) by (simp add: unreferenced_def blocked_def held_suppliers_def)
      show "sorted_wrt (<) (map rowid (rows (suppliers d0)))"
        using assms(2) by (simp add: db_wf_def table_wf_def)
      show "constraints_hold no_constraint [] (rows (suppliers d0))"
        using assms(2) by (simp add: db_wf_def table_wf_def)
      show "list_all (\<lambda>r. no_reference r (db (s\<lparr>db := (db s)\<lparr>users := restored_table (rows (users d0)) (users (db s)), settings := settings d0, products := restored_table (rows (products d0)) (products (db s)), warehouses := restored_table (rows (warehouses d0)) (warehouses (db s))\<rparr>\<rparr>))) (rows (suppliers d0))"
        using assms(2) by (simp add: db_wf_def no_reference_def list_all_iff)
    qed
    then show ?thesis by simp
  qed
  have step6: "restore_table supplier_transactions (\<lambda>t d. d\<lparr>supplier_transactions := t\<rparr>) supplier_transactions_ok supplier_transactions_fk not_held
               (Some (rows (supplier_transactions d0))) (s\<lparr>db := (db s)\<lparr>users := restored_table (rows (users d0)) (users (db s)), settings := settings d0, products := restored_table (rows (products d0)) (products (db s)), warehouses := restored_table (rows (warehouses d0)) (warehouses (db s)), suppliers := restored_table (rows (suppliers d0)) (suppliers (db s))\<rparr>\<rparr>) = (Inr (), (s\<lparr>db := (db s)\<lparr>users := restored_table (rows (users d0)) (users (db s)), settings := settings d0, products := restored_table (rows (products d0)) (products (db s)), warehouses := restored_table (rows (warehouses d0)) (warehouses (db s)), suppliers := restored_table (rows (suppliers d0)) (suppliers (db s)), supplier_transactions := restored_table (rows (supplier_transactions d0)) (supplier_transactions (db s))\<rparr>\<rparr>))"
  proof -
    have "restore_table supplier_transactions (\<lambda>t d. d\<lparr>supplier_transactions := t\<rparr>) supplier_transactions_ok supplier_transactions_fk not_held
               (Some (rows (supplier_transactions d0))) (s\<lparr>db := (db s)\<lparr>users := restored_table (rows (users d0)) (users (db s)), settings := settings d0, products := restored_table (rows (products d0)) (products (db s)), warehouses := restored_table (rows (warehouses d0)) (warehouses (db s)), suppliers := restored_table (rows (suppliers d0)) (suppliers (db s))\<rparr>\<rparr>) =
        (Inr (), (s\<lparr>db := (db s)\<lparr>users := restored_table (rows (users d0)) (users (db s)), settings := settings d0, products := restored_table (rows (products d0)) (products (db s)), warehouses := restored_table (rows (warehouses d0)) (warehouses (db s)), suppliers := restored_table (rows (suppliers d0)) (suppliers (db s))\<rparr>\<rparr>)\<lparr>db := (db (s\<lparr>db := (db s)\<lparr>users := restored_table (rows (users d0)) (users (db s)), settings := settings d0, products := restored_table (rows (products d0)) (products (db s)), warehouses := restored_table (rows (warehouses d0)) (warehouses (db s)), suppliers := restored_table (rows (suppliers d0)) (suppliers (db s))\<rparr>\<rparr>))\<lparr>supplier_transactions := restored_table (rows (supplier_transactions d0)) (supplier_transactions (db (s\<lparr>db := (db s)\<lparr>users := restored_table (rows (users d0)) (users (db s)), settings := settings d0, products := restored_table (rows (products d0)) (products (db s)), warehouses := restored_table (rows (warehouses d0)) (warehouses (db s)), suppliers := restored_table (rows (suppliers d0)) (suppliers (db s))\<rparr>\<rparr>)))\<rparr>\<rparr>)"
    proof (rule restore_supplier_transactions)
      show "io (s\<lparr>db := (db s)\<lparr>users := restored_table (rows (users d0)) (users (db s)), settings := settings d0, products := restored_table (rows (products d0)) (products (db s)), warehouses := restored_table (rows (warehouses d0)) (warehouses (db s)), suppliers := restored_table (rows (suppliers d0)) (suppliers (db s))\<rparr>\<rparr>) = None" using assms(1) by simp
      show "\<not> blocked supplier_transactions not_held (db (s\<lparr>db := (db s)\<lparr>users := restored_table (rows (users d0)) (users (db s)), settings := settings d0, products := restored_table (rows (products d0)) (products (db s)), warehouses := restored_table (rows (warehouses d0)) (warehouses (db s)), suppliers := restored_table (rows (suppliers d0)) (suppliers (db s))\<rparr>\<rparr>))"
        using assms(3) by (simp add: unreferenced_def blocked_def not_held_def)
      show "sorted_wrt (<) (map rowid (rows (supplier_transactions d0)))"
        using assms(2) by (simp add: db_wf_def table_wf_def)
      show "constraints_hold supplier_transactions_ok [] (rows (supplier_transactions d0))"
        using assms(2) by (simp add: db_wf_def table_wf_def)
      show "list_all (\<lambda>r. supplier_transactions_fk r (db (s\<lparr>db := (db s)\<lparr>users := restored_table (rows (users d0)) (users (db s)), settings := settings d0, products := restored_table (rows (products d0)) (products (db s)), warehouses := restored_table (rows (warehouses d0)) (warehouses (db s)), suppliers := restored_table (rows (suppliers d0)) (suppliers (db s))\<rparr>\<rparr>))) (rows (supplier_transactions d0))"
        using assms(2) by (simp add: db_wf_def supplier_transactions_fk_def list_all_iff)
    qed
    then show ?thesis by simp
  qed
  have step7: "restore_table customers (\<lambda>t d. d\<lparr>customers := t\<rparr>) no_constraint no_reference held_customers
               (Some (rows (customers d0))) (s\<lparr>db := (db s)\<lparr>users := restored_table (rows (users d0)) (users (db s)), settings := settings d0, products := restored_table (rows (products d0)) (products (db s)), warehouses := restored_table (rows (warehouses d0)) (warehouses (db s)), suppliers := restored_table (rows (suppliers d0)) (suppliers (db s)), supplier_transactions := restored_table (rows (supplier_transactions d0)) (supplier_transactions (db s))\<rparr>\<rparr>) = (Inr (), (s\<lparr>db := (db s)\<lparr>users := restored_table (rows (users d0)) (users (db s)), settings := settings d0, products := restored_table (rows (products d0)) (products (db s)), warehouses := restored_table (rows (warehouses d0)) (warehouses (db s)), suppliers := restored_table (rows (suppliers d0)) (suppliers (db s)), supplier_transactions := restored_table (rows (supplier_transactions d0)) (supplier_transactions (db s)), customers := restored_table (rows (customers d0)) (customers (db s))\<rparr>\<rparr>))"
  proof -
    have "restore_table customers (\<lambda>t d. d\<lparr>customers := t\<rparr>) no_constraint no_reference held_customers
               (Some (rows (customers d0))) (s\<lparr>db := (db s)\<lparr>users := restored_table (rows (users d0)) (users (db s)), settings := settings d0, products := restored_table (rows (products d0)) (products (db s)), warehouses := restored_table (rows (warehouses d0)) (warehouses (db s)), suppliers := restored_table (rows (suppliers d0)) (suppliers (db s)), supplier_transactions := restored_table (rows (supplier_transactions d0)) (supplier_transactions (db s))\<rparr>\<rparr>) =
        (Inr (), (s\<lparr>db := (db s)\<lparr>users := restored_table (rows (users d0)) (users (db s)), settings := settings d0, products := restored_table (rows (products d0)) (products (db s)), warehouses := restored_table (rows (warehouses d0)) (warehouses (db s)), suppliers := restored_table (rows (suppliers d0)) (suppliers (db s)), supplier_transactions := restored_table (rows (supplier_transactions d0)) (supplier_transactions (db s))\<rparr>\<rparr>)\<lparr>db := (db (s\<lparr>db := (db s)\<lparr>users := restored_table (rows (users d0)) (users (db s)), settings := settings d0, products := restored_table (rows (products d0)) (products (db s)), warehouses := restored_table (rows (warehouses d0)) (warehouses (db s)), suppliers := restored_table (rows (suppliers d0)) (suppliers (db s)), supplier_transactions := restored_table (rows (supplier_transactions d0)) (supplier_transactions (db s))\<rparr>\<rparr>))\<lparr>customers := restored_table (rows (customers d0)) (customers (db (s\<lparr>db := (db s)\<lparr>users := restored_table (rows (users d0)) (users (db s)), settings := settings d0, products := restored_table (rows (products d0)) (products (db s)), warehouses := restored_table (rows (warehouses d0)) (warehouses (db s)), suppliers := restored_table (rows (suppliers d0)) (suppliers (db s)), supplier_transactions := restored_table (rows (supplier_transactions d0)) (supplier_transactions (db s))\<rparr>\<rparr>)))\<rparr>\<rparr>)"
    proof (rule restore_customers)
      show "io (s\<lparr>db := (db s)\<lparr>users := restored_table (rows (users d0)) (users (db s)), settings := settings d0, products := restored_table (rows (products d0)) (products (db s)), warehouses := restored_table (rows (warehouses d0)) (warehouses (db s)), suppliers := restored_table (rows (suppliers d0)) (suppliers (db s)), supplier_transactions := restored_table (rows (supplier_transactions d0)) (supplier_transactions (db s))\<rparr>\<rparr>) = None" using assms(1) by simp
      show "\<not> blocked customers held_customers (db (s\<lparr>db := (db s)\<lparr>users := restored_table (rows (users d0)) (users (db s)), settings := settings d0, products := restored_table (rows (products d0)) (products (db s)), warehouses := restored_table (rows (warehouses d0)) (warehouses (db s)), suppliers := restored_table (rows (suppliers d0)) (suppliers (db s)), supplier_transactions := restored_table (rows (supplier_transactions d0)) (supplier_transactions (db s))\<rparr>\<rparr>))"
        using assms(3) by (simp add: unreferenced_def blocked_def held_customers_def)
      show "sorted_wrt (<) (map rowid (rows (customers d0)))"
        using assms(2) by (simp add: db_wf_def table_wf_def)
      show "constraints_hold no_constraint [] (rows (customers d0))"
        using assms(2) by (simp add: db_wf_def table_wf_def)
      show "list_all (\<lambda>r. no_reference r (db (s\<lparr>db := (db s)\<lparr>users := restored_table (rows (users d0)) (users (db s)), settings := settings d0, products := restored_table (rows (products d0)) (products (db s)), warehouses := restored_table (rows (warehouses d0)) (warehouses (db s)), suppliers := restored_table (rows (suppliers d0)) (suppliers (db s)), supplier_transactions := restored_table (rows (supplier_transactions d0)) (supplier_transactions (db s))\<rparr>\<rparr>))) (rows (customers d0))"
        using assms(2) by (simp add: db_wf_def no_reference_def list_all_iff)
    qed
    then show ?thesis by simp
  qed
  have step8: "restore_table sales (\<lambda>t d. d\<lparr>sales := t\<rparr>) sales_ok sales_fk held_sales
               (Some (rows (sales d0))) (s\<lparr>db := (db s)\<lparr>users := restored_table (rows (users d0)) (users (db s)), settings := settings d0, products := restored_table (rows (products d0)) (products (db s)), warehouses := restored_table (rows (warehouses d0)) (warehouses (db s)), suppliers := restored_table (rows (suppliers d0)) (suppliers (db s)), supplier_transactions := restored_table (rows (supplier_transactions d0)) (supplier_transactions (db s)), customers := restored_table (rows (customers d0)) (customers (db s))\<rparr>\<rparr>) = (Inr (), (s\<lparr>db := (db s)\<lparr>users := restored_table (rows (users d0)) (users (db s)), settings := settings d0, products := restored_table (rows (products d0)) (products (db s)), warehouses := restored_table (rows (warehouses d0)) (warehouses (db s)), suppliers := restored_table (rows (suppliers d0)) (suppliers (db s)), supplier_transactions := restored_table (rows (supplier_transactions d0)) (supplier_transactions (db s)), customers := restored_table (rows (customers d0)) (customers (db s)), sales := restored_table (rows (sales d0)) (sales (db s))\<rparr>\<rparr>))"
  proof -
    have "restore_table sales (\<lambda>t d. d\<lparr>sales := t\<rparr>) sales_ok sales_fk held_sales
               (Some (rows (sales d0))) (s\<lparr>db := (db s)\<lparr>users := restored_table (rows (users d0)) (users (db s)), settings := settings d0, products := restored_table (rows (products d0)) (products (db s)), warehouses := restored_table (rows (warehouses d0)) (warehouses (db s)), suppliers := restored_table (rows (suppliers d0)) (suppliers (db s)), supplier_transactions := restored_table (rows (supplier_transactions d0)) (supplier_transactions (db s)), customers := restored_table (rows (customers d0)) (customers (db s))\<rparr>\<rparr>) =
        (Inr (), (s\<lparr>db := (db s)\<lparr>users := restored_table (rows (users d0)) (users (db s)), settings := settings d0, products := restored_table (rows (products d0)) (products (db s)), warehouses := restored_table (rows (warehouses d0)) (warehouses (db s)), suppliers := restored_table (rows (suppliers d0)) (suppliers (db s)), supplier_transactions := restored_table (rows (supplier_transactions d0)) (supplier_transactions (db s)), customers := restored_table (rows (customers d0)) (customers (db s))\<rparr>\<rparr>)\<lparr>db := (db (s\<lparr>db := (db s)\<lparr>users := restored_table (rows (users d0)) (users (db s)), settings := settings d0, products := restored_table (rows (products d0)) (products (db s)), warehouses := restored_table (rows (warehouses d0)) (warehouses (db s)), suppliers := restored_table (rows (suppliers d0)) (suppliers (db s)), supplier_transactions := restored_table (rows (supplier_transactions d0)) (supplier_transactions (db s)), customers := restored_table (rows (customers d0)) (customers (db s))\<rparr>\<rparr>))\<lparr>sales := restored_table (rows (sales d0)) (sales (db (s\<lparr>db := (db s)\<lparr>users := restored_table (rows (users d0)) (users (db s)), settings := settings d0, products := restored_table (rows (products d0)) (products (db s)), warehouses := restored_table (rows (warehouses d0)) (warehouses (db s)), suppliers := restored_table (rows (suppliers d0)) (suppliers (db s)), supplier_transactions := restored_table (rows (supplier_transactions d0)) (supplier_transactions (db s)), customers := restored_table (rows (customers d0)) (customers (db s))\<rparr>\<rparr>)))\<rparr>\<rparr>)"
    proof (rule restore_sales)
      show "io (s\<lparr>db := (db s)\<lparr>users := restored_table (rows (users d0)) (users (db s)), settings := settings d0, products := restored_table (rows (products d0)) (products (db s)), warehouses := restored_table (rows (warehouses d0)) (warehouses (db s)), suppliers := restored_table (rows (suppliers d0)) (suppliers (db s)), supplier_transactions := restored_table (rows (supplier_transactions d0)) (supplier_transactions (db s)), customers := restored_table (rows (customers d0)) (customers (db s))\<rparr>\<rparr>) = None" using assms(1) by simp
      show "\<not> blocked sales held_sales (db (s\<lparr>db := (db s)\<lparr>users := restored_table (rows (users d0)) (users (db s)), settings := settings d0, products := restored_table (rows (products d0)) (products (db s)), warehouses := restored_table (rows (warehouses d0)) (warehouses (db s)), suppliers := restored_table (rows (suppliers d0)) (suppliers (db s)), supplier_transactions := restored_table (rows (supplier_transactions d0)) (supplier_transactions (db s)), customers := restored_table (rows (customers d0)) (customers (db s))\<rparr>\<rparr>))"
        using assms(3) by (simp add: unreferenced_def blocked_def held_sales_def)
      show "sorted_wrt (<) (map rowid (rows (sales d0)))"
        using assms(2) by (simp add: db_wf_def table_wf_def)
      show "constraints_hold sales_ok [] (rows (sales d0))"
        using assms(2) by (simp add: db_wf_def table_wf_def)
      show "list_all (\<lambda>r. sales_fk r (db (s\<lparr>db := (db s)\<lparr>users := restored_table (rows (users d0)) (users (db s)), settings := settings d0, products := restored_table (rows (products d0)) (products (db s)), warehouses := restored_table (rows (warehouses d0)) (warehouses (db s)), suppliers := restored_table (rows (suppliers d0)) (suppliers (db s)), supplier_transactions := restored_table (rows (supplier_transactions d0)) (supplier_transactions (db s)), customers := restored_table (rows (customers d0)) (customers (db s))\<rparr>\<rparr>))) (rows (sales d0))"
        using assms(2) by (simp add: db_wf_def sales_fk_def list_all_iff)
    qed
    then show ?thesis by simp
  qed
  have step9: "restore_table sale_items (\<lambda>t d. d\<lparr>sale_items := t\<rparr>) no_constraint sale_items_fk not_held
               (Some (rows (sale_items d0))) (s\<lparr>db := (db s)\<lparr>users := restored_table (rows (users d0)) (users (db s)), settings := settings d0, products := restored_table (rows (products d0)) (products (db s)), warehouses := restored_table (rows (warehouses d0)) (warehouses (db s)), suppliers := restored_table (rows (suppliers d0)) (suppliers (db s)), supplier_transactions := restored_table (rows (supplier_transactions d0)) (supplier_transactions (db s)), customers := restored_table (rows (customers d0)) (customers (db s)), sales := restored_table (rows (sales d0)) (sales (db s))\<rparr>\<rparr>) = (Inr (), (s\<lparr>db := (db s)\<lparr>users := restored_table (rows (users d0)) (users (db s)), settings := settings d0, products := restored_table (rows (products d0)) (products (db s)), warehouses := restored_table (rows (warehouses d0)) (warehouses (db s)), suppliers := restored_table (rows (suppliers d0)) (suppliers (db s)), supplier_transactions := restored_table (rows (supplier_transactions d0)) (supplier_transactions (db s)), customers := restored_table (rows (customers d0)) (customers (db s)), sales := restored_table (rows (sales d0)) (sales (db s)), sale_items := restored_table (rows (sale_items d0)) (sale_items (db s))\<rparr>\<rparr>))"
  proof -
    have "restore_table sale_items (\<lambda>t d. d\<lparr>sale_items := t\<rparr>) no_constraint sale_items_fk not_held
               (Some (rows (sale_items d0))) (s\<lparr>db := (db s)\<lparr>users := restored_table (rows (users d0)) (users (db s)), settings := settings d0, products := restored_table (rows (products d0)) (products (db s)), warehouses := restored_table (rows (warehouses d0)) (warehouses (db s)), suppliers := restored_table (rows (suppliers d0)) (suppliers (db s)), supplier_transactions := restored_table (rows (supplier_transactions d0)) (supplier_transactions (db s)), customers := restored_table (rows (customers d0)) (customers (db s)), sales := restored_table (rows (sales d0)) (sales (db s))\<rparr>\<rparr>) =
        (Inr (), (s\<lparr>db := (db s)\<lparr>users := restored_table (rows (users d0)) (users (db s)), settings := settings d0, products := restored_table (rows (products d0)) (products (db s)), warehouses := restored_table (rows (warehouses d0)) (warehouses (db s)), suppliers := restored_table (rows (suppliers d0)) (suppliers (db s)), supplier_transactions := restored_table (rows (supplier_transactions d0)) (supplier_transactions (db s)), customers := restored_table (rows (customers d0)) (customers (db s)), sales := restored_table (rows (sales d0)) (sales (db s))\<rparr>\<rparr>)\<lparr>db := (db (s\<lparr>db := (db s)\<lparr>users := restored_table (rows (users d0)) (users (db s)), settings := settings d0, products := restored_table (rows (products d0)) (products (db s)), warehouses := restored_table (rows (warehouses d0)) (warehouses (db s)), suppliers := restored_table (rows (suppliers d0)) (suppliers (db s)), supplier_transactions := restored_table (rows (supplier_transactions d0)) (supplier_transactions (db s)), customers := restored_table (rows (customers d0)) (customers (db s)), sales := restored_table (rows (sales d0)) (sales (db s))\<rparr>\<rparr>))\<lparr>sale_items := restored_table (rows (sale_items d0)) (sale_items (db (s\<lparr>db := (db s)\<lparr>users := restored_table (rows (users d0)) (users (db s)), settings := settings d0, products := restored_table (rows (products d0)) (products (db s)), warehouses := restored_table (rows (warehouses d0)) (warehouses (db s)), suppliers := restored_table (rows (suppliers d0)) (suppliers (db s)), supplier_transactions := restored_table (rows (supplier_transactions d0)) (supplier_transactions (db s)), customers := restored_table (rows (customers d0)) (customers (db s)), sales := restored_table (rows (sales d0)) (sales (db s))\<rparr>\<rparr>)))\<rparr>\<rparr>)"
    proof (rule restore_sale_items)
      show "io (s\<lparr>db := (db s)\<lparr>users := restored_table (rows (users d0)) (users (db s)), settings := settings d0, products := restored_table (rows (products d0)) (products (db s)), warehouses := restored_table (rows (warehouses d0)) (warehouses (db s)), suppliers := restored_table (rows (suppliers d0)) (suppliers (db s)), supplier_transactions := restored_table (rows (supplier_transactions d0)) (supplier_transactions (db s)), customers := restored_table (rows (customers d0)) (customers (db s)), sales := restored_table (rows (sales d0)) (sales (db s))\<rparr>\<rparr>) = None" using assms(1) by simp
      show "\<not> blocked sale_items not_held (db (s\<lparr>db := (db s)\<lparr>users := restored_table (rows (users d0)) (users (db s)), settings := settings d0, products := restored_table (rows (products d0)) (products (db s)), warehouses := restored_table (rows (warehouses d0)) (warehouses (db s)), suppliers := restored_table (rows (suppliers d0)) (suppliers (db s)), supplier_transactions := restored_table (rows (supplier_transactions d0)) (supplier_transactions (db s)), customers := restored_table (rows (customers d0)) (customers (db s)), sales := restored_table (rows (sales d0)) (sales (db s))\<rparr>\<rparr>))"
        using assms(3) by (simp add: unreferenced_def blocked_def not_held_def)
      show "sorted_wrt (<) (map rowid (rows (sale_items d0)))"
        using assms(2) by (simp add: db_wf_def table_wf_def)
      show "constraints_hold no_constraint [] (rows (sale_items d0))"
        using assms(2) by (simp add: db_wf_def table_wf_def)
      show "list_all (\<lambda>r. sale_items_fk r (db (s\<lparr>db := (db s)\<lparr>users := restored_table (rows (users d0)) (users (db s)), settings := settings d0, products := restored_table (rows (products d0)) (products (db s)), warehouses := restored_table (rows (warehouses d0)) (warehouses (db s)), suppliers := restored_table (rows (suppliers d0)) (suppliers (db s)), supplier_transactions := restored_table (rows (supplier_transactions d0)) (supplier_transactions (db s)), customers := restored_table (rows (customers d0)) (customers (db s)), sales := restored_table (rows (sales d0)) (sales (db s))\<rparr>\<rparr>))) (rows (sale_items d0))"
        using assms(2) by (simp add: db_wf_def sale_items_fk_def list_all_iff)
    qed
    then show ?thesis by simp
  qed
  have step10: "restore_table transactions (\<lambda>t d. d\<lparr>transactions := t\<rparr>) transactions_ok transactions_fk not_held
               (Some (rows (transactions d0))) (s\<lparr>db := (db s)\<lparr>users := restored_table (rows (users d0)) (users (db s)), settings := settings d0, products := restored_table (rows (products d0)) (products (db s)), warehouses := restored_table (rows (warehouses d0)) (warehouses (db s)), suppliers := restored_table (rows (suppliers d0)) (suppliers (db s)), supplier_transactions := restored_table (rows (supplier_transactions d0)) (supplier_transactions (db s)), customers := restored_table (rows (customers d0)) (customers (db s)), sales := restored_table (rows (sales d0)) (sales (db s)), sale_items := restored_table (rows (sale_items d0)) (sale_items (db s))\<rparr>\<rparr>) = (Inr (), (s\<lparr>db := (db s)\<lparr>users := restored_table (rows (users d0)) (users (db s)), settings := settings d0, products := restored_table (rows (products d0)) (products (db s)), warehouses := restored_table (rows (warehouses d0)) (warehouses (db s)), suppliers := restored_table (rows (suppliers d0)) (suppliers (db s)), supplier_transactions := restored_table (rows (supplier_transactions d0)) (supplier_transactions (db s)), customers := restored_table (rows (customers d0)) (customers (db s)), sales := restored_table (rows (sales d0)) (sales (db s)), sale_items := restored_table (rows (sale_items d0)) (sale_items (db s)), transactions := restored_table (rows (transactions d0)) (transactions (db s))\<rparr>\<rparr>))"
  proof -
    have "restore_table transactions (\<lambda>t d. d\<lparr>transactions := t\<rparr>) transactions_ok transactions_fk not_held
               (Some (rows (transactions d0))) (s\<lparr>db := (db s)\<lparr>users := restored_table (rows (users d0)) (users (db s)), settings := settings d0, products := restored_table (rows (products d0)) (products (db s)), warehouses := restored_table (rows (warehouses d0)) (warehouses (db s)), suppliers := restored_table (rows (suppliers d0)) (suppliers (db s)), supplier_transactions := restored_table (rows (supplier_transactions d0)) (supplier_transactions (db s)), customers := restored_table (rows (customers d0)) (customers (db s)), sales := restored_table (rows (sales d0)) (sales (db s)), sale_items := restored_table (rows (sale_items d0)) (sale_items (db s))\<rparr>\<rparr>) =
        (Inr (), (s\<lparr>db := (db s)\<lparr>users := restored_table (rows (users d0)) (users (db s)), settings := settings d0, products := restored_table (rows (products d0)) (products (db s)), warehouses := restored_table (rows (warehouses d0)) (warehouses (db s)), suppliers := restored_table (rows (suppliers d0)) (suppliers (db s)), supplier_transactions := restored_table (rows (supplier_transactions d0)) (supplier_transactions (db s)), customers := restored_table (rows (customers d0)) (customers (db s)), sales := restored_table (rows (sales d0)) (sales (db s)), sale_items := restored_table (rows (sale_items d0)) (sale_items (db s))\<rparr>\<rparr>)\<lparr>db := (db (s\<lparr>db := (db s)\<lparr>users := restored_table (rows (users d0)) (users (db s)), settings := settings d0, products := restored_table (rows (products d0)) (products (db s)), warehouses := restored_table (rows (warehouses d0)) (warehouses (db s)), suppliers := restored_table (rows (suppliers d0)) (suppliers (db s)), supplier_transactions := restored_table (rows (supplier_transactions d0)) (supplier_transactions (db s)), customers := restored_table (rows (customers d0)) (customers (db s)), sales := restored_table (rows (sales d0)) (sales (db s)), sale_items := restored_table (rows (sale_items d0)) (sale_items (db s))\<rparr>\<rparr>))\<lparr>transactions := restored_table (rows (transactions d0)) (transactions (db (s\<lparr>db := (db s)\<lparr>users := restored_table (rows (users d0)) (users (db s)), settings := settings d0, products := restored_table (rows (products d0)) (products (db s)), warehouses := restored_table (rows (warehouses d0)) (warehouses (db s)), suppliers := restored_table (rows (suppliers d0)) (suppliers (db s)), supplier_transactions := restored_table (rows (supplier_transactions d0)) (supplier_transactions (db s)), customers := restored_table (rows (customers d0)) (customers (db s)), sales := restored_table (rows (sales d0)) (sales (db s)), sale_items := restored_table (rows (sale_items d0)) (sale_items (db s))\<rparr>\<rparr>)))\<rparr>\<rparr>)"
    proof (rule restore_transactions)
      show "io (s\<lparr>db := (db s)\<lparr>users := restored_table (rows (users d0)) (users (db s)), settings := settings d0, products := restored_table (rows (products d0)) (products (db s)), warehouses := restored_table (rows (warehouses d0)) (warehouses (db s)), suppliers := restored_table (rows (suppliers d0)) (suppliers (db s)), supplier_transactions := restored_table (rows (supplier_transactions d0)) (supplier_transactions (db s)), customers := restored_table (rows (customers d0)) (customers (db s)), sales := restored_table (rows (sales d0)) (sales (db s)), sale_items := restored_table (rows (sale_items d0)) (sale_items (db s))\<rparr>\<rparr>) = None" using assms(1) by simp
      show "\<not> blocked transactions not_held (db (s\<lparr>db := (db s)\<lparr>users := restored_table (rows (users d0)) (users (db s)), settings := settings d0, products := restored_table (rows (products d0)) (products (db s)), warehouses := restored_table (rows (warehouses d0)) (warehouses (db s)), suppliers := restored_table (rows (suppliers d0)) (suppliers (db s)), supplier_transactions := restored_table (rows (supplier_transactions d0)) (supplier_transactions (db s)), customers := restored_table (rows (customers d0)) (customers (db s)), sales := restored_table (rows (sales d0)) (sales (db s)), sale_items := restored_table (rows (sale_items d0)) (sale_items (db s))\<rparr>\<rparr>))"
        using assms(3) by (simp add: unreferenced_def blocked_def not_held_def)
      show "sorted_wrt (<) (map rowid (rows (transactions d0)))"
        using assms(2) by (simp add: db_wf_def table_wf_def)
      show "constraints_hold transactions_ok [] (rows (transactions d0))"
        using assms(2) by (simp add: db_wf_def table_wf_def)
      show "list_all (\<lambda>r. transactions_fk r (db (s\<lparr>db := (db s)\<lparr>users := restored_table (rows (users d0)) (users (db s)), settings := settings d0, products := restored_table (rows (products d0)) (products (db s)), warehouses := restored_table (rows (warehouses d0)) (warehouses (db s)), suppliers := restored_table (rows (suppliers d0)) (suppliers (db s)), supplier_transactions := restored_table (rows (supplier_transactions d0)) (supplier_transactions (db s)), customers := restored_table (rows (customers d0)) (customers (db s)), sales := restored_table (rows (sales d0)) (sales (db s)), sale_items := restored_table (rows (sale_items d0)) (sale_items (db s))\<rparr>\<rparr>))) (rows (transactions d0))"
        using assms(2) by (simp add: db_wf_def transactions_fk_def list_all_iff)
    qed
    then show ?thesis by simp
  qed
  have step11: "restore_table maintenance (\<lambda>t d. d\<lparr>maintenance := t\<rparr>) no_constraint maintenance_fk not_held
               (Some (rows (maintenance d0))) (s\<lparr>db := (db s)\<lparr>users := restored_table (rows (users d0)) (users (db s)), settings := settings d0, products := restored_table (rows (products d0)) (products (db s)), warehouses := restored_table (rows (warehouses d0)) (warehouses (db s)), suppliers := restored_table (rows (suppliers d0)) (suppliers (db s)), supplier_transactions := restored_table (rows (supplier_transactions d0)) (supplier_transactions (db s)), customers := restored_table (rows (customers d0)) (customers (db s)), sales := restored_table (rows (sales d0)) (sales (db s)), sale_items := restored_table (rows (sale_items d0)) (sale_items (db s)), transactions := restored_table (rows (transactions d0)) (transactions (db s))\<rparr>\<rparr>) = (Inr (), (s\<lparr>db := (db s)\<lparr>users := restored_table (rows (users d0)) (users (db s)), settings := settings d0, products := restored_table (rows (products d0)) (products (db s)), warehouses := restored_table (rows (warehouses d0)) (warehouses (db s)), suppliers := restored_table (rows (suppliers d0)) (suppliers (db s)), supplier_transactions := restored_table (rows (supplier_transactions d0)) (supplier_transactions (db s)), customers := restored_table (rows (customers d0)) (customers (db s)), sales := restored_table (rows (sales d0)) (sales (db s)), sale_items := restored_table (rows (sale_items d0)) (sale_items (db s)), transactions := restored_table (rows (transactions d0)) (transactions (db s)), maintenance := restored_table (rows (maintenance d0)) (maintenance (db s))\<rparr>\<rparr>))"
  proof -
    have "restore_table maintenance (\<lambda>t d. d\<lparr>maintenance := t\<rparr>) no_constraint maintenance_fk not_held
               (Some (rows (maintenance d0))) (s\<lparr>db := (db s)\<lparr>users := restored_table (rows (users d0)) (users (db s)), settings := settings d0, products := restored_table (rows (products d0)) (products (db s)), warehouses := restored_table (rows (warehouses d0)) (warehouses (db s)), suppliers := restored_table (rows (suppliers d0)) (suppliers (db s)), supplier_transactions := restored_table (rows (supplier_transactions d0)) (supplier_transactions (db s)), customers := restored_table (rows (customers d0)) (customers (db s)), sales := restored_table (rows (sales d0)) (sales (db s)), sale_items := restored_table (rows (sale_items d0)) (sale_items (db s)), transactions := restored_table (rows (transactions d0)) (transactions (db s))\<rparr>\<rparr>) =
        (Inr (), (s\<lparr>db := (db s)\<lparr>users := restored_table (rows (users d0)) (users (db s)), settings := settings d0, products := restored_table (rows (products d0)) (products (db s)), warehouses := restored_table (rows (warehouses d0)) (warehouses (db s)), suppliers := restored_table (rows (suppliers d0)) (suppliers (db s)), supplier_transactions := restored_table (rows (supplier_transactions d0)) (supplier_transactions (db s)), customers := restored_table (rows (customers d0)) (customers (db s)), sales := restored_table (rows (sales d0)) (sales (db s)), sale_items := restored_table (rows (sale_items d0)) (sale_items (db s)), transactions := restored_table (rows (transactions d0)) (transactions (db s))\<rparr>\<rparr>)\<lparr>db := (db (s\<lparr>db := (db s)\<lparr>users := restored_table (rows (users d0)) (users (db s)), settings := settings d0, products := restored_table (rows (products d0)) (products (db s)), warehouses := restored_table (rows (warehouses d0)) (warehouses (db s)), suppliers := restored_table (rows (suppliers d0)) (suppliers (db s)), supplier_transactions := restored_table (rows (supplier_transactions d0)) (supplier_transactions (db s)), customers := restored_table (rows (customers d0)) (customers (db s)), sales := restored_table (rows (sales d0)) (sales (db s)), sale_items := restored_table (rows (sale_items d0)) (sale_items (db s)), transactions := restored_table (rows (transactions d0)) (transactions (db s))\<rparr>\<rparr>))\<lparr>maintenance := restored_table (rows (maintenance d0)) (maintenance (db (s\<lparr>db := (db s)\<lparr>users := restored_table (rows (users d0)) (users (db s)), settings := settings d0, products := restored_table (rows (products d0)) (products (db s)), warehouses := restored_table (rows (warehouses d0)) (warehouses (db s)), suppliers := restored_table (rows (suppliers d0)) (suppliers (db s)), supplier_transactions := restored_table (rows (supplier_transactions d0)) (supplier_transactions (db s)), customers := restored_table (rows (customers d0)) (customers (db s)), sales := restored_table (rows (sales d0)) (sales (db s)), sale_items := restored_table (rows (sale_items d0)) (sale_items (db s)), transactions := restored_table (rows (transactions d0)) (transactions (db s))\<rparr>\<rparr>)))\<rparr>\<rparr>)"
    proof (rule restore_maintenance)
      show "io (s\<lparr>db := (db s)\<lparr>users := restored_table (rows (users d0)) (users (db s)), settings := settings d0, products := restored_table (rows (products d0)) (products (db s)), warehouses := restored_table (rows (warehouses d0)) (warehouses (db s)), suppliers := restored_table (rows (suppliers d0)) (suppliers (db s)), supplier_transactions := restored_table (rows (supplier_transactions d0)) (supplier_transactions (db s)), customers := restored_table (rows (customers d0)) (customers (db s)), sales := restored_table (rows (sales d0)) (sales (db s)), sale_items := restored_table (rows (sale_items d0)) (sale_items (db s)), transactions := restored_table (rows (transactions d0)) (transactions (db s))\<rparr>\<rparr>) = None" using assms(1) by simp
      show "\<not> blocked maintenance not_held (db (s\<lparr>db := (db s)\<lparr>users := restored_table (rows (users d0)) (users (db s)), settings := settings d0, products := restored_table (rows (products d0)) (products (db s)), warehouses := restored_table (rows (warehouses d0)) (warehouses (db s)), suppliers := restored_table (rows (suppliers d0)) (suppliers (db s)), supplier_transactions := restored_table (rows (supplier_transactions d0)) (supplier_transactions (db s)), customers := restored_table (rows (customers d0)) (customers (db s)), sales := restored_table (rows (sales d0)) (sales (db s)), sale_items := restored_table (rows (sale_items d0)) (sale_items (db s)), transactions := restored_table (rows (transactions d0)) (transactions (db s))\<rparr>\<rparr>))"
        using assms(3) by (simp add: unreferenced_def blocked_def not_held_def)
      show "sorted_wrt (<) (map rowid (rows (maintenance d0)))"
        using assms(2) by (simp add: db_wf_def table_wf_def)
      show "constraints_hold no_constraint [] (rows (maintenance d0))"
        using assms(2) by (simp add: db_wf_def table_wf_def)
      show "list_all (\<lambda>r. maintenance_fk r (db (s\<lparr>db := (db s)\<lparr>users := restored_table (rows (users d0)) (users (db s)), settings := settings d0, products := restored_table (rows (products d0)) (products (db s)), warehouses := restored_table (rows (warehouses d0)) (warehouses (db s)), suppliers := restored_table (rows (suppliers d0)) (suppliers (db s)), supplier_transactions := restored_table (rows (supplier_transactions d0)) (supplier_transactions (db s)), customers := restored_table (rows (customers d0)) (customers (db s)), sales := restored_table (rows (sales d0)) (sales (db s)), sale_items := restored_table (rows (sale_items d0)) (sale_items (db s)), transactions := restored_table (rows (transactions d0)) (transactions (db s))\<rparr>\<rparr>))) (rows (maintenance d0))"
        using assms(2) by (simp add: db_wf_def maintenance_fk_def list_all_iff)
    qed
    then show ?thesis by simp
  qed
  have step12: "restore_table purchases (\<lambda>t d. d\<lparr>purchases := t\<rparr>) purchases_ok purchases_fk held_purchases
               (Some (rows (purchases d0))) (s\<lparr>db := (db s)\<lparr>users := restored_table (rows (users d0)) (users (db s)), settings := settings d0, products := restored_table (rows (products d0)) (products (db s)), warehouses := restored_table (rows (warehouses d0)) (warehouses (db s)), suppliers := restored_table (rows (suppliers d0)) (suppliers (db s)), supplier_transactions := restored_table (rows (supplier_transactions d0)) (supplier_transactions (db s)), customers := restored_table (rows (customers d0)) (customers (db s)), sales := restored_table (rows (sales d0)) (sales (db s)), sale_items := restored_table (rows (sale_items d0)) (sale_items (db s)), transactions := restored_table (rows (transactions d0)) (transactions (db s)), maintenance := restored_table (rows (maintenance d0)) (maintenance (db s))\<rparr>\<rparr>) = (Inr (), (s\<lparr>db := (db s)\<lparr>users := restored_table (rows (users d0)) (users (db s)), settings := settings d0, products := restored_table (rows (products d0)) (products (db s)), warehouses := restored_table (rows (warehouses d0)) (warehouses (db s)), suppliers := restored_table (rows (suppliers d0)) (suppliers (db s)), supplier_transactions := restored_table (rows (supplier_transactions d0)) (supplier_transactions (db s)), customers := restored_table (rows (customers d0)) (customers (db s)), sales := restored_table (rows (sales d0)) (sales (db s)), sale_items := restored_table (rows (sale_items d0)) (sale_items (db s)), transactions := restored_table (rows (transactions d0)) (transactions (db s)), maintenance := restored_table (rows (maintenance d0)) (maintenance (db s)), purchases := restored_table (rows (purchases d0)) (purchases (db s))\<rparr>\<rparr>))"
  proof -
    have "restore_table purchases (\<lambda>t d. d\<lparr>purchases := t\<rparr>) purchases_ok purchases_fk held_purchases
               (Some (rows (purchases d0))) (s\<lparr>db := (db s)\<lparr>users := restored_table (rows (users d0)) (users (db s)), settings := settings d0, products := restored_table (rows (products d0)) (products (db s)), warehouses := restored_table (rows (warehouses d0)) (warehouses (db s)), suppliers := restored_table (rows (suppliers d0)) (suppliers (db s)), supplier_transactions := restored_table (rows (supplier_transactions d0)) (supplier_transactions (db s)), customers := restored_table (rows (customers d0)) (customers (db s)), sales := restored_table (rows (sales d0)) (sales (db s)), sale_items := restored_table (rows (sale_items d0)) (sale_items (db s)), transactions := restored_table (rows (transactions d0)) (transactions (db s)), maintenance := restored_table (rows (maintenance d0)) (maintenance (db s))\<rparr>\<rparr>) =
        (Inr (), (s\<lparr>db := (db s)\<lparr>users := restored_table (rows (users d0)) (users (db s)), settings := settings d0, products := restored_table (rows (products d0)) (products (db s)), warehouses := restored_table (rows (warehouses d0)) (warehouses (db s)), suppliers := restored_table (rows (suppliers d0)) (suppliers (db s)), supplier_transactions := restored_table (rows (supplier_transactions d0)) (supplier_transactions (db s)), customers := restored_table (rows (customers d0)) (customers (db s)), sales := restored_table (rows (sales d0)) (sales (db s)), sale_items := restored_table (rows (sale_items d0)) (sale_items (db s)), transactions := restored_table (rows (transactions d0)) (transactions (db s)), maintenance := restored_table (rows (maintenance d0)) (maintenance (db s))\<rparr>\<rparr>)\<lparr>db := (db (s\<lparr>db := (db s)\<lparr>users := restored_table (rows (users d0)) (users (db s)), settings := settings d0, products := restored_table (rows (products d0)) (products (db s)), warehouses := restored_table (rows (warehouses d0)) (warehouses (db s)), suppliers := restored_table (rows (suppliers d0)) (suppliers (db s)), supplier_transactions := restored_table (rows (supplier_transactions d0)) (supplier_transactions (db s)), customers := restored_table (rows (customers d0)) (customers (db s)), sales := restored_table (rows (sales d0)) (sales (db s)), sale_items := restored_table (rows (sale_items d0)) (sale_items (db s)), transactions := restored_table (rows (transactions d0)) (transactions (db s)), maintenance := restored_table (rows (maintenance d0)) (maintenance (db s))\<rparr>\<rparr>))\<lparr>purchases := restored_table (rows (purchases d0)) (purchases (db (s\<lparr>db := (db s)\<lparr>users := restored_table (rows (users d0)) (users (db s)), settings := settings d0, products := restored_table (rows (products d0)) (products (db s)), warehouses := restored_table (rows (warehouses d0)) (warehouses (db s)), suppliers := restored_table (rows (suppliers d0)) (suppliers (db s)), supplier_transactions := restored_table (rows (supplier_transactions d0)) (supplier_transactions (db s)), customers := restored_table (rows (customers d0)) (customers (db s)), sales := restored_table (rows (sales d0)) (sales (db s)), sale_items := restored_table (rows (sale_items d0)) (sale_items (db s)), transactions := restored_table (rows (transactions d0)) (transactions (db s)), maintenance := restored_table (rows (maintenance d0)) (maintenance (db s))\<rparr>\<rparr>)))\<rparr>\<rparr>)"
    proof (rule restore_purchases)
      show "io (s\<lparr>db := (db s)\<lparr>users := restored_table (rows (users d0)) (users (db s)), settings := settings d0, products := restored_table (rows (products d0)) (products (db s)), warehouses := restored_table (rows (warehouses d0)) (warehouses (db s)), suppliers := restored_table (rows (suppliers d0)) (suppliers (db s)), supplier_transactions := restored_table (rows (supplier_transactions d0)) (supplier_transactions (db s)), customers := restored_table (rows (customers d0)) (customers (db s)), sales := restored_table (rows (sales d0)) (sales (db s)), sale_items := restored_table (rows (sale_items d0)) (sale_items (db s)), transactions := restored_table (rows (transactions d0)) (transactions (db s)), maintenance := restored_table (rows (maintenance d0)) (maintenance (db s))\<rparr>\<rparr>) = None" using assms(1) by simp
      show "\<not> blocked purchases held_purchases (db (s\<lparr>db := (db s)\<lparr>users := restored_table (rows (users d0)) (users (db s)), settings := settings d0, products := restored_table (rows (products d0)) (products (db s)), warehouses := restored_table (rows (warehouses d0)) (warehouses (db s)), suppliers := restored_table (rows (suppliers d0)) (suppliers (db s)), supplier_transactions := restored_table (rows (supplier_transactions d0)) (supplier_transactions (db s)), customers := restored_table (rows (customers d0)) (customers (db s)), sales := restored_table (rows (sales d0)) (sales (db s)), sale_items := restored_table (rows (sale_items d0)) (sale_items (db s)), transactions := restored_table (rows (transactions d0)) (transactions (db s)), maintenance := restored_table (rows (maintenance d0)) (maintenance (db s))\<rparr>\<rparr>))"
        using assms(3) by (simp add: unreferenced_def blocked_def held_purchases_def)
      show "sorted_wrt (<) (map rowid (rows (purchases d0)))"
        using assms(2) by (simp add: db_wf_def table_wf_def)
      show "constraints_hold purchases_ok [] (rows (purchases d0))"
        using assms(2) by (simp add: db_wf_def table_wf_def)
      show "list_all (\<lambda>r. purchases_fk r (db (s\<lparr>db := (db s)\<lparr>users := restored_table (rows (users d0)) (users (db s)), settings := settings d0, products := restored_table (rows (products d0)) (products (db s)), warehouses := restored_table (rows (warehouses d0)) (warehouses (db s)), suppliers := restored_table (rows (suppliers d0)) (suppliers (db s)), supplier_transactions := restored_table (rows (supplier_transactions d0)) (supplier_transactions (db s)), customers := restored_table (rows (customers d0)) (customers (db s)), sales := restored_table (rows (sales d0)) (sales (db s)), sale_items := restored_table (rows (sale_items d0)) (sale_items (db s)), transactions := restored_table (rows (transactions d0)) (transactions (db s)), maintenance := restored_table (rows (maintenance d0)) (maintenance (db s))\<rparr>\<rparr>))) (rows (purchases d0))"
        using assms(2) by (simp add: db_wf_def purchases_fk_def list_all_iff)
    qed
    then show ?thesis by simp
  qed
  have step13: "restore_table purchase_items (\<lambda>t d. d\<lparr>purchase_items := t\<rparr>) no_constraint purchase_items_fk not_held
               (Some (rows (purchase_items d0))) (s\<lparr>db := (db s)\<lparr>users := restored_table (rows (users d0)) (users (db s)), settings := settings d0, products := restored_table (rows (products d0)) (products (db s)), warehouses := restored_table (rows (warehouses d0)) (warehouses (db s)), suppliers := restored_table (rows (suppliers d0)) (suppliers (db s)), supplier_transactions := restored_table (rows (supplier_transactions d0)) (supplier_transactions (db s)), customers := restored_table (rows (customers d0)) (customers (db s)), sales := restored_table (rows (sales d0)) (sales (db s)), sale_items := restored_table (rows (sale_items d0)) (sale_items (db s)), transactions := restored_table (rows (transactions d0)) (transactions (db s)), maintenance := restored_table (rows (maintenance d0)) (maintenance (db s)), purchases := restored_table (rows (purchases d0)) (purchases (db s))\<rparr>\<rparr>) = (Inr (), (s\<lparr>db := (db s)\<lparr>users := restored_table (rows (users d0)) (users (db s)), settings := settings d0, products := restored_table (rows (products d0)) (products (db s)), warehouses := restored_table (rows (warehouses d0)) (warehouses (db s)), suppliers := restored_table (rows (suppliers d0)) (suppliers (db s)), supplier_transactions := restored_table (rows (supplier_transactions d0)) (supplier_transactions (db s)), customers := restored_table (rows (customers d0)) (customers (db s)), sales := restored_table (rows (sales d0)) (sales (db s)), sale_items := restored_table (rows (sale_items d0)) (sale_items (db s)), transactions := restored_table (rows (transactions d0)) (transactions (db s)), maintenance := restored_table (rows (maintenance d0)) (maintenance (db s)), purchases := restored_table (rows (purchases d0)) (purchases (db s)), purchase_items := restored_table (rows (purchase_items d0)) (purchase_items (db s))\<rparr>\<rparr>))"
  proof -
    have "restore_table purchase_items (\<lambda>t d. d\<lparr>purchase_items := t\<rparr>) no_constraint purchase_items_fk not_held
               (Some (rows (purchase_items d0))) (s\<lparr>db := (db s)\<lparr>users := restored_table (rows (users d0)) (users (db s)), settings := settings d0, products := restored_table (rows (products d0)) (products (db s)), warehouses := restored_table (rows (warehouses d0)) (warehouses (db s)), suppliers := restored_table (rows (suppliers d0)) (suppliers (db s)), supplier_transactions := restored_table (rows (supplier_transactions d0)) (supplier_transactions (db s)), customers := restored_table (rows (customers d0)) (customers (db s)), sales := restored_table (rows (sales d0)) (sales (db s)), sale_items := restored_table (rows (sale_items d0)) (sale_items (db s)), transactions := restored_table (rows (transactions d0)) (transactions (db s)), maintenance := restored_table (rows (maintenance d0)) (maintenance (db s)), purchases := restored_table (rows (purchases d0)) (purchases (db s))\<rparr>\<rparr>) =
        (Inr (), (s\<lparr>db := (db s)\<lparr>users := restored_table (rows (users d0)) (users (db s)), settings := settings d0, products := restored_table (rows (products d0)) (products (db s)), warehouses := restored_table (rows (warehouses d0)) (warehouses (db s)), suppliers := restored_table (rows (suppliers d0)) (suppliers (db s)), supplier_transactions := restored_table (rows (supplier_transactions d0)) (supplier_transactions (db s)), customers := restored_table (rows (customers d0)) (customers (db s)), sales := restored_table (rows (sales d0)) (sales (db s)), sale_items := restored_table (rows (sale_items d0)) (sale_items (db s)), transactions := restored_table (rows (transactions d0)) (transactions (db s)), maintenance := restored_table (rows (maintenance d0)) (maintenance (db s)), purchases := restored_table (rows (purchases d0)) (purchases (db s))\<rparr>\<rparr>)\<lparr>db := (db (s\<lparr>db := (db s)\<lparr>users := restored_table (rows (users d0)) (users (db s)), settings := settings d0, products := restored_table (rows (products d0)) (products (db s)), warehouses := restored_table (rows (warehouses d0)) (warehouses (db s)), suppliers := restored_table (rows (suppliers d0)) (suppliers (db s)), supplier_transactions := restored_table (rows (supplier_transactions d0)) (supplier_transactions (db s)), customers := restored_table (rows (customers d0)) (customers (db s)), sales := restored_table (rows (sales d0)) (sales (db s)), sale_items := restored_table (rows (sale_items d0)) (sale_items (db s)), transactions := restored_table (rows (transactions d0)) (transactions (db s)), maintenance := restored_table (rows (maintenance d0)) (maintenance (db s)), purchases := restored_table (rows (purchases d0)) (purchases (db s))\<rparr>\<rparr>))\<lparr>purchase_items := restored_table (rows (purchase_items d0)) (purchase_items (db (s\<lparr>db := (db s)\<lparr>users := restored_table (rows (users d0)) (users (db s)), settings := settings d0, products := restored_table (rows (products d0)) (products (db s)), warehouses := restored_table (rows (warehouses d0)) (warehouses (db s)), suppliers := restored_table (rows (suppliers d0)) (suppliers (db s)), supplier_transactions := restored_table (rows (supplier_transactions d0)) (supplier_transactions (db s)), customers := restored_table (rows (customers d0)) (customers (db s)), sales := restored_table (rows (sales d0)) (sales (db s)), sale_items := restored_table (rows (sale_items d0)) (sale_items (db s)), transactions := restored_table (rows (transactions d0)) (transactions (db s)), maintenance := restored_table (rows (maintenance d0)) (maintenance (db s)), purchases := restored_table (rows (purchases d0)) (purchases (db s))\<rparr>\<rparr>)))\<rparr>\<rparr>)"
    proof (rule restore_purchase_items)
      show "io (s\<lparr>db := (db s)\<lparr>users := restored_table (rows (users d0)) (users (db s)), settings := settings d0, products := restored_table (rows (products d0)) (products (db s)), warehouses := restored_table (rows (warehouses d0)) (warehouses (db s)), suppliers := restored_table (rows (suppliers d0)) (suppliers (db s)), supplier_transactions := restored_table (rows (supplier_transactions d0)) (supplier_transactions (db s)), customers := restored_table (rows (customers d0)) (customers (db s)), sales := restored_table (rows (sales d0)) (sales (db s)), sale_items := restored_table (rows (sale_items d0)) (sale_items (db s)), transactions := restored_table (rows (transactions d0)) (transactions (db s)), maintenance := restored_table (rows (maintenance d0)) (maintenance (db s)), purchases := restored_table (rows (purchases d0)) (purchases (db s))\<rparr>\<rparr>) = None" using assms(1) by simp
      show "\<not> blocked purchase_items not_held (db (s\<lparr>db := (db s)\<lparr>users := restored_table (rows (users d0)) (users (db s)), settings := settings d0, products := restored_table (rows (products d0)) (products (db s)), warehouses := restored_table (rows (warehouses d0)) (warehouses (db s)), suppliers := restored_table (rows (suppliers d0)) (suppliers (db s)), supplier_transactions := restored_table (rows (supplier_transactions d0)) (supplier_transactions (db s)), customers := restored_table (rows (customers d0)) (customers (db s)), sales := restored_table (rows (sales d0)) (sales (db s)), sale_items := restored_table (rows (sale_items d0)) (sale_items (db s)), transactions := restored_table (rows (transactions d0)) (transactions (db s)), maintenance := restored_table (rows (maintenance d0)) (maintenance (db s)), purchases := restored_table (rows (purchases d0)) (purchases (db s))\<rparr>\<rparr>))"
        using assms(3) by (simp add: unreferenced_def blocked_def not_held_def)
      show "sorted_wrt (<) (map rowid (rows (purchase_items d0)))"
        using assms(2) by (simp add: db_wf_def table_wf_def)
      show "constraints_hold no_constraint [] (rows (purchase_items d0))"
        using assms(2) by (simp add: db_wf_def table_wf_def)
      show "list_all (\<lambda>r. purchase_items_fk r (db (s\<lparr>db := (db s)\<lparr>users := restored_table (rows (users d0)) (users (db s)), settings := settings d0, products := restored_table (rows (products d0)) (products (db s)), warehouses := restored_table (rows (warehouses d0)) (warehouses (db s)), suppliers := restored_table (rows (suppliers d0)) (suppliers (db s)), supplier_transactions := restored_table (rows (supplier_transactions d0)) (supplier_transactions (db s)), customers := restored_table (rows (customers d0)) (customers (db s)), sales := restored_table (rows (sales d0)) (sales (db s)), sale_items := restored_table (rows (sale_items d0)) (sale_items (db s)), transactions := restored_table (rows (transactions d0)) (transactions (db s)), maintenance := restored_table (rows (maintenance d0)) (maintenance (db s)), purchases := restored_table (rows (purchases d0)) (purchases (db s))\<rparr>\<rparr>))) (rows (purchase_items d0))"
        using assms(2) by (simp add: db_wf_def purchase_items_fk_def list_all_iff)
    qed
    then show ?thesis by simp
  qed
  have step14: "restore_table general_ledger (\<lambda>t d. d\<lparr>general_ledger := t\<rparr>) general_ledger_ok no_reference not_held
               (Some (rows (general_ledger d0))) (s\<lparr>db := (db s)\<lparr>users := restored_table (rows (users d0)) (users (db s)), settings := settings d0, products := restored_table (rows (products d0)) (products (db s)), warehouses := restored_table (rows (warehouses d0)) (warehouses (db s)), suppliers := restored_table (rows (suppliers d0)) (suppliers (db s)), supplier_transactions := restored_table (rows (supplier_transactions d0)) (supplier_transactions (db s)), customers := restored_table (rows (customers d0)) (customers (db s)), sales := restored_table (rows (sales d0)) (sales (db s)), sale_items := restored_table (rows (sale_items d0)) (sale_items (db s)), transactions := restored_table (rows (transactions d0)) (transactions (db s)), maintenance := restored_table (rows (maintenance d0)) (maintenance (db s)), purchases := restored_table (rows (purchases d0)) (purchases (db s)), purchase_items := restored_table (rows (purchase_items d0)) (purchase_items (db s))\<rparr>\<rparr>) = (Inr (), (s\<lparr>db := (db s)\<lparr>users := restored_table (rows (users d0)) (users (db s)), settings := settings d0, products := restored_table (rows (products d0)) (products (db s)), warehouses := restored_table (rows (warehouses d0)) (warehouses (db s)), suppliers := restored_table (rows (suppliers d0)) (suppliers (db s)), supplier_transactions := restored_table (rows (supplier_transactions d0)) (supplier_transactions (db s)), customers := restored_table (rows (customers d0)) (customers (db s)), sales := restored_table (rows (sales d0)) (sales (db s)), sale_items := restored_table (rows (sale_items d0)) (sale_items (db s)), transactions := restored_table (rows (transactions d0)) (transactions (db s)), maintenance := restored_table (rows (maintenance d0)) (maintenance (db s)), purchases := restored_table (rows (purchases d0)) (purchases (db s)), purchase_items := restored_table (rows (purchase_items d0)) (purchase_items (db s)), general_ledger := restored_table (rows (general_ledger d0)) (general_ledger (db s))\<rparr>\<rparr>))"
  proof -
    have "restore_table general_ledger (\<lambda>t d. d\<lparr>general_ledger := t\<rparr>) general_ledger_ok no_reference not_held
               (Some (rows (general_ledger d0))) (s\<lparr>db := (db s)\<lparr>users := restored_table (rows (users d0)) (users (db s)), settings := settings d0, products := restored_table (rows (products d0)) (products (db s)), warehouses := restored_table (rows (warehouses d0)) (warehouses (db s)), suppliers := restored_table (rows (suppliers d0)) (suppliers (db s)), supplier_transactions := restored_table (rows (supplier_transactions d0)) (supplier_transactions (db s)), customers := restored_table (rows (customers d0)) (customers (db s)), sales := restored_table (rows (sales d0)) (sales (db s)), sale_items := restored_table (rows (sale_items d0)) (sale_items (db s)), transactions := restored_table (rows (transactions d0)) (transactions (db s)), maintenance := restored_table (rows (maintenance d0)) (maintenance (db s)), purchases := restored_table (rows (purchases d0)) (purchases (db s)), purchase_items := restored_table (rows (purchase_items d0)) (purchase_items (db s))\<rparr>\<rparr>) =
        (Inr (), (s\<lparr>db := (db s)\<lparr>users := restored_table (rows (users d0)) (users (db s)), settings := settings d0, products := restored_table (rows (products d0)) (products (db s)), warehouses := restored_table (rows (warehouses d0)) (warehouses (db s)), suppliers := restored_table (rows (suppliers d0)) (suppliers (db s)), supplier_transactions := restored_table (rows (supplier_transactions d0)) (supplier_transactions (db s)), customers := restored_table (rows (customers d0)) (customers (db s)), sales := restored_table (rows (sales d0)) (sales (db s)), sale_items := restored_table (rows (sale_items d0)) (sale_items (db s)), transactions := restored_table (rows (transactions d0)) (transactions (db s)), maintenance := restored_table (rows (maintenance d0)) (maintenance (db s)), purchases := restored_table (rows (purchases d0)) (purchases (db s)), purchase_items := restored_table (rows (purchase_items d0)) (purchase_items (db s))\<rparr>\<rparr>)\<lparr>db := (db (s\<lparr>db := (db s)\<lparr>users := restored_table (rows (users d0)) (users (db s)), settings := settings d0, products := restored_table (rows (products d0)) (products (db s)), warehouses := restored_table (rows (warehouses d0)) (warehouses (db s)), suppliers := restored_table (rows (suppliers d0)) (suppliers (db s)), supplier_transactions := restored_table (rows (supplier_transactions d0)) (supplier_transactions (db s)), customers := restored_table (rows (customers d0)) (customers (db s)), sales := restored_table (rows (sales d0)) (sales (db s)), sale_items := restored_table (rows (sale_items d0)) (sale_items (db s)), transactions := restored_table (rows (transactions d0)) (transactions (db s)), maintenance := restored_table (rows (maintenance d0)) (maintenance (db s)), purchases := restored_table (rows (purchases d0)) (purchases (db s)), purchase_items := restored_table (rows (purchase_items d0)) (purchase_items (db s))\<rparr>\<rparr>))\<lparr>general_ledger := restored_table (rows (general_ledger d0)) (general_ledger (db (s\<lparr>db := (db s)\<lparr>users := restored_table (rows (users d0)) (users (db s)), settings := settings d0, products := restored_table (rows (products d0)) (products (db s)), warehouses := restored_table (rows (warehouses d0)) (warehouses (db s)), suppliers := restored_table (rows (suppliers d0)) (suppliers (db s)), supplier_transactions := restored_table (rows (supplier_transactions d0)) (supplier_transactions (db s)), customers := restored_table (rows (customers d0)) (customers (db s)), sales := restored_table (rows (sales d0)) (sales (db s)), sale_items := restored_table (rows (sale_items d0)) (sale_items (db s)), transactions := restored_table (rows (transactions d0)) (transactions (db s)), maintenance := restored_table (rows (maintenance d0)) (maintenance (db s)), purchases := restored_table (rows (purchases d0)) (purchases (db s)), purchase_items := restored_table (rows (purchase_items d0)) (purchase_items (db s))\<rparr>\<rparr>)))\<rparr>\<rparr>)"
    proof (rule restore_general_ledger)
      show "io (s\<lparr>db := (db s)\<lparr>users := restored_table (rows (users d0)) (users (db s)), settings := settings d0, products := restored_table (rows (products d0)) (products (db s)), warehouses := restored_table (rows (warehouses d0)) (warehouses (db s)), suppliers := restored_table (rows (suppliers d0)) (suppliers (db s)), supplier_transactions := restored_table (rows (supplier_transactions d0)) (supplier_transactions (db s)), customers := restored_table (rows (customers d0)) (customers (db s)), sales := restored_table (rows (sales d0)) (sales (db s)), sale_items := restored_table (rows (sale_items d0)) (sale_items (db s)), transactions := restored_table (rows (transactions d0)) (transactions (db s)), maintenance := restored_table (rows (maintenance d0)) (maintenance (db s)), purchases := restored_table (rows (purchases d0)) (purchases (db s)), purchase_items := restored_table (rows (purchase_items d0)) (purchase_items (db s))\<rparr>\<rparr>) = None" using assms(1) by simp
      show "\<not> blocked general_ledger not_held (db (s\<lparr>db := (db s)\<lparr>users := restored_table (rows (users d0)) (users (db s)), settings := settings d0, products := restored_table (rows (products d0)) (products (db s)), warehouses := restored_table (rows (warehouses d0)) (warehouses (db s)), suppliers := restored_table (rows (suppliers d0)) (suppliers (db s)), supplier_transactions := restored_table (rows (supplier_transactions d0)) (supplier_transactions (db s)), customers := restored_table (rows (customers d0)) (customers (db s)), sales := restored_table (rows (sales d0)) (sales (db s)), sale_items := restored_table (rows (sale_items d0)) (sale_items (db s)), transactions := restored_table (rows (transactions d0)) (transactions (db s)), maintenance := restored_table (rows (maintenance d0)) (maintenance (db s)), purchases := restored_table (rows (purchases d0)) (purchases (db s)), purchase_items := restored_table (rows (purchase_items d0)) (purchase_items (db s))\<rparr>\<rparr>))"
        using assms(3) by (simp add: unreferenced_def blocked_def not_held_def)
      show "sorted_wrt (<) (map rowid (rows (general_ledger d0)))"
        using assms(2) by (simp add: db_wf_def table_wf_def)
      show "constraints_hold general_ledger_ok [] (rows (general_ledger d0))"
        using assms(2) by (simp add: db_wf_def table_wf_def)
      show "list_all (\<lambda>r. no_reference r (db (s\<lparr>db := (db s)\<lparr>users := restored_table (rows (users d0)) (users (db s)), settings := settings d0, products := restored_table (rows (products d0)) (products (db s)), warehouses := restored_table (rows (warehouses d0)) (warehouses (db s)), suppliers := restored_table (rows (suppliers d0)) (suppliers (db s)), supplier_transactions := restored_table (rows (supplier_transactions d0)) (supplier_transactions (db s)), customers := restored_table (rows (customers d0)) (customers (db s)), sales := restored_table (rows (sales d0)) (sales (db s)), sale_items := restored_table (rows (sale_items d0)) (sale_items (db s)), transactions := restored_table (rows (transactions d0)) (transactions (db s)), maintenance := restored_table (rows (maintenance d0)) (maintenance (db s)), purchases := restored_table (rows (purchases d0)) (purchases (db s)), purchase_items := restored_table (rows (purchase_items d0)) (purchase_items (db s))\<rparr>\<rparr>))) (rows (general_ledger d0))"
        using assms(2) by (simp add: db_wf_def no_reference_def list_all_iff)
    qed
    then show ?thesis by simp
  qed
  have step15: "restore_table stock_adjustments (\<lambda>t d. d\<lparr>stock_adjustments := t\<rparr>) stock_adjustments_ok stock_adjustments_fk not_held
               (Some (rows (stock_adjustments d0))) (s\<lparr>db := (db s)\<lparr>users := restored_table (rows (users d0)) (users (db s)), settings := settings d0, products := restored_table (rows (products d0)) (products (db s)), warehouses := restored_table (rows (warehouses d0)) (warehouses (db s)), suppliers := restored_table (rows (suppliers d0)) (suppliers (db s)), supplier_transactions := restored_table (rows (supplier_transactions d0)) (supplier_transactions (db s)), customers := restored_table (rows (customers d0)) (customers (db s)), sales := restored_table (rows (sales d0)) (sales (db s)), sale_items := restored_table (rows (sale_items d0)) (sale_items (db s)), transactions := restored_table (rows (transactions d0)) (transactions (db s)), maintenance := restored_table (rows (maintenance d0)) (maintenance (db s)), purchases := restored_table (rows (purchases d0)) (purchases (db s)), purchase_items := restored_table (rows (purchase_items d0)) (purchase_items (db s)), general_ledger := restored_table (rows (general_ledger d0)) (general_ledger (db s))\<rparr>\<rparr>) = (Inr (), (s\<lparr>db := (db s)\<lparr>users := restored_table (rows (users d0)) (users (db s)), settings := settings d0, products := restored_table (rows (products d0)) (products (db s)), warehouses := restored_table (rows (warehouses d0)) (warehouses (db s)), suppliers := restored_table (rows (suppliers d0)) (suppliers (db s)), supplier_transactions := restored_table (rows (supplier_transactions d0)) (supplier_transactions (db s)), customers := restored_table (rows (customers d0)) (customers (db s)), sales := restored_table (rows (sales d0)) (sales (db s)), sale_items := restored_table (rows (sale_items d0)) (sale_items (db s)), transactions := restored_table (rows (transactions d0)) (transactions (db s)), maintenance := restored_table (rows (maintenance d0)) (maintenance (db s)), purchases := restored_table (rows (purchases d0)) (purchases (db s)), purchase_items := restored_table (rows (purchase_items d0)) (purchase_items (db s)), general_ledger := restored_table (rows (general_ledger d0)) (general_ledger (db s)), stock_adjustments := restored_table (rows (stock_adjustments d0)) (stock_adjustments (db s))\<rparr>\<rparr>))"
  proof -
    have "restore_table stock_adjustments (\<lambda>t d. d\<lparr>stock_adjustments := t\<rparr>) stock_adjustments_ok stock_adjustments_fk not_held
               (Some (rows (stock_adjustments d0))) (s\<lparr>db := (db s)\<lparr>users := restored_table (rows (users d0)) (users (db s)), settings := settings d0, products := restored_table (rows (products d0)) (products (db s)), warehouses := restored_table (rows (warehouses d0)) (warehouses (db s)), suppliers := restored_table (rows (suppliers d0)) (suppliers (db s)), supplier_transactions := restored_table (rows (supplier_transactions d0)) (supplier_transactions (db s)), customers := restored_table (rows (customers d0)) (customers (db s)), sales := restored_table (rows (sales d0)) (sales (db s)), sale_items := restored_table (rows (sale_items d0)) (sale_items (db s)), transactions := restored_table (rows (transactions d0)) (transactions (db s)), maintenance := restored_table (rows (maintenance d0)) (maintenance (db s)), purchases := restored_table (rows (purchases d0)) (purchases (db s)), purchase_items := restored_table (rows (purchase_items d0)) (purchase_items (db s)), general_ledger := restored_table (rows (general_ledger d0)) (general_ledger (db s))\<rparr>\<rparr>) =
        (Inr (), (s\<lparr>db := (db s)\<lparr>users := restored_table (rows (users d0)) (users (db s)), settings := settings d0, products := restored_table (rows (products d0)) (products (db s)), warehouses := restored_table (rows (warehouses d0)) (warehouses (db s)), suppliers := restored_table (rows (suppliers d0)) (suppliers (db s)), supplier_transactions := restored_table (rows (supplier_transactions d0)) (supplier_transactions (db s)), customers := restored_table (rows (customers d0)) (customers (db s)), sales := restored_table (rows (sales d0)) (sales (db s)), sale_items := restored_table (rows (sale_items d0)) (sale_items (db s)), transactions := restored_table (rows (transactions d0)) (transactions (db s)), maintenance := restored_table (rows (maintenance d0)) (maintenance (db s)), purchases := restored_table (rows (purchases d0)) (purchases (db s)), purchase_items := restored_table (rows (purchase_items d0)) (purchase_items (db s)), general_ledger := restored_table (rows (general_ledger d0)) (general_ledger (db s))\<rparr>\<rparr>)\<lparr>db := (db (s\<lparr>db := (db s)\<lparr>users := restored_table (rows (users d0)) (users (db s)), settings := settings d0, products := restored_table (rows (products d0)) (products (db s)), warehouses := restored_table (rows (warehouses d0)) (warehouses (db s)), suppliers := restored_table (rows (suppliers d0)) (suppliers (db s)), supplier_transactions := restored_table (rows (supplier_transactions d0)) (supplier_transactions (db s)), customers := restored_table (rows (customers d0)) (customers (db s)), sales := restored_table (rows (sales d0)) (sales (db s)), sale_items := restored_table (rows (sale_items d0)) (sale_items (db s)), transactions := restored_table (rows (transactions d0)) (transactions (db s)), maintenance := restored_table (rows (maintenance d0)) (maintenance (db s)), purchases := restored_table (rows (purchases d0)) (purchases (db s)), purchase_items := restored_table (rows (purchase_items d0)) (purchase_items (db s)), general_ledger := restored_table (rows (general_ledger d0)) (general_ledger (db s))\<rparr>\<rparr>))\<lparr>stock_adjustments := restored_table (rows (stock_adjustments d0)) (stock_adjustments (db (s\<lparr>db := (db s)\<lparr>users := restored_table (rows (users d0)) (users (db s)), settings := settings d0, products := restored_table (rows (products d0)) (products (db s)), warehouses := restored_table (rows (warehouses d0)) (warehouses (db s)), suppliers := restored_table (rows (suppliers d0)) (suppliers (db s)), supplier_transactions := restored_table (rows (supplier_transactions d0)) (supplier_transactions (db s)), customers := restored_table (rows (customers d0)) (customers (db s)), sales := restored_table (rows (sales d0)) (sales (db s)), sale_items := restored_table (rows (sale_items d0)) (sale_items (db s)), transactions := restored_table (rows (transactions d0)) (transactions (db s)), maintenance := restored_table (rows (maintenance d0)) (maintenance (db s)), purchases := restored_table (rows (purchases d0)) (purchases (db s)), purchase_items := restored_table (rows (purchase_items d0)) (purchase_items (db s)), general_ledger := restored_table (rows (general_ledger d0)) (general_ledger (db s))\<rparr>\<rparr>)))\<rparr>\<rparr>)"
    proof (rule restore_stock_adjustments)
      show "io (s\<lparr>db := (db s)\<lparr>users := restored_table (rows (users d0)) (users (db s)), settings := settings d0, products := restored_table (rows (products d0)) (products (db s)), warehouses := restored_table (rows (warehouses d0)) (warehouses (db s)), suppliers := restored_table (rows (suppliers d0)) (suppliers (db s)), supplier_transactions := restored_table (rows (supplier_transactions d0)) (supplier_transactions (db s)), customers := restored_table (rows (customers d0)) (customers (db s)), sales := restored_table (rows (sales d0)) (sales (db s)), sale_items := restored_table (rows (sale_items d0)) (sale_items (db s)), transactions := restored_table (rows (transactions d0)) (transactions (db s)), maintenance := restored_table (rows (maintenance d0)) (maintenance (db s)), purchases := restored_table (rows (purchases d0)) (purchases (db s)), purchase_items := restored_table (rows (purchase_items d0)) (purchase_items (db s)), general_ledger := restored_table (rows (general_ledger d0)) (general_ledger (db s))\<rparr>\<rparr>) = None" using assms(1) by simp
      show "\<not> blocked stock_adjustments not_held (db (s\<lparr>db := (db s)\<lparr>users := restored_table (rows (users d0)) (users (db s)), settings := settings d0, products := restored_table (rows (products d0)) (products (db s)), warehouses := restored_table (rows (warehouses d0)) (warehouses (db s)), suppliers := restored_table (rows (suppliers d0)) (suppliers (db s)), supplier_transactions := restored_table (rows (supplier_transactions d0)) (supplier_transactions (db s)), customers := restored_table (rows (customers d0)) (customers (db s)), sales := restored_table (rows (sales d0)) (sales (db s)), sale_items := restored_table (rows (sale_items d0)) (sale_items (db s)), transactions := restored_table (rows (transactions d0)) (transactions (db s)), maintenance := restored_table (rows (maintenance d0)) (maintenance (db s)), purchases := restored_table (rows (purchases d0)) (purchases (db s)), purchase_items := restored_table (rows (purchase_items d0)) (purchase_items (db s)), general_ledger := restored_table (rows (general_ledger d0)) (general_ledger (db s))\<rparr>\<rparr>))"
        using assms(3) by (simp add: unreferenced_def blocked_def not_held_def)
      show "sorted_wrt (<) (map rowid (rows (stock_adjustments d0)))"
        using assms(2) by (simp add: db_wf_def table_wf_def)
      show "constraints_hold stock_adjustments_ok [] (rows (stock_adjustments d0))"
        using assms(2) by (simp add: db_wf_def table_wf_def)
      show "list_all (\<lambda>r. stock_adjustments_fk r (db (s\<lparr>db := (db s)\<lparr>users := restored_table (rows (users d0)) (users (db s)), settings := settings d0, products := restored_table (rows (products d0)) (products (db s)), warehouses := restored_table (rows (warehouses d0)) (warehouses (db s)), suppliers := restored_table (rows (suppliers d0)) (suppliers (db s)), supplier_transactions := restored_table (rows (supplier_transactions d0)) (supplier_transactions (db s)), customers := restored_table (rows (customers d0)) (customers (db s)), sales := restored_table (rows (sales d0)) (sales (db s)), sale_items := restored_table (rows (sale_items d0)) (sale_items (db s)), transactions := restored_table (rows (transactions d0)) (transactions (db s)), maintenance := restored_table (rows (maintenance d0)) (maintenance (db s)), purchases := restored_table (rows (purchases d0)) (purchases (db s)), purchase_items := restored_table (rows (purchase_items d0)) (purchase_items (db s)), general_ledger := restored_table (rows (general_ledger d0)) (general_ledger (db s))\<rparr>\<rparr>))) (rows (stock_adjustments d0))"
        using assms(2) by (simp add: db_wf_def stock_adjustments_fk_def list_all_iff)
    qed
    then show ?thesis by simp
  qed
  show ?thesis
    by (simp add: import_body_def backup_of_def andThen_def restore_of_def
        step1 step2 step3 step4 step5 step6 step7 step8 step9 step10 step11 step12 step13 step14 step15)
qed



subsection \<open>What a restore that went through has done\<close>

lemma sim_insert_each: "sim (insert_each get put ok fk rs)"
  by (induction rs) (auto intro!: sim_ret sim_andThen sim_run)

lemma sim_insert_each_setting: "sim (insert_each_setting kvs)"
  by (induction kvs) (auto intro!: sim_ret sim_andThen sim_run)

lemma sim_restore_table: "sim (restore_table get put ok fk held b)"
  unfolding restore_table_def
  by (cases b) (auto intro!: sim_ret sim_andThen sim_run sim_insert_each)

lemma sim_restore_settings: "sim (restore_settings b)"
  unfolding restore_settings_def
  by (cases b) (auto intro!: sim_ret sim_andThen sim_run sim_insert_each_setting)

lemma sim_import_body: "sim (import_body backup)"
  unfolding import_body_def
  by (intro sim_andThen sim_restore_table sim_restore_settings)

lemma distinct_map_insort_key:
  "f x \<notin> f ` set xs \<Longrightarrow> distinct (map f xs) \<Longrightarrow> distinct (map f (insort_key f x xs))"
  by (induction xs) (auto simp: set_insort_key)

lemma insert_each_Inr:
  assumes "insert_each get put ok fk rs s = (Inr u, s')" "table_lens get put"
  shows "\<exists>t'. db s' = put t' (db s)
      \<and> set (rows t') = set (rows (get (db s))) \<union> set rs
      \<and> length (rows t') = length (rows (get (db s))) + length rs
      \<and> (sorted (map rowid (rows (get (db s)))) \<and> distinct (map rowid (rows (get (db s))))
           \<longrightarrow> sorted (map rowid (rows t')) \<and> distinct (map rowid (rows t')))"
  using assms(1)
proof (induction rs arbitrary: s)
  case Nil
  then have "s' = s" by (simp add: ret_def)
  then show ?case
    using table_lensD(3)[OF assms(2), of "db s"] by (intro exI[of _ "get (db s)"]) simp
next
  case (Cons r rs)
  from andThen_Inr[OF Cons.prems[simplified]] obtain a s1 where
    st: "run (insert_into get put ok fk r) s = (Inr a, s1)"
    and rest: "insert_each get put ok fk rs s1 = (Inr u, s')"
    by auto
  from run_Inr[OF st] obtain d1 where
    d1: "insert_into get put ok fk r (db s) = Inr (a, d1)" and s1: "db s1 = d1"
    by auto
  let ?t = "get (db s)"
  let ?t1 = "\<lparr>rows = insort_key rowid r (rows ?t), seq = max (seq ?t) (rowid r)\<rparr>"
  from d1 have fresh: "rowid r \<notin> rowid ` set (rows ?t)" and d1': "d1 = put ?t1 (db s)"
    by (auto simp: insert_into_def insert_row_def split: if_splits)
  from Cons.IH[OF rest] obtain t' where
    t': "db s' = put t' (db s1)"
    "set (rows t') = set (rows (get (db s1))) \<union> set rs"
    "length (rows t') = length (rows (get (db s1))) + length rs"
    "sorted (map rowid (rows (get (db s1)))) \<and> distinct (map rowid (rows (get (db s1))))
       \<longrightarrow> sorted (map rowid (rows t')) \<and> distinct (map rowid (rows t'))"
    by blast
  have g: "get (db s1) = ?t1"
    by (simp add: s1 d1' table_lensD(1)[OF assms(2)])
  have "db s' = put t' (db s)"
    by (simp add: t'(1) s1 d1' table_lensD(2)[OF assms(2)])
  moreover have "set (rows t') = set (rows ?t) \<union> set (r # rs)"
    using t'(2) by (simp add: g set_insort_key)
  moreover have "length (rows t') = length (rows ?t) + length (r # rs)"
    using t'(3) by (simp add: g)
  moreover have "sorted (map rowid (rows t')) \<and> distinct (map rowid (rows t'))"
    if "sorted (map rowid (rows ?t)) \<and> distinct (map rowid (rows ?t))"
    using t'(4) that fresh by (simp add: g sorted_insort_key distinct_map_insort_key)
  ultimately show ?case by blast
qed

lemma commits_restore_table:
  assumes "table_lens get put"
  shows "commits (restore_table get put ok fk held b)
           (\<lambda>d d'. \<exists>t'. d' = put t' d \<and> restored b (get d) t' \<and>
              (b \<noteq> None \<longrightarrow> \<not> blocked get held d))"
  unfolding commits_def
proof (intro allI impI)
  fix s u s' assume run: "restore_table get put ok fk held b s = (Inr u, s')"
  show "\<exists>t'. db s' = put t' (db s) \<and> restored b (get (db s)) t' \<and>
          (b \<noteq> None \<longrightarrow> \<not> blocked get held (db s))"
  proof (cases b)
    case None
    with run have "s' = s" by (simp add: restore_table_def ret_def)
    then show ?thesis
      using None table_lensD(3)[OF assms, of "db s"]
      by (intro exI[of _ "get (db s)"]) (simp add: restored_def)
  next
    case (Some rs)
    let ?t0 = "(get (db s))\<lparr>rows := []\<rparr>"
    from run Some obtain a s1 where
      del: "run (delete_from get put held) s = (Inr a, s1)"
      and rest: "(if length rs > 0 then insert_each get put ok fk rs else ret ()) s1 = (Inr u, s')"
      unfolding restore_table_def by (auto dest: andThen_Inr)
    from run_Inr[OF del] have s1: "db s1 = put ?t0 (db s)" and free: "\<not> blocked get held (db s)"
      by (auto simp: delete_from_def split: if_splits)
    have g: "get (db s1) = ?t0" by (simp add: s1 table_lensD(1)[OF assms])
    show ?thesis
    proof (cases "rs = []")
      case True
      with rest have "s' = s1" by (simp add: ret_def)
      with True Some s1 free show ?thesis
        by (intro exI[of _ ?t0]) (simp add: restored_def)
    next
      case False
      with rest have "insert_each get put ok fk rs s1 = (Inr u, s')" by simp
      from insert_each_Inr[OF this assms] obtain t' where
        "db s' = put t' (db s1)" "set (rows t') = set rs" "length (rows t') = length rs"
        "sorted (map rowid (rows t')) \<and> distinct (map rowid (rows t'))"
        unfolding g by auto
      then show ?thesis
        using Some free
        by (intro exI[of _ t']) (simp add: s1 restored_def table_lensD(2)[OF assms])
    qed
  qed
qed

lemma insert_each_setting_Inr:
  "insert_each_setting kvs s = (Inr u, s') \<Longrightarrow> db s' = (db s)\<lparr>settings := settings (db s) @ kvs\<rparr>"
proof (induction kvs arbitrary: s)
  case Nil
  then show ?case by (simp add: ret_def)
next
  case (Cons kv kvs)
  from andThen_Inr[OF Cons.prems[simplified]] obtain a s1 where
    st: "run (insert_setting kv) s = (Inr a, s1)"
    and rest: "insert_each_setting kvs s1 = (Inr u, s')"
    by auto
  from run_Inr[OF st] have "db s1 = (db s)\<lparr>settings := settings (db s) @ [kv]\<rparr>"
    by (auto simp: insert_setting_def split: if_splits)
  with Cons.IH[OF rest] show ?case by simp
qed

lemma commits_restore_settings:
  "commits (restore_settings b)
     (\<lambda>d d'. \<exists>kvs'. d' = d\<lparr>settings := kvs'\<rparr> \<and> restored_settings b (settings d) kvs')"
  unfolding commits_def
proof (intro allI impI)
  fix s u s' assume run: "restore_settings b s = (Inr u, s')"
  show "\<exists>kvs'. db s' = (db s)\<lparr>settings := kvs'\<rparr> \<and> restored_settings b (settings (db s)) kvs'"
  proof (cases b)
    case None
    with run have "s' = s" by (simp add: restore_settings_def ret_def)
    with None show ?thesis by (intro exI[of _ "settings (db s)"]) (simp add: restored_settings_def)
  next
    case (Some kvs)
    from run Some obtain a s1 where
      del: "run delete_settings s = (Inr a, s1)"
      and rest: "(if length kvs > 0 then insert_each_setting kvs else ret ()) s1 = (Inr u, s')"
      unfolding restore_settings_def by (auto dest: andThen_Inr)
    from run_Inr[OF del] have s1: "db s1 = (db s)\<lparr>settings := []\<rparr>"
      by (auto simp: delete_settings_def)
    show ?thesis
    proof (cases "kvs = []")
      case True
      with rest have "s' = s1" by (simp add: ret_def)
      with True Some s1 show ?thesis by (intro exI[of _ "[]"]) (simp add: restored_settings_def)
    next
      case False
      with rest have "insert_each_setting kvs s1 = (Inr u, s')" by simp
      from insert_each_setting_Inr[OF this] s1 Some show ?thesis
        by (intro exI[of _ kvs]) (simp add: restored_settings_def)
    qed
  qed
qed

lemma commits_import_body:
  "commits (import_body backup)
     ((\<lambda>d d'. \<exists>t'. d' = d\<lparr>users := t'\<rparr> \<and> restored (b_users backup) (users d) t' \<and>
            (b_users backup \<noteq> None \<longrightarrow> \<not> blocked users held_users d)) OO
      (\<lambda>d d'. \<exists>kvs'. d' = d\<lparr>settings := kvs'\<rparr> \<and> restored_settings (b_settings backup) (settings d) kvs') OO
      (\<lambda>d d'. \<exists>t'. d' = d\<lparr>products := t'\<rparr> \<and> restored (b_products backup) (products d) t' \<and>
            (b_products backup \<noteq> None \<longrightarrow> \<not> blocked products held_products d)) OO
      (\<lambda>d d'. \<exists>t'. d' = d\<lparr>warehouses := t'\<rparr> \<and> restored (b_warehouses backup) (warehouses d) t' \<and>
            (b_warehouses backup \<noteq> None \<longrightarrow> \<not> blocked warehouses not_held d)) OO
      (\<lambda>d d'. \<exists>t'. d' = d\<lparr>suppliers := t'\<rparr> \<and> restored (b_suppliers backup) (suppliers d) t' \<and>
            (b_suppliers backup \<noteq> None \<longrightarrow> \<not> blocked suppliers held_suppliers d)) OO
      (\<lambda>d d'. \<exists>t'. d' = d\<lparr>supplier_transactions := t'\<rparr> \<and> restored (b_supplier_transactions backup) (supplier_transactions d) t' \<and>
            (b_supplier_transactions backup \<noteq> None \<longrightarrow> \<not> blocked supplier_transactions not_held d)) OO
      (\<lambda>d d'. \<exists>t'. d' = d\<lparr>customers := t'\<rparr> \<and> restored (b_customers backup) (customers d) t' \<and>
            (b_customers backup \<noteq> None \<longrightarrow> \<not> blocked customers held_customers d)) OO
      (\<lambda>d d'. \<exists>t'. d' = d\<lparr>sales := t'\<rparr> \<and> restored (b_sales backup) (sales d) t' \<and>
            (b_sales backup \<noteq> None \<longrightarrow> \<not> blocked sales held_sales d)) OO
      (\<lambda>d d'. \<exists>t'. d' = d\<lparr>sale_items := t'\<rparr> \<and> restored (b_sale_items backup) (sale_items d) t' \<and>
            (b_sale_items backup \<noteq> None \<longrightarrow> \<not> blocked sale_items not_held d)) OO
      (\<lambda>d d'. \<exists>t'. d' = d\<lparr>transactions := t'\<rparr> \<and> restored (b_transactions backup) (transactions d) t' \<and>
            (b_transactions backup \<noteq> None \<longrightarrow> \<not> blocked transactions not_held d)) OO
      (\<lambda>d d'. \<exists>t'. d' = d\<lparr>maintenance := t'\<rparr> \<and> restored (b_maintenance backup) (maintenance d) t' \<and>
            (b_maintenance backup \<noteq> None \<longrightarrow> \<not> blocked maintenance not_held d)) OO
      (\<lambda>d d'. \<exists>t'. d' = d\<lparr>purchases := t'\<rparr> \<and> restored (b_purchases backup) (purchases d) t' \<and>
            (b_purchases backup \<noteq> None \<longrightarrow> \<not> blocked purchases held_purchases d)) OO
      (\<lambda>d d'. \<exists>t'. d' = d\<lparr>purchase_items := t'\<rparr> \<and> restored (b_purchase_items backup) (purchase_items d) t' \<and>
            (b_purchase_items backup \<noteq> None \<longrightarrow> \<not> blocked purchase_items not_held d)) OO
      (\<lambda>d d'. \<exists>t'. d' = d\<lparr>general_ledger := t'\<rparr> \<and> restored (b_general_ledger backup) (general_ledger d) t' \<and>
            (b_general_ledger backup \<noteq> None \<longrightarrow> \<not> blocked general_ledger not_held d)) OO
      (\<lambda>d d'. \<exists>t'. d' = d\<lparr>stock_adjustments := t'\<rparr> \<and> restored (b_stock_adjustments backup) (stock_adjustments d) t' \<and>
            (b_stock_adjustments backup \<noteq> None \<longrightarrow> \<not> blocked stock_adjustments not_held d)))"
  unfolding import_body_def
  by (intro commits_andThen commits_restore_settings
      commits_restore_table[OF table_lenses(1)]
      commits_restore_table[OF table_lenses(2)]
      commits_restore_table[OF table_lenses(3)]
      commits_restore_table[OF table_lenses(4)]
      commits_restore_table[OF table_lenses(5)]
      commits_restore_table[OF table_lenses(6)]
      commits_restore_table[OF table_lenses(7)]
      commits_restore_table[OF table_lenses(8)]
      commits_restore_table[OF table_lenses(9)]
      commits_restore_table[OF table_lenses(10)]
      commits_restore_table[OF table_lenses(11)]
      commits_restore_table[OF table_lenses(12)]
      commits_restore_table[OF table_lenses(13)]
      commits_restore_table[OF table_lenses(14)])

lemma import_body_restores:
  assumes "import_body backup s = (Inr u, s')"
  shows "restored (b_users backup) (users (db s)) (users (db s'))
      \<and> restored_settings (b_settings backup) (settings (db s)) (settings (db s'))
      \<and> restored (b_products backup) (products (db s)) (products (db s'))
      \<and> restored (b_warehouses backup) (warehouses (db s)) (warehouses (db s'))
      \<and> restored (b_suppliers backup) (suppliers (db s)) (suppliers (db s'))
      \<and> restored (b_supplier_transactions backup) (supplier_transactions (db s)) (supplier_transactions (db s'))
      \<and> restored (b_customers backup) (customers (db s)) (customers (db s'))
      \<and> restored (b_sales backup) (sales (db s)) (sales (db s'))
      \<and> restored (b_sale_items backup) (sale_items (db s)) (sale_items (db s'))
      \<and> restored (b_transactions backup) (transactions (db s)) (transactions (db s'))
      \<and> restored (b_maintenance backup) (maintenance (db s)) (maintenance (db s'))
      \<and> restored (b_purchases backup) (purchases (db s)) (purchases (db s'))
      \<and> restored (b_purchase_items backup) (purchase_items (db s)) (purchase_items (db s'))
      \<and> restored (b_general_ledger backup) (general_ledger (db s)) (general_ledger (db s'))
      \<and> restored (b_stock_adjustments backup) (stock_adjustments (db s)) (stock_adjustments (db s'))"
  using commitsD[OF commits_import_body assms]
  by (clarsimp simp: relcompp_apply)

lemma import_body_unblocked:
  assumes "import_body backup s = (Inr u, s')"
  shows "(b_users backup \<noteq> None \<longrightarrow> \<not> blocked users held_users (db s))
      \<and> (b_products backup \<noteq> None \<longrightarrow> \<not> blocked products held_products (db s))
      \<and> (b_suppliers backup \<noteq> None \<longrightarrow> \<not> blocked suppliers held_suppliers (db s))
      \<and> (b_customers backup \<noteq> None \<longrightarrow> \<not> blocked customers held_customers (db s))
      \<and> (b_sales backup \<noteq> None \<longrightarrow> \<not> blocked sales held_sales (db s))
      \<and> (b_purchases backup \<noteq> None \<longrightarrow> \<not> blocked purchases held_purchases (db s))"
  using commitsD[OF commits_import_body assms]
  by (clarsimp simp: relcompp_apply blocked_def not_held_def held_users_def held_products_def
      held_suppliers_def held_customers_def held_sales_def held_purchases_def)

lemma fold_max_le:
  "list_all (\<lambda>r. rowid r \<le> q) rs \<Longrightarrow> fold (\<lambda>r q. max q (rowid r)) rs q = q"
  by (induction rs) simp_all

lemma restored_table_own: "table_wf ok t \<Longrightarrow> restored_table (rows t) t = t"
  by (simp add: restored_table_def table_wf_def fold_max_le)

lemma restore_of_own: "db_wf d \<Longrightarrow> restore_of d d = d"
  by (simp add: restore_of_def db_wf_def
      restored_table_own[of users_ok "users d"] restored_table_own[of products_ok "products d"] restored_table_own[of no_constraint "warehouses d"] restored_table_own[of no_constraint "suppliers d"] restored_table_own[of supplier_transactions_ok "supplier_transactions d"] restored_table_own[of no_constraint "customers d"] restored_table_own[of sales_ok "sales d"] restored_table_own[of no_constraint "sale_items d"] restored_table_own[of transactions_ok "transactions d"] restored_table_own[of no_constraint "maintenance d"] restored_table_own[of purchases_ok "purchases d"] restored_table_own[of no_constraint "purchase_items d"] restored_table_own[of general_ledger_ok "general_ledger d"] restored_table_own[of stock_adjustments_ok "stock_adjustments d"])

subsection \<open>The export\<close>

lemma sim_export_body: "sim export_body"
  unfolding export_body_def by (intro sim_intros)

lemma keeps_export_body: "keeps (\<lambda>d. d) export_body"
  unfolding export_body_def by (intro keeps_intros) (simp_all add: select_all_def)

lemma export_body_no_fault: "io s = None \<Longrightarrow> export_body s = (Inr (backup_of (db s)), s)"
  by (simp add: export_body_def andThen_def run_no_fault select_all_def ret_def backup_of_def)



subsection \<open>An export, imported again\<close>

lemma post_backup_import_cases:
  assumes "post_backup_import backup s = (r, s')"
  obtains (rollback) e where "r = \<lparr>status = 500, body = Error e\<rparr>" "db s' = db s"
  | (commit) u where "r = \<lparr>status = 200, body = Success\<rparr>" "import_body backup s = (Inr u, s')"
proof -
  obtain x s0 where t: "transaction (import_body backup) s = (x, s0)"
    by fastforce
  from t show thesis
  proof (cases rule: transaction_cases)
    case (rollback e s1)
    with assms t that(1) show ?thesis by (auto simp: post_backup_import_def)
  next
    case (commit a)
    with assms t that(2) show ?thesis by (auto simp: post_backup_import_def)
  qed
qed

lemma import_own_export:
  assumes "db_wf (db s)" "post_backup_import (backup_of (db s)) s = (r, s')"
  shows "db s' = db s"
    and "io s = None \<Longrightarrow> (status r = 200 \<longleftrightarrow> unreferenced (db s))"
    and "status r = 200 \<or> status r = 500"
proof -
  have free: "unreferenced (db s)" if "import_body (backup_of (db s)) s = (Inr a, s1)" for a s1
    using import_body_unblocked[OF that] by (simp add: backup_of_def unreferenced_def)
  from assms(2) show "db s' = db s"
  proof (cases rule: post_backup_import_cases)
    case (rollback e)
    then show ?thesis by simp
  next
    case (commit a)
    from simD[OF sim_import_body commit(2)]
    have "import_body (backup_of (db s)) (s\<lparr>io := None\<rparr>) = (Inr a, s'\<lparr>io := None\<rparr>)" .
    moreover have "import_body (backup_of (db s)) (s\<lparr>io := None\<rparr>) =
        (Inr (), s\<lparr>io := None, db := restore_of (db s) (db s)\<rparr>)"
      using import_export_no_fault[of "s\<lparr>io := None\<rparr>" "db s"] assms(1) free[OF commit(2)]
      by simp
    ultimately have "s'\<lparr>io := None\<rparr> = s\<lparr>io := None, db := restore_of (db s) (db s)\<rparr>"
      by simp
    then have "db (s'\<lparr>io := None\<rparr>) = db (s\<lparr>io := None, db := restore_of (db s) (db s)\<rparr>)"
      by (rule arg_cong)
    then show "db s' = db s" by (simp add: restore_of_own[OF assms(1)])
  qed
  from assms(2) show "status r = 200 \<or> status r = 500"
    by (cases rule: post_backup_import_cases) simp_all
  show "status r = 200 \<longleftrightarrow> unreferenced (db s)" if "io s = None"
  proof
    assume "status r = 200"
    with assms(2) obtain a where "import_body (backup_of (db s)) s = (Inr a, s')"
      by (cases rule: post_backup_import_cases) simp_all
    then show "unreferenced (db s)" by (rule free)
  next
    assume "unreferenced (db s)"
    with that assms show "status r = 200"
      by (auto simp: post_backup_import_def transaction_def import_export_no_fault)
  qed
qed

lemma get_backup_export_cases:
  assumes "get_backup_export s = (r, s1)"
  shows "db s1 = db s"
    and "status r = 200 \<Longrightarrow> body r = Backup (backup_of (db s))"
    and "io s = None \<Longrightarrow> r = \<lparr>status = 200, body = Backup (backup_of (db s))\<rparr> \<and> s1 = s"
    and "status r = 200 \<or> status r = 500"
proof -
  obtain x s0 where e: "export_body s = (x, s0)" by fastforce
  from keepsD[OF keeps_export_body e] assms e show "db s1 = db s"
    by (auto simp: get_backup_export_def split: sum.splits)
  from assms e show "status r = 200 \<or> status r = 500"
    by (auto simp: get_backup_export_def split: sum.splits)
  show "r = \<lparr>status = 200, body = Backup (backup_of (db s))\<rparr> \<and> s1 = s" if "io s = None"
    using assms that by (auto simp: get_backup_export_def export_body_no_fault)
  show "body r = Backup (backup_of (db s))" if "status r = 200"
  proof -
    from assms e that obtain b where x: "x = Inr b" and r: "body r = Backup b"
      by (auto simp: get_backup_export_def split: sum.splits)
    from simD[OF sim_export_body e[unfolded x]] have "b = backup_of (db s)"
      by (simp add: export_body_no_fault)
    with r show ?thesis by simp
  qed
qed

subsection \<open>Evaluating the shop\<close>

lemma string_of_int_1 [simp]: "string_of_int 1 = ''1''"
  by (simp add: string_of_int_def string_of_nat.simps)

lemma shop_tables [simp]:
  "io shop = None" "now shop = ''2024-01-01 10:00:00''" "db shop = shop_db"
  "users shop_db = users initial_db" "settings shop_db = settings initial_db"
  "products shop_db = \<lparr>rows = [handset], seq = 1\<rparr>"
  "suppliers shop_db = \<lparr>rows = [acme], seq = 1\<rparr>"
  "customers shop_db = \<lparr>rows = [ali], seq = 1\<rparr>"
  "warehouses shop_db = empty_table" "supplier_transactions shop_db = empty_table"
  "sales shop_db = empty_table" "sale_items shop_db = empty_table"
  "transactions shop_db = empty_table" "maintenance shop_db = empty_table"
  "purchases shop_db = empty_table" "purchase_items shop_db = empty_table"
  "general_ledger shop_db = empty_table" "stock_adjustments shop_db = empty_table"
  by (simp_all add: shop_def shop_db_def initial_db_def)

lemma next_rowid_simps [simp]:
  "next_rowid empty_table = 1" "rows empty_table = []" "seq empty_table = 0"
  by (simp_all add: next_rowid_def empty_table_def max_rowid_def)

lemma shop_refers [simp]:
  "refers k (users initial_db) = (k = 1)" "refers k empty_table = False"
  by (auto simp: refers_def initial_db_def empty_table_def)

lemma shop_paid_sale:
  "post_sales (Some 1) (Some 1) 20 0 (Some ''paid'') ''Cash'' [two_phones] shop =
     (\<lparr>status = 200, body = Id 1\<rparr>,
      shop\<lparr>db := shop_db\<lparr>
        sales := \<lparr>rows = [\<lparr>rowid = 1, sa_customer_id = Some 1, sa_user_id = Some 1,
                           sa_total_amount = 20, sa_discount = 0, sa_payment_status = Some ''paid'',
                           sa_payment_method = ''Cash'', sa_created_at = ''2024-01-01 10:00:00''\<rparr>],
                  seq = 1\<rparr>,
        transactions := \<lparr>rows = [\<lparr>rowid = 1, tx_customer_id = 1, tx_type = ''sale'', tx_amount = 20,
                                  tx_description = ''Sale #1'', tx_created_at = ''2024-01-01 10:00:00''\<rparr>,
                                 \<lparr>rowid = 2, tx_customer_id = 1, tx_type = ''payment'', tx_amount = 20,
                                  tx_description = ''Payment for Sale #1'',
                                  tx_created_at = ''2024-01-01 10:00:00''\<rparr>],
                         seq = 2\<rparr>,
        customers := \<lparr>rows = [ali\<lparr>c_balance := 0\<rparr>], seq = 1\<rparr>,
        sale_items := \<lparr>rows = [\<lparr>rowid = 1, sai_sale_id = 1, sai_product_id = 1, sai_quantity = 2,
                                sai_unit_price = 10, sai_subtotal = 20\<rparr>], seq = 1\<rparr>,
        products := \<lparr>rows = [handset\<lparr>p_stock_quantity := 8\<rparr>], seq = 1\<rparr>\<rparr>\<rparr>)"
  by (simp add: post_sales_def transaction_def sale_body_no_fault truthy_def append_auto_def
      update_where_def two_phones_def handset_def ali_def sale_values_def sale_item_values_def
      transaction_values_def customer_balance_def sum_case_def or_zero_def next_rowid_def
      max_rowid_def)


lemma shop_purchase:
  "post_purchases 1 (Some 1) 15 (Some ''unpaid'') [five_phones] shop =
     (\<lparr>status = 200, body = Id 1\<rparr>,
      shop\<lparr>db := shop_db\<lparr>
        purchases := \<lparr>rows = [\<lparr>rowid = 1, pu_supplier_id = 1, pu_user_id = Some 1,
                           pu_total_amount = 15, pu_payment_status = Some ''unpaid'',
                           pu_created_at = ''2024-01-01 10:00:00''\<rparr>],
                  seq = 1\<rparr>,
        supplier_transactions := \<lparr>rows = [\<lparr>rowid = 1, stx_supplier_id = 1, stx_type = ''purchase'', stx_amount = 15,
                                  stx_description = ''Purchase #1'', stx_created_at = ''2024-01-01 10:00:00''\<rparr>],
                         seq = 1\<rparr>,
        suppliers := \<lparr>rows = [acme\<lparr>s_balance := 15\<rparr>], seq = 1\<rparr>,
        purchase_items := \<lparr>rows = [\<lparr>rowid = 1, pui_purchase_id = 1, pui_product_id = 1, pui_quantity = 5,
                                pui_unit_cost = 3, pui_subtotal = 15\<rparr>], seq = 1\<rparr>,
        products := \<lparr>rows = [handset\<lparr>p_stock_quantity := 15, p_cost := 3\<rparr>], seq = 1\<rparr>\<rparr>\<rparr>)"
  by (simp add: post_purchases_def transaction_def purchase_body_no_fault append_auto_def
      update_where_def five_phones_def handset_def acme_def purchase_values_def purchase_item_values_def
      supplier_transaction_values_def supplier_balance_def sum_case_def or_zero_def next_rowid_def
      max_rowid_def)

lemma shop_paid_purchase:
  "post_purchases 1 (Some 1) 15 (Some ''paid'') [five_phones] shop =
     (\<lparr>status = 200, body = Id 1\<rparr>,
      shop\<lparr>db := shop_db\<lparr>
        purchases := \<lparr>rows = [\<lparr>rowid = 1, pu_supplier_id = 1, pu_user_id = Some 1,
                           pu_total_amount = 15, pu_payment_status = Some ''paid'',
                           pu_created_at = ''2024-01-01 10:00:00''\<rparr>],
                  seq = 1\<rparr>,
        supplier_transactions := \<lparr>rows = [\<lparr>rowid = 1, stx_supplier_id = 1, stx_type = ''purchase'', stx_amount = 15,
                                  stx_description = ''Purchase #1'', stx_created_at = ''2024-01-01 10:00:00''\<rparr>,
                                 \<lparr>rowid = 2, stx_supplier_id = 1, stx_type = ''payment'', stx_amount = 15,
                                  stx_description = ''Payment for Purchase #1'', stx_created_at = ''2024-01-01 10:00:00''\<rparr>],
                         seq = 2\<rparr>,
        suppliers := \<lparr>rows = [acme\<lparr>s_balance := 0\<rparr>], seq = 1\<rparr>,
        purchase_items := \<lparr>rows = [\<lparr>rowid = 1, pui_purchase_id = 1, pui_product_id = 1, pui_quantity = 5,
                                pui_unit_cost = 3, pui_subtotal = 15\<rparr>], seq = 1\<rparr>,
        products := \<lparr>rows = [handset\<lparr>p_stock_quantity := 15, p_cost := 3\<rparr>], seq = 1\<rparr>\<rparr>\<rparr>)"
  by (simp add: post_purchases_def transaction_def purchase_body_no_fault append_auto_def
      update_where_def five_phones_def handset_def acme_def purchase_values_def purchase_item_values_def
      supplier_transaction_values_def supplier_balance_def sum_case_def or_zero_def next_rowid_def
      max_rowid_def)

lemma shop_sale_without_customer:
  "post_sales None (Some 1) 20 0 (Some ''paid'') ''Cash'' [two_phones] shop =
     (\<lparr>status = 200, body = Id 1\<rparr>,
      shop\<lparr>db := shop_db\<lparr>
        sales := \<lparr>rows = [\<lparr>rowid = 1, sa_customer_id = None, sa_user_id = Some 1,
                           sa_total_amount = 20, sa_discount = 0, sa_payment_status = Some ''paid'',
                           sa_payment_method = ''Cash'', sa_created_at = ''2024-01-01 10:00:00''\<rparr>],
                  seq = 1\<rparr>,
        sale_items := \<lparr>rows = [\<lparr>rowid = 1, sai_sale_id = 1, sai_product_id = 1, sai_quantity = 2,
                                sai_unit_price = 10, sai_subtotal = 20\<rparr>], seq = 1\<rparr>,
        products := \<lparr>rows = [handset\<lparr>p_stock_quantity := 8\<rparr>], seq = 1\<rparr>\<rparr>\<rparr>)"
  by (simp add: post_sales_def transaction_def sale_body_no_fault truthy_def append_auto_def
      update_where_def two_phones_def handset_def sale_values_def sale_item_values_def
      next_rowid_def max_rowid_def)

lemma shop_walk_in_sale:
  "post_sales (Some 0) (Some 1) 20 0 (Some ''paid'') ''Cash'' [two_phones] shop =
     (\<lparr>status = 400, body = Error SQLITE_CONSTRAINT_FOREIGNKEY\<rparr>, shop)"
  by (simp add: post_sales_def transaction_def sale_body_def andThen_def run_now_no_fault
      insert_sale_def insert_new_eq sales_ok_def sales_fk_def sale_values_def ali_def)

lemma shop_misposted_sale:
  "post_sales (Some 1) (Some 1) 999 0 (Some ''paid'') ''Cash'' [misposted] shop =
     (\<lparr>status = 200, body = Id 1\<rparr>,
      shop\<lparr>db := shop_db\<lparr>
        sales := \<lparr>rows = [\<lparr>rowid = 1, sa_customer_id = Some 1, sa_user_id = Some 1,
                           sa_total_amount = 999, sa_discount = 0, sa_payment_status = Some ''paid'',
                           sa_payment_method = ''Cash'', sa_created_at = ''2024-01-01 10:00:00''\<rparr>],
                  seq = 1\<rparr>,
        transactions := \<lparr>rows = [\<lparr>rowid = 1, tx_customer_id = 1, tx_type = ''sale'', tx_amount = 999,
                                  tx_description = ''Sale #1'', tx_created_at = ''2024-01-01 10:00:00''\<rparr>,
                                 \<lparr>rowid = 2, tx_customer_id = 1, tx_type = ''payment'', tx_amount = 999,
                                  tx_description = ''Payment for Sale #1'',
                                  tx_created_at = ''2024-01-01 10:00:00''\<rparr>],
                         seq = 2\<rparr>,
        customers := \<lparr>rows = [ali\<lparr>c_balance := 0\<rparr>], seq = 1\<rparr>,
        sale_items := \<lparr>rows = [\<lparr>rowid = 1, sai_sale_id = 1, sai_product_id = 1, sai_quantity = 2,
                                sai_unit_price = 10, sai_subtotal = 999\<rparr>], seq = 1\<rparr>,
        products := \<lparr>rows = [handset\<lparr>p_stock_quantity := 8\<rparr>], seq = 1\<rparr>\<rparr>\<rparr>)"
  by (simp add: post_sales_def transaction_def sale_body_no_fault truthy_def append_auto_def
      update_where_def misposted_def handset_def ali_def sale_values_def sale_item_values_def
      transaction_values_def customer_balance_def sum_case_def or_zero_def next_rowid_def
      max_rowid_def)

lemma shop_negative_adjustment:
  "post_stock_adjustments 1 (Some ''damaged'') (- 3) ''recount'' shop =
     (\<lparr>status = 200, body = Success\<rparr>,
      shop\<lparr>db := shop_db\<lparr>
        stock_adjustments := \<lparr>rows = [\<lparr>rowid = 1, adj_product_id = 1, adj_type = Some ''damaged'',
                                       adj_quantity = - 3, adj_reason = ''recount'',
                                       adj_created_at = ''2024-01-01 10:00:00''\<rparr>], seq = 1\<rparr>,
        products := \<lparr>rows = [handset\<lparr>p_stock_quantity := 13\<rparr>], seq = 1\<rparr>\<rparr>\<rparr>)"
  by (simp add: post_stock_adjustments_def transaction_def stock_adjustment_body_no_fault
      append_auto_def update_where_def handset_def stock_adjustment_values_def next_rowid_def
      max_rowid_def)

lemma shop_registers_ali:
  "post_customers ''Ali'' ''777'' '''' '''' 100 '''' (shop\<lparr>db := shop_db\<lparr>customers := empty_table\<rparr>\<rparr>)
     = (\<lparr>status = 200, body = Id 1\<rparr>, shop)"
  by (simp add: post_customers_def run_no_fault insert_customer_def insert_new_eq
      no_constraint_def no_reference_def append_auto_def ali_def shop_def shop_db_def)

lemma sold_eq:
  "sold = shop\<lparr>db := shop_db\<lparr>
        sales := \<lparr>rows = [\<lparr>rowid = 1, sa_customer_id = Some 1, sa_user_id = Some 1,
                           sa_total_amount = 20, sa_discount = 0, sa_payment_status = Some ''paid'',
                           sa_payment_method = ''Cash'', sa_created_at = ''2024-01-01 10:00:00''\<rparr>],
                  seq = 1\<rparr>,
        transactions := \<lparr>rows = [\<lparr>rowid = 1, tx_customer_id = 1, tx_type = ''sale'', tx_amount = 20,
                                  tx_description = ''Sale #1'', tx_created_at = ''2024-01-01 10:00:00''\<rparr>,
                                 \<lparr>rowid = 2, tx_customer_id = 1, tx_type = ''payment'', tx_amount = 20,
                                  tx_description = ''Payment for Sale #1'',
                                  tx_created_at = ''2024-01-01 10:00:00''\<rparr>],
                         seq = 2\<rparr>,
        customers := \<lparr>rows = [ali\<lparr>c_balance := 0\<rparr>], seq = 1\<rparr>,
        sale_items := \<lparr>rows = [\<lparr>rowid = 1, sai_sale_id = 1, sai_product_id = 1, sai_quantity = 2,
                                sai_unit_price = 10, sai_subtotal = 20\<rparr>], seq = 1\<rparr>,
        products := \<lparr>rows = [handset\<lparr>p_stock_quantity := 8\<rparr>], seq = 1\<rparr>\<rparr>\<rparr>"
  by (simp add: sold_def shop_paid_sale)

lemma shop_wf: "db_wf (db shop)"
  by (simp add: db_wf_def table_wf_def initial_db_def empty_table_def users_ok_def
      products_ok_def no_constraint_def handset_def ali_def acme_def)

lemma stocked_wf: "db_wf stocked_db"
  by (simp add: stocked_db_def db_wf_def table_wf_def initial_db_def empty_table_def users_ok_def
      products_ok_def no_constraint_def handset_def ali_def acme_def shop_db_def)

lemma sold_wf: "db_wf (db sold)"
  unfolding sold_eq
  by (simp add: db_wf_def table_wf_def initial_db_def empty_table_def users_ok_def
      products_ok_def no_constraint_def sales_ok_def transactions_ok_def sales_fk_def
      sale_items_fk_def transactions_fk_def handset_def ali_def acme_def)

lemma shop_unreferenced: "unreferenced (db shop)"
  by (simp add: unreferenced_def blocked_def held_users_def held_products_def held_suppliers_def
      held_customers_def held_sales_def held_purchases_def)

lemma sold_referenced: "\<not> unreferenced (db sold)"
  unfolding sold_eq
  by (simp add: unreferenced_def blocked_def held_users_def held_products_def held_suppliers_def
      held_customers_def held_sales_def held_purchases_def initial_db_def)

lemma io_sold [simp]: "io sold = None"
  unfolding sold_eq by simp

lemma shop_broken_restore:
  "post_backup_import broken_snapshot shop = (\<lparr>status = 500, body = Error SQLITE_CONSTRAINT\<rparr>, shop)"
  by (simp add: post_backup_import_def transaction_def import_body_def broken_snapshot_def
      backup_of_def restore_table_def restore_settings_def andThen_def ret_def run_no_fault
      delete_from_def blocked_def held_users_def held_products_def delete_settings_def
      insert_into_def insert_row_def insert_setting_def
      initial_db_def empty_table_def users_ok_def products_ok_def no_constraint_def
      no_reference_def handset_def ali_def acme_def shop_def shop_db_def)

section \<open>The balance and the movement log\<close>

text \<open>
  C1 does not hold of the code. \<^verbatim>\<open>POST /api/customers\<close> writes the opening balance into
  the balance column and inserts no transaction. The shop's customer, registered with an
  opening balance of 100, has a balance of 100 while the sum of its \<^verbatim>\<open>sale\<close> transactions
  less the sum of its \<^verbatim>\<open>payment\<close> transactions is 0, and this is still so after a later
  request, here a stock adjustment, has been answered.
\<close>

theorem new_customer_balance_is_opening_balance:
  "handle (POST_customers ''Ali'' ''777'' '''' '''' 100 '''')
     (shop\<lparr>db := shop_db\<lparr>customers := empty_table\<rparr>\<rparr>) = (\<lparr>status = 200, body = Id 1\<rparr>, shop) \<and>
   map rowid (rows (customers (db shop))) = [1] \<and>
   map c_balance (rows (customers (db shop))) = [100] \<and>
   customer_ledger 1 (rows (transactions (db shop))) = 0 \<and>
   fst (handle (POST_stock_adjustments 1 (Some ''damaged'') (- 3) ''recount'') shop)
     = \<lparr>status = 200, body = Success\<rparr> \<and>
   map c_balance (rows (customers (db (serve
     [POST_stock_adjustments 1 (Some ''damaged'') (- 3) ''recount''] shop)))) = [100] \<and>
   customer_ledger 1 (rows (transactions (db (serve
     [POST_stock_adjustments 1 (Some ''damaged'') (- 3) ''recount''] shop)))) = 0"
  by (simp add: shop_registers_ali shop_negative_adjustment ali_def customer_ledger_def)

section \<open>Recording a sale\<close>



section \<open>Recording a purchase\<close>

text \<open>
  C7. The request names its supplier, its user, if any, and the product of every item; the
  store refuses a purchase that names a row it does not have. When these rows exist, the
  payment status passes the \<^verbatim>\<open>CHECK\<close> of the \<^verbatim>\<open>purchases\<close> table and the store does not
  fail, \<^verbatim>\<open>POST /api/purchases\<close> answers 200 with the identifier of the new purchase and
  leaves behind: one more \<^verbatim>\<open>purchases\<close> row; one \<^verbatim>\<open>purchase\<close> supplier transaction for the
  total, and one \<^verbatim>\<open>payment\<close> supplier transaction for the same total exactly when the status
  is \<^verbatim>\<open>paid\<close>; the supplier's balance set to the sum of its \<^verbatim>\<open>purchase\<close> supplier
  transactions less the sum of its \<^verbatim>\<open>payment\<close> supplier transactions, the new ones
  included; one more \<^verbatim>\<open>purchase_items\<close> row per item; and every product's stock raised by
  the quantities of the items that name it, its cost replaced by the unit cost of the last
  such item whatever it was before.
\<close>

theorem record_purchase_writes:
  fixes supplier_id user_id total_amount payment_status items s
  defines "purchaseId \<equiv> next_rowid (purchases (db s))"
  defines "txId \<equiv> next_rowid (supplier_transactions (db s))"
  assumes "io s = None"
    and "enum_ok [''paid'', ''partial'', ''unpaid''] payment_status"
    and "refers supplier_id (suppliers (db s))"
    and "refers_opt user_id (users (db s))"
    and "list_all (\<lambda>item. refers (i_product_id item) (products (db s))) items"
  shows "\<exists>s'. post_purchases supplier_id user_id total_amount payment_status items s
             = (\<lparr>status = 200, body = Id purchaseId\<rparr>, s')
     \<and> purchaseId \<notin> rowid ` set (rows (purchases (db s)))
     \<and> rows (purchases (db s')) = rows (purchases (db s)) @
           [\<lparr>rowid = purchaseId, pu_supplier_id = supplier_id, pu_user_id = user_id,
             pu_total_amount = total_amount, pu_payment_status = payment_status,
             pu_created_at = now s\<rparr>]
     \<and> rows (supplier_transactions (db s')) = rows (supplier_transactions (db s)) @
           \<lparr>rowid = txId, stx_supplier_id = supplier_id, stx_type = ''purchase'',
            stx_amount = total_amount,
            stx_description = ''Purchase #'' @ string_of_int purchaseId,
            stx_created_at = now s\<rparr> #
           (if payment_status = Some ''paid'' then
              [\<lparr>rowid = txId + 1, stx_supplier_id = supplier_id, stx_type = ''payment'',
                stx_amount = total_amount,
                stx_description = ''Payment for Purchase #'' @ string_of_int purchaseId,
                stx_created_at = now s\<rparr>]
            else [])
     \<and> rows (suppliers (db s')) =
           map (\<lambda>c. if rowid c = supplier_id
                    then c\<lparr>s_balance :=
                      sum_list (map stx_amount (filter
                        (\<lambda>t. stx_supplier_id t = supplier_id \<and> stx_type t = ''purchase'')
                        (rows (supplier_transactions (db s'))))) -
                      sum_list (map stx_amount (filter
                        (\<lambda>t. stx_supplier_id t = supplier_id \<and> stx_type t = ''payment'')
                        (rows (supplier_transactions (db s')))))\<rparr>
                    else c) (rows (suppliers (db s)))
     \<and> rows (purchase_items (db s')) = rows (purchase_items (db s)) @
           map (\<lambda>(i, item).
                  \<lparr>rowid = next_rowid (purchase_items (db s)) + int i, pui_purchase_id = purchaseId,
                   pui_product_id = i_product_id item, pui_quantity = i_quantity item,
                   pui_unit_cost = i_unit_cost item, pui_subtotal = i_subtotal item\<rparr>)
             (enumerate 0 items)
     \<and> rows (products (db s')) =
           map (\<lambda>p. p\<lparr>p_stock_quantity := p_stock_quantity p +
                      sum_list (map i_quantity (filter (\<lambda>item. i_product_id item = rowid p) items)),
                    p_cost := (case filter (\<lambda>item. i_product_id item = rowid p) items of
                                 [] \<Rightarrow> p_cost p
                               | its \<Rightarrow> i_unit_cost (last its))\<rparr>)
             (rows (products (db s)))"
  unfolding purchaseId_def txId_def post_purchases_def transaction_def
  using assms(3-7)
  by (simp add: purchase_body_no_fault rows_fold_append_auto rows_fold_stock_cost next_rowid_fresh
      supplier_balance_ledger supplier_ledger_def purchase_values_def purchase_item_values_def
      supplier_transaction_values_def)

text \<open>
  The shop buys five phones at 3 each, not yet paid: it owes 15, and the cost of the phone,
  which was 5, is 3. And it buys them paid: it owes 15 - 15.
\<close>

theorem record_purchase_writes_witness:
  "io shop = None \<and> enum_ok [''paid'', ''partial'', ''unpaid''] (Some ''unpaid'') \<and>
   refers 1 (suppliers (db shop)) \<and> refers_opt (Some 1) (users (db shop)) \<and>
   list_all (\<lambda>item. refers (i_product_id item) (products (db shop))) [five_phones] \<and>
   (\<exists>s'. post_purchases 1 (Some 1) 15 (Some ''unpaid'') [five_phones] shop
             = (\<lparr>status = 200, body = Id 1\<rparr>, s')
      \<and> map pu_total_amount (rows (purchases (db s'))) = [15]
      \<and> map stx_type (rows (supplier_transactions (db s'))) = [''purchase'']
      \<and> map s_balance (rows (suppliers (db s'))) = [15]
      \<and> map pui_quantity (rows (purchase_items (db s'))) = [5]
      \<and> map p_stock_quantity (rows (products (db s'))) = [15]
      \<and> map p_cost (rows (products (db shop))) = [5]
      \<and> map p_cost (rows (products (db s'))) = [3]) \<and>
   (\<exists>s'. post_purchases 1 (Some 1) 15 (Some ''paid'') [five_phones] shop
             = (\<lparr>status = 200, body = Id 1\<rparr>, s')
      \<and> map stx_type (rows (supplier_transactions (db s'))) = [''purchase'', ''payment'']
      \<and> map stx_amount (rows (supplier_transactions (db s'))) = [15, 15]
      \<and> map s_balance (rows (suppliers (db s'))) = [0])"
proof -
  have h: "io shop = None" "enum_ok [''paid'', ''partial'', ''unpaid''] (Some ''unpaid'')"
    "enum_ok [''paid'', ''partial'', ''unpaid''] (Some ''paid'')"
    "refers 1 (suppliers (db shop))" "refers_opt (Some 1) (users (db shop))"
    "list_all (\<lambda>item. refers (i_product_id item) (products (db shop))) [five_phones]"
    by (simp_all add: acme_def handset_def five_phones_def)
  show ?thesis
    using record_purchase_writes[OF h(1,2,4,5,6), of 15]
      record_purchase_writes[OF h(1,3,4,5,6), of 15] h
    unfolding shop_purchase shop_paid_purchase
    by (simp add: handset_def acme_def five_phones_def purchase_values_def purchase_item_values_def
        supplier_transaction_values_def)
qed

section \<open>A sale without a customer\<close>

text \<open>
  C10. A \<^verbatim>\<open>POST /api/sales\<close> whose \<^verbatim>\<open>customer_id\<close> is missing, or 0, inserts no
  transaction and leaves the customers as they were, whatever the outcome: every table
  other than \<^verbatim>\<open>sales\<close>, \<^verbatim>\<open>sale_items\<close> and \<^verbatim>\<open>products\<close> is unchanged.
\<close>

theorem sale_without_customer_frame:
  assumes "\<not> truthy customer_id"
    and "post_sales customer_id user_id total_amount discount payment_status payment_method items s = (r, s')"
  shows "transactions (db s') = transactions (db s) \<and> customers (db s') = customers (db s)
     \<and> users (db s') = users (db s) \<and> settings (db s') = settings (db s)
     \<and> warehouses (db s') = warehouses (db s) \<and> suppliers (db s') = suppliers (db s)
     \<and> supplier_transactions (db s') = supplier_transactions (db s)
     \<and> maintenance (db s') = maintenance (db s) \<and> purchases (db s') = purchases (db s)
     \<and> purchase_items (db s') = purchase_items (db s) \<and> general_ledger (db s') = general_ledger (db s)
     \<and> stock_adjustments (db s') = stock_adjustments (db s)"
  using assms(2)
proof (cases rule: post_sales_cases)
  case (rollback e)
  then show ?thesis by simp
next
  case commit
  with assms(1) show ?thesis by (simp add: sale_body_no_fault)
qed

text \<open>
  The shop sells two phones to nobody in particular: the sale is recorded, the stock goes
  from 10 to 8, and the customer and the transactions are as before. The same sale posted
  with \<^verbatim>\<open>customer_id: 0\<close>, as the client does, is refused by the foreign key of
  \<^verbatim>\<open>sales\<close>, and nothing changes at all.
\<close>

theorem sale_without_customer_frame_witness:
  "\<not> truthy None \<and>
   fst (post_sales None (Some 1) 20 0 (Some ''paid'') ''Cash'' [two_phones] shop)
     = \<lparr>status = 200, body = Id 1\<rparr> \<and>
   transactions (db (snd (post_sales None (Some 1) 20 0 (Some ''paid'') ''Cash'' [two_phones] shop)))
     = empty_table \<and>
   customers (db (snd (post_sales None (Some 1) 20 0 (Some ''paid'') ''Cash'' [two_phones] shop)))
     = \<lparr>rows = [ali], seq = 1\<rparr> \<and>
   map p_stock_quantity (rows (products (db (snd
     (post_sales None (Some 1) 20 0 (Some ''paid'') ''Cash'' [two_phones] shop))))) = [8] \<and>
   \<not> truthy (Some 0) \<and>
   post_sales (Some 0) (Some 1) 20 0 (Some ''paid'') ''Cash'' [two_phones] shop
     = (\<lparr>status = 400, body = Error SQLITE_CONSTRAINT_FOREIGNKEY\<rparr>, shop)"
proof -
  have h: "\<not> truthy None" "\<not> truthy (Some 0)" by (simp_all add: truthy_def)
  show ?thesis
    using sale_without_customer_frame[OF h(1) shop_sale_without_customer]
      sale_without_customer_frame[OF h(2) shop_walk_in_sale] h
    by (simp add: shop_sale_without_customer shop_walk_in_sale handset_def)
qed

section \<open>The subtotal of a sale item\<close>

text \<open>
  C8 as stated fails: the shop accepts a sale to its customer whose only item has quantity 2,
  unit price 10 and subtotal 999, and stores the row as posted.
\<close>

theorem subtotal_not_checked:
  "status (fst (post_sales (Some 1) (Some 1) 999 0 (Some ''paid'') ''Cash'' [misposted] shop)) = 200 \<and>
   map sai_quantity (rows (sale_items (db (snd
        (post_sales (Some 1) (Some 1) 999 0 (Some ''paid'') ''Cash'' [misposted] shop))))) = [2] \<and>
   map sai_unit_price (rows (sale_items (db (snd
        (post_sales (Some 1) (Some 1) 999 0 (Some ''paid'') ''Cash'' [misposted] shop))))) = [10] \<and>
   map sai_subtotal (rows (sale_items (db (snd
        (post_sales (Some 1) (Some 1) 999 0 (Some ''paid'') ''Cash'' [misposted] shop))))) = [999] \<and>
   \<not> list_all (\<lambda>row. sai_subtotal row = real_of_int (sai_quantity row) * sai_unit_price row)
      (rows (sale_items (db (snd
        (post_sales (Some 1) (Some 1) 999 0 (Some ''paid'') ''Cash'' [misposted] shop)))))"
  by (simp add: shop_misposted_sale)

text \<open>
  C8, as the code has it. The handler stores \<^verbatim>\<open>item.subtotal\<close> as posted and never
  multiplies: the rows a sale adds to \<^verbatim>\<open>sale_items\<close> carry the quantity, the unit price and
  the subtotal of the request's items, one for one. So every stored subtotal is quantity
  times unit price exactly when that holds of every posted item.
\<close>

theorem sale_item_rows_as_posted:
  assumes "post_sales customer_id user_id total_amount discount payment_status payment_method items s = (r, s')"
    and "status r = 200"
  shows "\<exists>new. rows (sale_items (db s')) = rows (sale_items (db s)) @ new
      \<and> map sai_quantity new = map i_quantity items
      \<and> map sai_unit_price new = map i_unit_price items
      \<and> map sai_subtotal new = map i_subtotal items
      \<and> (list_all (\<lambda>row. sai_subtotal row = real_of_int (sai_quantity row) * sai_unit_price row) new
           \<longleftrightarrow> list_all (\<lambda>item. i_subtotal item = real_of_int (i_quantity item) * i_unit_price item) items)"
  using assms(1)
proof (cases rule: post_sales_cases)
  case (rollback e)
  with assms(2) show ?thesis by simp
next
  case commit
  let ?new = "map (\<lambda>(i, item). (sale_item_values (next_rowid (sales (db s))) item)\<lparr>rowid := next_rowid (sale_items (db s)) + int i\<rparr>)
             (enumerate 0 items)"
  have "rows (sale_items (db s')) = rows (sale_items (db s)) @ ?new"
    using commit by (simp add: sale_body_no_fault rows_fold_append_auto)
  moreover have "map sai_quantity ?new = map i_quantity items"
     "map sai_unit_price ?new = map i_unit_price items"
     "map sai_subtotal ?new = map i_subtotal items"
    by (simp_all add: comp_def case_prod_unfold sale_item_values_def enumerate_eq_zip map_snd_zip flip: map_map [of _ snd, unfolded comp_def])
  ultimately show ?thesis
    using subtotal_check_cong[of sai_quantity ?new i_quantity items sai_unit_price i_unit_price sai_subtotal i_subtotal]
    by blast
qed

theorem sale_item_rows_as_posted_witness:
  "status (fst (post_sales (Some 1) (Some 1) 20 0 (Some ''paid'') ''Cash'' [two_phones] shop)) = 200 \<and>
   (\<exists>new. rows (sale_items (db (snd
       (post_sales (Some 1) (Some 1) 20 0 (Some ''paid'') ''Cash'' [two_phones] shop)))) =
         rows (sale_items (db shop)) @ new
      \<and> map sai_quantity new = [2] \<and> map sai_unit_price new = [10] \<and> map sai_subtotal new = [20])"
proof -
  have h: "status \<lparr>status = 200, body = Id 1\<rparr> = 200" by simp
  show ?thesis
    using sale_item_rows_as_posted[OF shop_paid_sale h]
    unfolding shop_paid_sale
    by (simp add: two_phones_def)
qed

section \<open>Validation\<close>

text \<open>
  C5 as stated fails: no handler looks at its input before it writes. The shop accepts a
  stock adjustment of quantity -3, answers 200, stores the row and raises the stock from 10
  to 13.
\<close>

theorem negative_quantity_accepted:
  "status (fst (post_stock_adjustments 1 (Some ''damaged'') (- 3) ''recount'' shop)) = 200 \<and>
   map adj_quantity (rows (stock_adjustments (db (snd
     (post_stock_adjustments 1 (Some ''damaged'') (- 3) ''recount'' shop))))) = [- 3] \<and>
   map p_stock_quantity (rows (products (db shop))) = [10] \<and>
   map p_stock_quantity (rows (products (db (snd
     (post_stock_adjustments 1 (Some ''damaged'') (- 3) ''recount'' shop))))) = [13]"
  by (simp add: shop_negative_adjustment handset_def)

text \<open>
  C5, as the code has it. What is wrong with a request is found by the store when the row is
  inserted, inside the transaction: an enum value out of range by the \<^verbatim>\<open>CHECK\<close> constraint
  of the table, a product that does not exist by the foreign key. For the kind and the
  product of a stock adjustment, and for the payment status of a sale, the transaction is
  rolled back, the database is as before and the answer is 400. The quantity is not looked
  at: with a kind of the enum, or none, a product that exists and a store that does not
  fail, a stock adjustment answers 200 for every quantity, stores the row and subtracts the
  quantity from the product's stock.
\<close>

theorem only_the_enum_is_checked:
  assumes "post_stock_adjustments product_id type quantity reason s = (r, s')"
    and "post_sales customer_id user_id total_amount discount payment_status payment_method items s
           = (r2, s2)"
  shows "(\<not> enum_ok [''damaged'', ''correction'', ''lost''] type \<longrightarrow> status r = 400 \<and> db s' = db s)
     \<and> (\<not> refers product_id (products (db s)) \<longrightarrow> status r = 400 \<and> db s' = db s)
     \<and> (\<not> enum_ok [''paid'', ''partial'', ''unpaid''] payment_status \<longrightarrow> status r2 = 400 \<and> db s2 = db s)
     \<and> (enum_ok [''damaged'', ''correction'', ''lost''] type \<and> refers product_id (products (db s))
          \<and> io s = None \<longrightarrow>
          status r = 200
          \<and> rows (stock_adjustments (db s')) = rows (stock_adjustments (db s)) @
               [\<lparr>rowid = next_rowid (stock_adjustments (db s)), adj_product_id = product_id,
                 adj_type = type, adj_quantity = quantity, adj_reason = reason,
                 adj_created_at = now s\<rparr>]
          \<and> rows (products (db s')) =
               map (\<lambda>p. if rowid p = product_id
                        then p\<lparr>p_stock_quantity := p_stock_quantity p - quantity\<rparr> else p)
                 (rows (products (db s))))"
proof -
  have a: "status r = 400 \<and> db s' = db s"
    if "\<not> enum_ok [''damaged'', ''correction'', ''lost''] type"
    using assms(1) by (cases rule: post_stock_adjustments_cases) (use that in simp_all)
  have a': "status r = 400 \<and> db s' = db s"
    if "\<not> refers product_id (products (db s))"
    using assms(1) by (cases rule: post_stock_adjustments_cases) (use that in simp_all)
  have b: "status r2 = 400 \<and> db s2 = db s"
    if "\<not> enum_ok [''paid'', ''partial'', ''unpaid''] payment_status"
    using assms(2) by (cases rule: post_sales_cases) (use that in simp_all)
  have c: "status r = 200
          \<and> rows (stock_adjustments (db s')) = rows (stock_adjustments (db s)) @
               [\<lparr>rowid = next_rowid (stock_adjustments (db s)), adj_product_id = product_id,
                 adj_type = type, adj_quantity = quantity, adj_reason = reason,
                 adj_created_at = now s\<rparr>]
          \<and> rows (products (db s')) =
               map (\<lambda>p. if rowid p = product_id
                        then p\<lparr>p_stock_quantity := p_stock_quantity p - quantity\<rparr> else p)
                 (rows (products (db s)))"
    if "enum_ok [''damaged'', ''correction'', ''lost''] type \<and> refers product_id (products (db s))
          \<and> io s = None"
    using assms(1) that
    by (auto simp: post_stock_adjustments_def transaction_def stock_adjustment_body_no_fault
        stock_adjustment_values_def)
  from a a' b c show ?thesis by blast
qed

text \<open>
  In the shop: a kind that is not of the enum, a product that does not exist and a payment
  status that is not of the enum are each answered 400 with nothing changed, and the
  adjustment of -3 goes through.
\<close>

theorem only_the_enum_is_checked_witness:
  "\<not> enum_ok [''damaged'', ''correction'', ''lost''] (Some ''stolen'') \<and>
   status (fst (post_stock_adjustments 1 (Some ''stolen'') 1 '''' shop)) = 400 \<and>
   db (snd (post_stock_adjustments 1 (Some ''stolen'') 1 '''' shop)) = db shop \<and>
   \<not> refers 7 (products (db shop)) \<and>
   status (fst (post_stock_adjustments 7 (Some ''damaged'') 1 ''recount'' shop)) = 400 \<and>
   db (snd (post_stock_adjustments 7 (Some ''damaged'') 1 ''recount'' shop)) = db shop \<and>
   \<not> enum_ok [''paid'', ''partial'', ''unpaid''] (Some ''refunded'') \<and>
   status (fst (post_sales (Some 1) (Some 1) 20 0 (Some ''refunded'') ''Cash'' [two_phones] shop)) = 400 \<and>
   db (snd (post_sales (Some 1) (Some 1) 20 0 (Some ''refunded'') ''Cash'' [two_phones] shop)) = db shop \<and>
   enum_ok [''damaged'', ''correction'', ''lost''] (Some ''damaged'') \<and>
   refers 1 (products (db shop)) \<and> io shop = None \<and>
   status (fst (post_stock_adjustments 1 (Some ''damaged'') (- 3) ''recount'' shop)) = 200 \<and>
   map p_stock_quantity (rows (products (db (snd
     (post_stock_adjustments 1 (Some ''damaged'') (- 3) ''recount'' shop))))) = [13]"
  using
    only_the_enum_is_checked[where s = shop and product_id = 1 and type = "Some ''stolen''"
      and quantity = 1 and reason = "[]" and customer_id = "Some 1" and user_id = "Some 1"
      and total_amount = 20 and discount = 0 and payment_status = "Some ''refunded''"
      and payment_method = "''Cash''" and items = "[two_phones]",
      OF surjective_pairing surjective_pairing]
    only_the_enum_is_checked[where s = shop and product_id = 7 and type = "Some ''damaged''"
      and quantity = 1 and reason = "''recount''" and customer_id = "Some 1"
      and user_id = "Some 1" and total_amount = 20 and discount = 0
      and payment_status = "Some ''paid''" and payment_method = "''Cash''"
      and items = "[two_phones]", OF surjective_pairing surjective_pairing]
    only_the_enum_is_checked[where s = shop and product_id = 1 and type = "Some ''damaged''"
      and quantity = "- 3" and reason = "''recount''" and customer_id = "Some 1"
      and user_id = "Some 1" and total_amount = 20 and discount = 0
      and payment_status = "Some ''paid''" and payment_method = "''Cash''"
      and items = "[two_phones]", OF surjective_pairing surjective_pairing]
  by (simp add: handset_def)

section \<open>Payments are not atomic\<close>

text \<open>
  C3 does not hold of the code. \<^verbatim>\<open>POST /api/payments\<close> and \<^verbatim>\<open>POST /api/supplier-payments\<close>
  run their two statements outside any transaction, unlike the sale, the purchase and the
  stock adjustment. In the shop, when the store fails at the second statement (the update of
  the balance), the request is answered with an error and the payment row stays: the
  balance column of the customer, and of the supplier, no longer matches the rows.
\<close>

theorem payment_row_survives_failed_update:
  "post_payments 1 50 ''Payment received'' (shop\<lparr>io := Some 1\<rparr>) =
     (\<lparr>status = 500, body = Error SQLITE_IOERR\<rparr>,
      shop\<lparr>io := Some 0,
           db := shop_db\<lparr>transactions :=
             \<lparr>rows = [\<lparr>rowid = 1, tx_customer_id = 1, tx_type = ''payment'', tx_amount = 50,
                       tx_description = ''Payment received'',
                       tx_created_at = ''2024-01-01 10:00:00''\<rparr>], seq = 1\<rparr>\<rparr>\<rparr>) \<and>
   post_supplier_payments 1 50 ''Paid by transfer'' (shop\<lparr>io := Some 1\<rparr>) =
     (\<lparr>status = 400, body = Error SQLITE_IOERR\<rparr>,
      shop\<lparr>io := Some 0,
           db := shop_db\<lparr>supplier_transactions :=
             \<lparr>rows = [\<lparr>rowid = 1, stx_supplier_id = 1, stx_type = ''payment'', stx_amount = 50,
                       stx_description = ''Paid by transfer'',
                       stx_created_at = ''2024-01-01 10:00:00''\<rparr>], seq = 1\<rparr>\<rparr>\<rparr>)"
  by (simp add: post_payments_def post_supplier_payments_def andThen_def run_now_def run_def
      query_def updateCustomerBalance_def updateSupplierBalance_def
      insert_transaction_def insert_supplier_transaction_def insert_new_eq
      transactions_ok_def supplier_transactions_ok_def transactions_fk_def
      supplier_transactions_fk_def transaction_values_def supplier_transaction_values_def
      append_auto_def ali_def acme_def)

section \<open>A paid sale and the opening balance\<close>

text \<open>
  C6 does not hold of the code. The shop's customer was registered with an opening balance
  of 100, which \<^verbatim>\<open>POST /api/customers\<close> also writes to the balance. A paid sale of 20 inserts
  a sale and a payment of 20 each, and the recomputation, which sums transactions only,
  sets the balance to 0: the opening balance is gone.
\<close>

theorem paid_sale_drops_opening_balance:
  "post_customers ''Ali'' ''777'' '''' '''' 100 '''' (shop\<lparr>db := shop_db\<lparr>customers := empty_table\<rparr>\<rparr>)
     = (\<lparr>status = 200, body = Id 1\<rparr>, shop) \<and>
   map c_balance (rows (customers (db shop))) = [100] \<and>
   fst (post_sales (Some 1) (Some 1) 20 0 (Some ''paid'') ''Cash'' [two_phones] shop)
     = \<lparr>status = 200, body = Id 1\<rparr> \<and>
   map c_balance (rows (customers (db (snd
     (post_sales (Some 1) (Some 1) 20 0 (Some ''paid'') ''Cash'' [two_phones] shop))))) = [0]"
  by (simp add: shop_registers_ali shop_paid_sale ali_def)

section \<open>Export, then import\<close>

text \<open>
  C9. \<^verbatim>\<open>GET /api/backup/export\<close> changes nothing and, when it answers 200 (it does when the
  store does not fail), its body is the snapshot of the database: every row of every table.
  \<^verbatim>\<open>POST /api/backup/import\<close> of that snapshot leaves the database as it was, row for row
  and counter for counter, whether or not the store fails in between; the rows keep their
  identifiers, which the snapshot carries. The database is one that SQLite can hold
  (\<^const>\<open>db_wf\<close>). The answer of the import is another matter: when the store does not fail
  it is 200 exactly when no row of the database is named by a row of another table;
  otherwise the first \<^verbatim>\<open>DELETE\<close> of a table whose rows are named is refused by the foreign
  key, the answer is 500 and the database is as it was because the transaction is rolled
  back.
\<close>

theorem export_import_round_trip:
  assumes "db_wf (db s)"
    and "get_backup_export s = (r, s1)"
    and "post_backup_import (backup_of (db s)) s1 = (r', s')"
  shows "db s1 = db s
     \<and> (status r = 200 \<longrightarrow> body r = Backup (backup_of (db s)))
     \<and> (io s = None \<longrightarrow> status r = 200 \<and> io s1 = None)
     \<and> db s' = db s
     \<and> (status r' = 200 \<or> status r' = 500)
     \<and> (io s1 = None \<longrightarrow> (status r' = 200 \<longleftrightarrow> unreferenced (db s)))"
proof -
  note e = get_backup_export_cases[OF assms(2)]
  from e(1) assms(1,3) have wf: "db_wf (db s1)"
    and i: "post_backup_import (backup_of (db s1)) s1 = (r', s')"
    by simp_all
  note m = import_own_export[OF wf i]
  have a: "status r = 200 \<and> io s1 = None" if "io s = None"
    using e(3)[OF that] that by simp
  have b: "status r' = 200 \<longleftrightarrow> unreferenced (db s)" if "io s1 = None"
    using m(2)[OF that] e(1) by simp
  from e(1,2) m(1,3) a b show ?thesis by simp
qed

text \<open>
  The shop, where nothing is sold yet, exported and imported again: 200, and the same
  database. The shop after a sale: the import of its own export is answered 500, since the
  sale names a user, and the database is the same.
\<close>

theorem export_import_round_trip_witness:
  "db_wf (db shop) \<and> db_wf (db sold) \<and> unreferenced (db shop) \<and> \<not> unreferenced (db sold) \<and>
   get_backup_export shop = (\<lparr>status = 200, body = Backup (backup_of (db shop))\<rparr>, shop) \<and>
   db (snd (post_backup_import (backup_of (db shop)) shop)) = db shop \<and>
   status (fst (post_backup_import (backup_of (db shop)) shop)) = 200 \<and>
   get_backup_export sold = (\<lparr>status = 200, body = Backup (backup_of (db sold))\<rparr>, sold) \<and>
   db (snd (post_backup_import (backup_of (db sold)) sold)) = db sold \<and>
   status (fst (post_backup_import (backup_of (db sold)) sold)) = 500"
proof -
  have e: "get_backup_export shop = (\<lparr>status = 200, body = Backup (backup_of (db shop))\<rparr>, shop)"
    "get_backup_export sold = (\<lparr>status = 200, body = Backup (backup_of (db sold))\<rparr>, sold)"
    by (simp_all add: get_backup_export_def export_body_no_fault)
  show ?thesis
    using export_import_round_trip[OF shop_wf e(1) surjective_pairing]
      export_import_round_trip[OF sold_wf e(2) surjective_pairing]
      e shop_wf sold_wf shop_unreferenced sold_referenced
    by auto
qed

section \<open>Restoring a backup\<close>

text \<open>
  C2. \<^verbatim>\<open>POST /api/backup/import\<close> goes through the tables in the order of \<^verbatim>\<open>TABLES\<close> and,
  for each table of the snapshot, deletes the rows of the table and inserts the rows of the
  snapshot, all in one \<^verbatim>\<open>db.transaction\<close>. So a request either answers 200, and then every
  table holds the rows of its snapshot array and nothing else (no row when the array is
  empty), or answers 500, and then every table is as it was before the request. A snapshot is
  a full export; a table that a body leaves out is skipped by the handler's
  \<^verbatim>\<open>if (backup[table])\<close> and keeps its rows, which \<^const>\<open>restored\<close> says as well.

  When it is which: the order of \<^verbatim>\<open>TABLES\<close> deletes users, products, suppliers, customers,
  sales and purchases before the tables whose rows name them, so a restore is answered 200
  only if no row of such a table is named by another row when the restore begins. If that is
  so, the store does not fail, and the snapshot is the export of a database that SQLite can
  hold (\<open>origin\<close>), the restore is answered 200 and the database is \<^const>\<open>restore_of\<close> the
  snapshot.
\<close>

theorem restore_replaces_every_table:
  assumes "post_backup_import backup s = (r, s')"
  shows "((status r = 200
          \<and> restored (b_users backup) (users (db s)) (users (db s'))
          \<and> restored_settings (b_settings backup) (settings (db s)) (settings (db s'))
          \<and> restored (b_products backup) (products (db s)) (products (db s'))
          \<and> restored (b_warehouses backup) (warehouses (db s)) (warehouses (db s'))
          \<and> restored (b_suppliers backup) (suppliers (db s)) (suppliers (db s'))
          \<and> restored (b_supplier_transactions backup) (supplier_transactions (db s)) (supplier_transactions (db s'))
          \<and> restored (b_customers backup) (customers (db s)) (customers (db s'))
          \<and> restored (b_sales backup) (sales (db s)) (sales (db s'))
          \<and> restored (b_sale_items backup) (sale_items (db s)) (sale_items (db s'))
          \<and> restored (b_transactions backup) (transactions (db s)) (transactions (db s'))
          \<and> restored (b_maintenance backup) (maintenance (db s)) (maintenance (db s'))
          \<and> restored (b_purchases backup) (purchases (db s)) (purchases (db s'))
          \<and> restored (b_purchase_items backup) (purchase_items (db s)) (purchase_items (db s'))
          \<and> restored (b_general_ledger backup) (general_ledger (db s)) (general_ledger (db s'))
          \<and> restored (b_stock_adjustments backup) (stock_adjustments (db s)) (stock_adjustments (db s')))
        \<or> (status r = 500 \<and> db s' = db s))
     \<and> (status r = 200 \<longrightarrow>
          (b_users backup \<noteq> None \<longrightarrow> \<not> blocked users held_users (db s))
          \<and> (b_products backup \<noteq> None \<longrightarrow> \<not> blocked products held_products (db s))
          \<and> (b_suppliers backup \<noteq> None \<longrightarrow> \<not> blocked suppliers held_suppliers (db s))
          \<and> (b_customers backup \<noteq> None \<longrightarrow> \<not> blocked customers held_customers (db s))
          \<and> (b_sales backup \<noteq> None \<longrightarrow> \<not> blocked sales held_sales (db s))
          \<and> (b_purchases backup \<noteq> None \<longrightarrow> \<not> blocked purchases held_purchases (db s)))
     \<and> (io s = None \<and> unreferenced (db s) \<and> db_wf origin \<and> backup = backup_of origin \<longrightarrow>
          status r = 200 \<and> db s' = restore_of origin (db s))"
proof -
  have a: "(status r = 200
          \<and> restored (b_users backup) (users (db s)) (users (db s'))
          \<and> restored_settings (b_settings backup) (settings (db s)) (settings (db s'))
          \<and> restored (b_products backup) (products (db s)) (products (db s'))
          \<and> restored (b_warehouses backup) (warehouses (db s)) (warehouses (db s'))
          \<and> restored (b_suppliers backup) (suppliers (db s)) (suppliers (db s'))
          \<and> restored (b_supplier_transactions backup) (supplier_transactions (db s)) (supplier_transactions (db s'))
          \<and> restored (b_customers backup) (customers (db s)) (customers (db s'))
          \<and> restored (b_sales backup) (sales (db s)) (sales (db s'))
          \<and> restored (b_sale_items backup) (sale_items (db s)) (sale_items (db s'))
          \<and> restored (b_transactions backup) (transactions (db s)) (transactions (db s'))
          \<and> restored (b_maintenance backup) (maintenance (db s)) (maintenance (db s'))
          \<and> restored (b_purchases backup) (purchases (db s)) (purchases (db s'))
          \<and> restored (b_purchase_items backup) (purchase_items (db s)) (purchase_items (db s'))
          \<and> restored (b_general_ledger backup) (general_ledger (db s)) (general_ledger (db s'))
          \<and> restored (b_stock_adjustments backup) (stock_adjustments (db s)) (stock_adjustments (db s')))
        \<or> (status r = 500 \<and> db s' = db s)"
    using assms
  proof (cases rule: post_backup_import_cases)
    case (rollback e)
    then show ?thesis by simp
  next
    case (commit a)
    with import_body_restores[OF commit(2)] show ?thesis by simp
  qed
  have b: "(b_users backup \<noteq> None \<longrightarrow> \<not> blocked users held_users (db s))
          \<and> (b_products backup \<noteq> None \<longrightarrow> \<not> blocked products held_products (db s))
          \<and> (b_suppliers backup \<noteq> None \<longrightarrow> \<not> blocked suppliers held_suppliers (db s))
          \<and> (b_customers backup \<noteq> None \<longrightarrow> \<not> blocked customers held_customers (db s))
          \<and> (b_sales backup \<noteq> None \<longrightarrow> \<not> blocked sales held_sales (db s))
          \<and> (b_purchases backup \<noteq> None \<longrightarrow> \<not> blocked purchases held_purchases (db s))"
    if "status r = 200"
  proof -
    from assms that obtain a where "import_body backup s = (Inr a, s')"
      by (cases rule: post_backup_import_cases) simp_all
    then show ?thesis by (rule import_body_unblocked)
  qed
  have c: "status r = 200 \<and> db s' = restore_of origin (db s)"
    if "io s = None \<and> unreferenced (db s) \<and> db_wf origin \<and> backup = backup_of origin"
    using assms that
    by (auto simp: post_backup_import_def transaction_def import_export_no_fault)
  from a b c show ?thesis by blast
qed

text \<open>
  The shop, where nothing is sold yet, restored from the export of a shop with two products
  and no customer: 200, the two products, and no customer. The shop after a sale, restored
  from the same export: the sale names a user, and the answer is 500 with nothing changed.
  And a restore of the shop that fails at the second product, after the users were already
  deleted: 500 with nothing changed.
\<close>

theorem restore_replaces_every_table_witness:
  "io shop = None \<and> unreferenced (db shop) \<and> db_wf stocked_db \<and>
   status (fst (post_backup_import (backup_of stocked_db) shop)) = 200 \<and>
   rows (customers (db shop)) = [ali] \<and>
   rows (customers (db (snd (post_backup_import (backup_of stocked_db) shop)))) = [] \<and>
   rows (products (db (snd (post_backup_import (backup_of stocked_db) shop))))
      = [handset, handset\<lparr>rowid := 2, p_sku := ''B''\<rparr>] \<and>
   restored (b_products (backup_of stocked_db)) (products (db shop))
      (products (db (snd (post_backup_import (backup_of stocked_db) shop)))) \<and>
   blocked users held_users (db sold) \<and>
   status (fst (post_backup_import (backup_of stocked_db) sold)) = 500 \<and>
   db (snd (post_backup_import (backup_of stocked_db) sold)) = db sold \<and>
   post_backup_import broken_snapshot shop
      = (\<lparr>status = 500, body = Error SQLITE_CONSTRAINT\<rparr>, shop)"
proof -
  have blocked: "blocked users held_users (db sold)"
    unfolding sold_eq by (simp add: blocked_def held_users_def)
  have full: "b_users (backup_of stocked_db) \<noteq> None" "b_products (backup_of stocked_db) = Some (rows (products stocked_db))"
    by (simp_all add: backup_of_def)
  note fresh = restore_replaces_every_table[where backup = "backup_of stocked_db" and s = shop
        and origin = stocked_db, OF surjective_pairing]
  note used = restore_replaces_every_table[where backup = "backup_of stocked_db" and s = sold
        and origin = stocked_db, OF surjective_pairing]
  from fresh shop_unreferenced stocked_wf
  have a: "status (fst (post_backup_import (backup_of stocked_db) shop)) = 200"
    "db (snd (post_backup_import (backup_of stocked_db) shop)) = restore_of stocked_db (db shop)"
    by simp_all
  from fresh a(1)
  have a': "restored (b_products (backup_of stocked_db)) (products (db shop))
      (products (db (snd (post_backup_import (backup_of stocked_db) shop))))"
    by simp
  from used blocked full(1)
  have b: "status (fst (post_backup_import (backup_of stocked_db) sold)) \<noteq> 200"
    by blast
  with used
  have c: "status (fst (post_backup_import (backup_of stocked_db) sold)) = 500"
    "db (snd (post_backup_import (backup_of stocked_db) sold)) = db sold"
    by blast+
  have d: "rows (customers (db shop)) = [ali]"
    "rows (customers (restore_of stocked_db (db shop))) = []"
    "rows (products (restore_of stocked_db (db shop))) = [handset, handset\<lparr>rowid := 2, p_sku := ''B''\<rparr>]"
    by (simp_all add: restore_of_def stocked_db_def)
  from a a' blocked c d shop_unreferenced stocked_wf shop_broken_restore show ?thesis
    by simp
qed

end
